(* ===== verification/Prelude.thy ===== *)
theory Prelude
  imports Complex_Main "HOL-Library.Word" "HOL-Library.Signed_Division" "HOL-Library.Sublist"
begin

text \<open>
  Shared vocabulary of the development: bytes, the Go and cgo conversions that the
  resampler applies to its integers (truncating division, float-to-int truncation,
  the C unsigned and signed widths), the outcome type that separates a Go panic from
  an ordinary return, and the lemmas that say when each conversion is exact.
  The collection \<open>go_conv\<close> gathers the exactness lemmas, so that a component proof
  reads \<open>simp add: go_conv\<close>.
\<close>

named_theorems go_conv "exactness of the Go and cgo integer conversions on their range"

type_synonym byte = "8 word"
type_synonym bytes = "byte list"

section \<open>Go integer semantics\<close>

text \<open>
  Go's \<open>/\<close> on \<open>int\<close> truncates towards zero: it is \<open>sdiv\<close> of
  HOL-Library.Signed_Division, not HOL's \<open>div\<close>. A Go \<open>int\<close> is modelled as an
  unbounded \<open>int\<close>: every product the resampler forms is far below \<open>2^63\<close> on a valid
  configuration. \<open>go_f2i\<close> is Go's conversion \<open>int(x)\<close> of a \<open>float64\<close>: the fraction
  is discarded (truncation towards zero).
\<close>

definition go_f2i :: "real \<Rightarrow> int" where
  "go_f2i x = (if 0 \<le> x then \<lfloor>x\<rfloor> else \<lceil>x\<rceil>)"

section \<open>cgo conversions\<close>

text \<open>
  \<open>C.size_t(x)\<close> and \<open>C.ulong(x)\<close> reinterpret a Go \<open>int\<close> as an unsigned 64-bit
  value, \<open>C.uint(x)\<close> as an unsigned 32-bit value, \<open>C.int(x)\<close> as a signed 32-bit
  value, and \<open>int(x)\<close> of a \<open>C.size_t\<close> as a signed 64-bit value: each wraps around.
\<close>

definition c_u64 :: "int \<Rightarrow> nat" where
  "c_u64 x = unat (word_of_int x :: 64 word)"

definition c_uint :: "int \<Rightarrow> 32 word" where
  "c_uint x = word_of_int x"

definition c_int :: "int \<Rightarrow> int" where
  "c_int x = sint (word_of_int x :: 32 word)"

definition go_int_of_u64 :: "nat \<Rightarrow> int" where
  "go_int_of_u64 n = sint (word_of_nat n :: 64 word)"

section \<open>Outcomes: return or panic\<close>

text \<open>
  A Go call either returns or panics (a nil interface called, an integer divided by
  zero, a slice made with a negative length). A panic ends the goroutine: nothing the
  function would have done afterwards happens, so the model stops there too.
\<close>

datatype 'a outcome = Ret 'a | Panic string

section \<open>Exactness of the conversions\<close>

lemma go_f2i_nonneg [go_conv]: "0 \<le> x \<Longrightarrow> go_f2i x = \<lfloor>x\<rfloor>"
  by (simp add: go_f2i_def)

lemma go_f2i_of_int [simp]: "go_f2i (of_int k) = k"
  by (simp add: go_f2i_def)

lemma go_f2i_eq_0_iff:
  assumes "0 \<le> x"
  shows "go_f2i x = 0 \<longleftrightarrow> x < 1"
  using assms by (simp add: go_f2i_def floor_eq_iff)

lemma go_f2i_bounds:
  assumes "0 \<le> x"
  shows "of_int (go_f2i x) \<le> x \<and> x < of_int (go_f2i x) + 1 \<and> 0 \<le> go_f2i x"
  using assms by (simp add: go_f2i_def)

lemma c_u64_exact [go_conv]: "0 \<le> x \<Longrightarrow> x < 2 ^ 64 \<Longrightarrow> c_u64 x = nat x"
  by (simp add: c_u64_def unsigned_of_int take_bit_int_eq_self)

lemma c_int_exact [go_conv]: "- (2 ^ 31) \<le> x \<Longrightarrow> x < 2 ^ 31 \<Longrightarrow> c_int x = x"
  by (simp add: c_int_def sint_sbintrunc' signed_take_bit_int_eq_self)

lemma go_int_of_u64_exact [go_conv]: "n < 2 ^ 63 \<Longrightarrow> go_int_of_u64 n = int n"
proof -
  assume n: "n < 2 ^ 63"
  then have "int n < 2 ^ 63" by (simp add: of_nat_less_iff [symmetric])
  then show ?thesis
    by (simp add: go_int_of_u64_def signed_of_nat signed_take_bit_int_eq_self)
qed

lemma int_le_mult_pos: "0 \<le> a \<Longrightarrow> 0 < b \<Longrightarrow> a \<le> a * (b :: int)"
  using mult_left_mono [of 1 b a] by simp

text \<open>\<open>C.uint\<close> of a negative \<open>int\<close> above \<open>-2^32\<close> wraps to \<open>2^32\<close> minus its magnitude.\<close>

lemma unat_c_uint_neg:
  assumes "- (2 ^ 32) \<le> x" "x < 0"
  shows "unat (c_uint x) = nat (2 ^ 32 + x)"
proof -
  have "take_bit 32 x = x mod 2 ^ 32" by (simp add: take_bit_eq_mod)
  also have "\<dots> = (x + 2 ^ 32) mod 2 ^ 32" by simp
  also have "\<dots> = 2 ^ 32 + x"
    using assms by (subst mod_pos_pos_trivial) simp_all
  finally show ?thesis by (simp add: c_uint_def unsigned_of_int)
qed

lemma unat_c_uint_pos [go_conv]: "0 \<le> x \<Longrightarrow> x < 2 ^ 32 \<Longrightarrow> unat (c_uint x) = nat x"
  by (simp add: c_uint_def unsigned_of_int take_bit_int_eq_self)

lemma sdiv_nonneg [go_conv]: "0 \<le> a \<Longrightarrow> 0 < b \<Longrightarrow> a sdiv b = a div b" for a b :: int
  by (auto simp add: signed_divide_int_def sgn_if)

text \<open>
  Go evaluates \<open>n / a / b\<close> from the left. For a non-negative \<open>n\<close> and positive
  divisors this is one division by the product.
\<close>

lemma sdiv_sdiv_nonneg:
  fixes n a b :: int
  assumes "0 \<le> n" "0 < a" "0 < b"
  shows "n sdiv a sdiv b = n div (a * b)"
proof -
  have "0 \<le> n div a" using assms by (simp add: pos_imp_zdiv_nonneg_iff)
  with assms show ?thesis by (simp add: sdiv_nonneg zdiv_zmult2_eq)
qed

text \<open>
  \<open>int(C.size_t(x))\<close> is the identity on every value of a Go \<open>int\<close>: the
  unsigned reinterpretation and the signed one undo each other at 64 bits, negative
  values included.
\<close>

lemma size_t_int_roundtrip:
  assumes "- (2 ^ 63) \<le> x" "x < 2 ^ 63"
  shows "go_int_of_u64 (c_u64 x) = x"
  using assms by (simp add: go_int_of_u64_def c_u64_def sint_sbintrunc' signed_take_bit_int_eq_self)

end
