(* ===== verification/Runtime.thy ===== *)
theory Runtime
  imports Prelude
begin

text \<open>
  The environment the resampler runs in: the C heap that cgo allocates from
  (\<open>C.malloc\<close>, \<open>C.CBytes\<close>, \<open>C.free\<close>, \<open>C.GoBytes\<close>), and the byte sinks that stand
  for the \<open>io.Writer\<close> destinations. A C pointer is null, the address of a heap block,
  or the address of a static string (the error strings of libsoxr are string literals).
  Freeing anything but null or a live heap block is undefined behaviour in C; the model
  records each such free in \<open>bad_frees\<close> instead of giving it a meaning.
  The world couples the heap with the sinks, indexed by a writer identity, so that two
  names for one writer (the resampler's destination and the caller's file) alias.
\<close>

section \<open>The C heap\<close>

datatype c_ptr = CNull | CAddr nat | CStatic string

datatype c_block = CBuf nat | CEngine

record c_heap =
  blocks :: "nat \<rightharpoonup> c_block"
  next_addr :: nat
  bad_frees :: "c_ptr list"

definition heap_wf :: "c_heap \<Rightarrow> bool" where
  "heap_wf h \<longleftrightarrow> (\<forall>a \<in> dom (blocks h). a < next_addr h)"

definition c_alloc :: "c_block \<Rightarrow> c_heap \<Rightarrow> c_ptr \<times> c_heap" where
  "c_alloc b h =
     (CAddr (next_addr h),
      h\<lparr>blocks := (blocks h)(next_addr h \<mapsto> b), next_addr := Suc (next_addr h)\<rparr>)"

text \<open>\<open>C.malloc(n)\<close>; cgo's wrapper never returns null (it aborts on exhaustion).\<close>

definition c_malloc :: "nat \<Rightarrow> c_heap \<Rightarrow> c_ptr \<times> c_heap" where
  "c_malloc n = c_alloc (CBuf n)"

text \<open>\<open>C.CBytes(p)\<close>: a fresh C copy of a Go slice.\<close>

definition c_cbytes :: "bytes \<Rightarrow> c_heap \<Rightarrow> c_ptr \<times> c_heap" where
  "c_cbytes bs = c_malloc (length bs)"

fun c_free :: "c_ptr \<Rightarrow> c_heap \<Rightarrow> c_heap" where
  "c_free CNull h = h"
| "c_free (CAddr a) h =
     (if a \<in> dom (blocks h) then h\<lparr>blocks := (blocks h)(a := None)\<rparr>
      else h\<lparr>bad_frees := bad_frees h @ [CAddr a]\<rparr>)"
| "c_free (CStatic s) h = h\<lparr>bad_frees := bad_frees h @ [CStatic s]\<rparr>"

text \<open>
  \<open>C.GoBytes(ptr, n)\<close> copies \<open>n\<close> bytes of a C buffer into a Go slice; the Go runtime
  panics on a negative length. The buffer's contents are those the engine wrote.
\<close>

definition go_bytes :: "bytes \<Rightarrow> int \<Rightarrow> bytes outcome" where
  "go_bytes buf n = (if n < 0 then Panic ''gobytes: length out of range'' else Ret (take (nat n) buf))"

section \<open>Byte sinks\<close>

text \<open>
  A destination is a byte sink: an \<open>os.File\<close> on a device with \<open>sink_room\<close> bytes
  left (\<open>None\<close>: unbounded, as a \<open>bytes.Buffer\<close>). A write to a full device stores
  what fits and fails; a write to a closed file stores nothing and fails.
\<close>

record sink =
  sink_data :: bytes
  sink_room :: "nat option"
  sink_closed :: bool

definition sink_write :: "sink \<Rightarrow> bytes \<Rightarrow> sink \<times> string option" where
  "sink_write s bs =
     (if sink_closed s then (s, Some ''file already closed'')
      else case sink_room s of
        None \<Rightarrow> (s\<lparr>sink_data := sink_data s @ bs\<rparr>, None)
      | Some n \<Rightarrow>
          if length bs \<le> n
          then (s\<lparr>sink_data := sink_data s @ bs, sink_room := Some (n - length bs)\<rparr>, None)
          else (s\<lparr>sink_data := sink_data s @ take n bs, sink_room := Some 0\<rparr>,
                Some ''no space left on device''))"

definition sink_accepts :: "sink \<Rightarrow> bytes \<Rightarrow> bool" where
  "sink_accepts s bs \<longleftrightarrow> \<not> sink_closed s \<and> (case sink_room s of None \<Rightarrow> True | Some n \<Rightarrow> length bs \<le> n)"

section \<open>The world\<close>

type_synonym wid = nat

record world =
  heap :: c_heap
  sinks :: "wid \<Rightarrow> sink"

definition w_malloc :: "nat \<Rightarrow> world \<Rightarrow> c_ptr \<times> world" where
  "w_malloc n w = (let (p, h) = c_malloc n (heap w) in (p, w\<lparr>heap := h\<rparr>))"

definition w_cbytes :: "bytes \<Rightarrow> world \<Rightarrow> c_ptr \<times> world" where
  "w_cbytes bs w = (let (p, h) = c_cbytes bs (heap w) in (p, w\<lparr>heap := h\<rparr>))"

definition w_free_all :: "c_ptr list \<Rightarrow> world \<Rightarrow> world" where
  "w_free_all ps w = w\<lparr>heap := fold c_free ps (heap w)\<rparr>"

text \<open>
  \<open>destination.Write(bs)\<close> through an interface value: calling a method of a nil
  interface panics.
\<close>

definition dest_write :: "wid option \<Rightarrow> bytes \<Rightarrow> world \<Rightarrow> (string option \<times> world) outcome" where
  "dest_write d bs w =
     (case d of
        None \<Rightarrow> Panic ''invalid memory address or nil pointer dereference''
      | Some i \<Rightarrow> (let (s, err) = sink_write (sinks w i) bs
                   in Ret (err, w\<lparr>sinks := (sinks w)(i := s)\<rparr>)))"

section \<open>Heap lemmas\<close>

named_theorems heap_simps "how allocation and release change the C heap"

lemma c_alloc_blocks [heap_simps]:
  "c_alloc b h = (p, h') \<Longrightarrow>
     p = CAddr (next_addr h) \<and> blocks h' = (blocks h)(next_addr h \<mapsto> b) \<and>
     next_addr h' = Suc (next_addr h) \<and> bad_frees h' = bad_frees h"
  by (auto simp: c_alloc_def)

lemma heap_wf_above: "heap_wf h \<Longrightarrow> next_addr h \<le> a \<Longrightarrow> blocks h a = None"
  unfolding heap_wf_def using leD by fastforce

lemma heap_wf_fresh: "heap_wf h \<Longrightarrow> blocks h (next_addr h) = None"
  by (simp add: heap_wf_above)

lemma heap_wf_c_alloc:
  assumes "heap_wf h" "c_alloc b h = (p, h')"
  shows "heap_wf h'"
  unfolding heap_wf_def
proof
  fix a assume "a \<in> dom (blocks h')"
  with assms(2) have "a = next_addr h \<or> a \<in> dom (blocks h)"
    by (auto simp: c_alloc_def split: if_splits)
  then have "a \<le> next_addr h"
    using assms(1) unfolding heap_wf_def by (auto intro: less_imp_le)
  moreover have "next_addr h' = Suc (next_addr h)"
    using assms(2) by (auto simp: c_alloc_def)
  ultimately show "a < next_addr h'" by simp
qed

lemma heap_wf_c_free: "heap_wf h \<Longrightarrow> heap_wf (c_free p h)"
  by (cases p) (auto simp: heap_wf_def)

lemma heap_wf_fold_free: "heap_wf h \<Longrightarrow> heap_wf (fold c_free ps h)"
  by (induction ps arbitrary: h) (auto intro: heap_wf_c_free)

lemma c_free_live [heap_simps]:
  "blocks h a \<noteq> None \<Longrightarrow> c_free (CAddr a) h = h\<lparr>blocks := (blocks h)(a := None)\<rparr>"
  by auto

lemma c_free_static [heap_simps]: "bad_frees (c_free (CStatic s) h) = bad_frees h @ [CStatic s]"
  by simp

lemma c_free_blocks_static [heap_simps]: "blocks (c_free (CStatic s) h) = blocks h"
  by simp

lemma heap_wf_next_addr: "heap_wf h \<Longrightarrow> a \<in> dom (blocks h) \<Longrightarrow> a \<noteq> next_addr h"
  by (auto simp: heap_wf_def)

lemma c_malloc_alloc: "c_malloc n h = c_alloc (CBuf n) h"
  by (simp add: c_malloc_def)

lemma c_cbytes_alloc: "c_cbytes bs h = c_alloc (CBuf (length bs)) h"
  by (simp add: c_cbytes_def c_malloc_def)

lemma heap_wf_bump1: "heap_wf h \<Longrightarrow> heap_wf (h\<lparr>next_addr := Suc (next_addr h)\<rparr>)"
  unfolding heap_wf_def by (simp, blast intro: less_SucI)

lemma heap_wf_bump2: "heap_wf h \<Longrightarrow> heap_wf (h\<lparr>next_addr := Suc (Suc (next_addr h))\<rparr>)"
  unfolding heap_wf_def by (simp, blast intro: less_SucI)

text \<open>
  One or two fresh blocks released in allocation order leave the heap as it was, but
  for the allocation counter: the shape of every cleanup label of \<open>resample.go\<close>.
\<close>

lemma alloc1_free1:
  assumes "heap_wf h" "c_alloc b h = (p, h1)"
  shows "c_free p h1 = h\<lparr>next_addr := Suc (next_addr h)\<rparr>"
proof -
  have f: "blocks h (next_addr h) = None" using assms(1) by (rule heap_wf_fresh)
  from assms(2) have "p = CAddr (next_addr h)"
    and "h1 = h\<lparr>blocks := (blocks h)(next_addr h \<mapsto> b), next_addr := Suc (next_addr h)\<rparr>"
    by (auto simp: c_alloc_def)
  with f show ?thesis by (simp add: fun_upd_idem)
qed

lemma alloc2_free2:
  assumes "heap_wf h" "c_alloc b1 h = (p1, h1)" "c_alloc b2 h1 = (p2, h2)"
  shows "fold c_free [p1, p2] h2 = h\<lparr>next_addr := Suc (Suc (next_addr h))\<rparr>"
proof -
  let ?n = "next_addr h"
  have f1: "blocks h ?n = None" using assms(1) by (rule heap_wf_fresh)
  have f2: "blocks h (Suc ?n) = None" using assms(1) by (simp add: heap_wf_above)
  from assms(2,3) have p: "p1 = CAddr ?n" "p2 = CAddr (Suc ?n)"
    and h2: "h2 = h\<lparr>blocks := ((blocks h)(?n \<mapsto> b1))(Suc ?n \<mapsto> b2), next_addr := Suc (Suc ?n)\<rparr>"
    by (auto simp: c_alloc_def)
  have "((((blocks h)(?n \<mapsto> b1))(Suc ?n \<mapsto> b2))(?n := None))(Suc ?n := None) = blocks h"
    using f1 f2 by (auto simp: fun_eq_iff)
  then show ?thesis using p h2 by simp
qed

lemma w_free_all_sinks [simp]: "sinks (w_free_all ps w) = sinks w"
  by (simp add: w_free_all_def)

lemma w_cbytes_sinks: "w_cbytes p w = (q, w') \<Longrightarrow> sinks w' = sinks w"
  by (auto simp: w_cbytes_def split: prod.splits)

lemma w_malloc_sinks: "w_malloc n w = (q, w') \<Longrightarrow> sinks w' = sinks w"
  by (auto simp: w_malloc_def split: prod.splits)

text \<open>The cleanup label of \<open>Write\<close>: \<open>dataIn\<close>, \<open>dataOut\<close>, then one more pointer.\<close>

lemma cleanup2:
  assumes "heap_wf (heap w)" "w_cbytes p w = (dIn, w1)" "w_malloc n w1 = (dOut, w2)"
    and "heap w3 = heap w2"
  shows "heap (w_free_all [dIn, dOut, q] w3) =
           c_free q ((heap w)\<lparr>next_addr := Suc (Suc (next_addr (heap w)))\<rparr>)"
proof -
  obtain h1 where a1: "c_alloc (CBuf (length p)) (heap w) = (dIn, h1)" and hw1: "heap w1 = h1"
    using assms(2) by (auto simp: w_cbytes_def c_cbytes_alloc split: prod.splits)
  obtain h2 where a2: "c_alloc (CBuf n) h1 = (dOut, h2)" and hw2: "heap w2 = h2"
    using assms(3) hw1 by (auto simp: w_malloc_def c_malloc_alloc split: prod.splits)
  have "fold c_free [dIn, dOut] h2 = (heap w)\<lparr>next_addr := Suc (Suc (next_addr (heap w)))\<rparr>"
    using assms(1) a1 a2 by (rule alloc2_free2)
  then show ?thesis using assms(4) hw2 by (simp add: w_free_all_def)
qed

text \<open>The cleanup label of \<open>flush\<close>: \<open>dataOut\<close>, then one more pointer.\<close>

lemma cleanup1:
  assumes "heap_wf (heap w)" "w_malloc n w = (dOut, w1)" "heap w2 = heap w1"
  shows "heap (w_free_all [dOut, q] w2) = c_free q ((heap w)\<lparr>next_addr := Suc (next_addr (heap w))\<rparr>)"
proof -
  obtain h1 where a1: "c_alloc (CBuf n) (heap w) = (dOut, h1)" and hw1: "heap w1 = h1"
    using assms(2) by (auto simp: w_malloc_def c_malloc_alloc split: prod.splits)
  have "c_free dOut h1 = (heap w)\<lparr>next_addr := Suc (next_addr (heap w))\<rparr>"
    using assms(1) a1 by (rule alloc1_free1)
  then show ?thesis using assms(3) hw1 by (simp add: w_free_all_def)
qed

text \<open>
  \<open>C.GoBytes(buf, C.int(n * c * s))\<close> with \<open>n\<close> a \<open>C.size_t\<close> count: exact, and a
  plain prefix of the buffer, as long as the byte count fits a C \<open>int\<close>.
\<close>

lemma go_bytes_exact:
  assumes "int n * c * s < 2 ^ 31" "0 < c" "0 < s"
  shows "go_bytes buf (c_int (go_int_of_u64 n * c * s)) = Ret (take (n * nat (c * s)) buf)"
proof -
  have "0 < c * s" using assms(2,3) by simp
  then have "int n \<le> int n * c * s" by (simp add: int_le_mult_pos mult.assoc)
  then have "int n < 2 ^ 31" using assms(1) by linarith
  then have "n < (2::nat) ^ 31" by (simp add: of_nat_less_iff [symmetric])
  then have "n < 2 ^ 63" by (rule less_le_trans) simp
  then have g: "go_int_of_u64 n = int n" by (rule go_int_of_u64_exact)
  have nn: "0 \<le> int n * c * s" using assms(2,3) by simp
  have "c_int (int n * c * s) = int n * c * s"
    using assms(1) nn by (intro c_int_exact) simp_all
  moreover have "nat (int n * c * s) = n * nat (c * s)"
    using assms(2,3) by (simp add: nat_mult_distrib mult.assoc)
  ultimately show ?thesis using nn by (simp add: g go_bytes_def)
qed

section \<open>Sink lemmas\<close>

lemma sink_write_accepts:
  "sink_accepts s bs \<Longrightarrow> sink_write s bs = (s\<lparr>sink_data := sink_data s @ bs,
     sink_room := map_option (\<lambda>n. n - length bs) (sink_room s)\<rparr>, None)"
  by (auto simp: sink_write_def sink_accepts_def split: option.splits)

lemma sink_write_error_iff: "snd (sink_write s bs) = None \<longleftrightarrow> sink_accepts s bs"
  by (auto simp: sink_write_def sink_accepts_def split: option.splits)

lemma sink_write_prefix: "\<exists>k. sink_data (fst (sink_write s bs)) = sink_data s @ take k bs"
proof -
  have "sink_data (fst (sink_write s bs)) \<in>
          {sink_data s @ take 0 bs, sink_data s @ take (length bs) bs} \<union>
          (\<Union>n. {sink_data s @ take n bs})"
    by (auto simp: sink_write_def split: option.splits)
  then show ?thesis by blast
qed

lemma sink_write_Nil_data: "sink_write s [] = (s', e) \<Longrightarrow> sink_data s' = sink_data s"
  by (auto simp: sink_write_def split: option.splits if_splits)

lemma sink_write_closed: "sink_closed (fst (sink_write s bs)) = sink_closed s"
  by (auto simp: sink_write_def split: option.splits)

lemma dest_write_heap: "dest_write d bs w = Ret (err, w') \<Longrightarrow> heap w' = heap w"
  by (auto simp: dest_write_def split: option.splits prod.splits)

lemma dest_write_Some:
  "dest_write (Some i) bs w =
     Ret (snd (sink_write (sinks w i) bs), w\<lparr>sinks := (sinks w)(i := fst (sink_write (sinks w i) bs))\<rparr>)"
  by (simp add: dest_write_def split: prod.splits)

lemma sink_write_prefix_data: "prefix (sink_data s) (sink_data (fst (sink_write s bs)))"
  using sink_write_prefix [of s bs] by auto

lemma dest_write_prefix:
  "dest_write d bs w = Ret (err, w') \<Longrightarrow> prefix (sink_data (sinks w j)) (sink_data (sinks w' j))"
  using sink_write_prefix_data [of "sinks w j" bs]
  by (auto simp: dest_write_def split: option.splits prod.splits)

lemma dest_write_length:
  "dest_write d bs w = Ret (err, w') \<Longrightarrow>
     length (sink_data (sinks w' j)) \<le> length (sink_data (sinks w j)) + length bs"
  using sink_write_prefix [of "sinks w j" bs]
  by (auto simp: dest_write_def split: option.splits prod.splits)

lemma dest_write_ok:
  "dest_write (Some i) bs w = Ret (None, w') \<Longrightarrow>
     sink_data (sinks w' i) = sink_data (sinks w i) @ bs"
  by (auto simp: dest_write_def sink_write_def split: prod.splits option.splits if_splits)

lemma dest_write_other:
  "dest_write d bs w = Ret (err, w') \<Longrightarrow> d \<noteq> Some j \<Longrightarrow> sinks w' j = sinks w j"
  by (auto simp: dest_write_def split: option.splits prod.splits)

end
