(* ===== verification/Soxr.thy ===== *)
theory Soxr
  imports Runtime
begin

text \<open>
  The engine binding: the part of libsoxr that \<open>resample.go\<close> calls through cgo
  (\<open>soxr_io_spec\<close>, \<open>soxr_quality_spec\<close>, \<open>soxr_runtime_spec\<close>, \<open>soxr_create\<close>,
  \<open>soxr_process\<close>, \<open>soxr_clear\<close>, \<open>soxr_delete\<close>). libsoxr is not part of the
  repository; its numerical behaviour is opaque, so the engine is an interface, the
  record \<open>soxr_api\<close> of its three state-changing calls over an engine state \<open>'e\<close>,
  and every theorem about the resampler holds for any engine. The binding adds what the
  C side does to the heap: a created engine is a heap block, deleted by \<open>soxr_delete\<close>.
  An error is a C string pointer, null on success; \<open>resample.go\<close> tests it through
  \<open>C.GoString\<close> and frees it with \<open>C.free\<close>.
  \<open>ref_api\<close> is a reference engine (a test double, not libsoxr): it consumes all input,
  emits \<open>\<lfloor>frames fed \<times> ratio\<rfloor>\<close> frames of silence in total, holding back a fixed
  latency until a flush. The witnesses run the resampler on it.
\<close>

section \<open>Errors\<close>

type_synonym soxr_error = "string option"

definition go_string :: "soxr_error \<Rightarrow> string" where
  "go_string e = (case e of None \<Rightarrow> [] | Some s \<Rightarrow> s)"

text \<open>The test \<open>C.GoString(soxErr) != "" && C.GoString(soxErr) != "0"\<close>.\<close>

definition soxr_failed :: "soxr_error \<Rightarrow> bool" where
  "soxr_failed e \<longleftrightarrow> go_string e \<noteq> [] \<and> go_string e \<noteq> ''0''"

definition soxr_error_ptr :: "soxr_error \<Rightarrow> c_ptr" where
  "soxr_error_ptr e = (case e of None \<Rightarrow> CNull | Some s \<Rightarrow> CStatic s)"

section \<open>Specifications passed to soxr_create\<close>

record io_spec =
  io_itype :: int
  io_otype :: int
  io_scale :: real
  io_flags :: nat

definition soxr_io_spec :: "int \<Rightarrow> int \<Rightarrow> io_spec" where
  "soxr_io_spec itype otype = \<lparr>io_itype = itype, io_otype = otype, io_scale = 1, io_flags = 0\<rparr>"

record quality_spec =
  q_recipe :: nat
  q_flags :: nat

definition soxr_quality_spec :: "nat \<Rightarrow> nat \<Rightarrow> quality_spec" where
  "soxr_quality_spec recipe flags = \<lparr>q_recipe = recipe, q_flags = flags\<rparr>"

record runtime_spec =
  rt_num_threads :: "32 word"

definition soxr_runtime_spec :: "32 word \<Rightarrow> runtime_spec" where
  "soxr_runtime_spec n = \<lparr>rt_num_threads = n\<rparr>"

text \<open>
  The interleaved sample types of \<open>soxr.h\<close> (\<open>SOXR_FLOAT32_I = 0\<close>,
  \<open>SOXR_FLOAT64_I = 1\<close>, \<open>SOXR_INT32_I = 2\<close>, \<open>SOXR_INT16_I = 3\<close>) and the bytes of
  one sample of each: what the engine reads and writes per sample.
\<close>

definition soxr_datasize :: "int \<Rightarrow> nat option" where
  "soxr_datasize t =
     (if t = 0 then Some 4 else if t = 1 then Some 8 else if t = 2 then Some 4
      else if t = 3 then Some 2 else None)"

section \<open>The engine interface\<close>

text \<open>
  \<open>sx_process e input olen\<close> is \<open>soxr_process\<close> with \<open>input\<close> the input buffer
  and its length in frames (\<open>None\<close>: a null input, which asks the engine to flush) and
  an output buffer of \<open>olen\<close> frames; it returns the error, the new state, the frames
  consumed (\<open>idone\<close>), the frames produced (\<open>odone\<close>) and the bytes written into the
  output buffer.
\<close>

record 'e soxr_api =
  sx_create :: "real \<Rightarrow> real \<Rightarrow> 32 word \<Rightarrow> io_spec \<Rightarrow> quality_spec \<Rightarrow> runtime_spec \<Rightarrow>
                 soxr_error \<times> 'e option"
  sx_process :: "'e \<Rightarrow> (bytes \<times> nat) option \<Rightarrow> nat \<Rightarrow> soxr_error \<times> 'e \<times> nat \<times> nat \<times> bytes"
  sx_clear :: "'e \<Rightarrow> 'e"

text \<open>A handle is the heap address of the engine and the engine's state.\<close>

type_synonym 'e soxr_t = "nat \<times> 'e"

definition soxr_create_w ::
  "'e soxr_api \<Rightarrow> real \<Rightarrow> real \<Rightarrow> 32 word \<Rightarrow> io_spec \<Rightarrow> quality_spec \<Rightarrow> runtime_spec \<Rightarrow>
   world \<Rightarrow> soxr_error \<times> 'e soxr_t option \<times> world" where
  "soxr_create_w api ir orate ch io q rt w =
     (case sx_create api ir orate ch io q rt of
        (err, None) \<Rightarrow> (err, None, w)
      | (err, Some e) \<Rightarrow>
          (err, Some (next_addr (heap w), e), w\<lparr>heap := snd (c_alloc CEngine (heap w))\<rparr>))"

definition soxr_delete_w :: "nat \<Rightarrow> world \<Rightarrow> world" where
  "soxr_delete_w a w = w_free_all [CAddr a] w"

section \<open>A reference engine\<close>

record ref_state =
  rf_ratio :: real
  rf_frame :: nat
  rf_latency :: nat
  rf_fed :: nat
  rf_sent :: nat

definition ref_create ::
  "nat \<Rightarrow> real \<Rightarrow> real \<Rightarrow> 32 word \<Rightarrow> io_spec \<Rightarrow> quality_spec \<Rightarrow> runtime_spec \<Rightarrow>
   soxr_error \<times> ref_state option" where
  "ref_create lat ir orate ch io q rt =
     (if ir \<le> 0 \<or> orate \<le> 0 then (Some ''invalid io_rate'', None)
      else if ch = 0 then (Some ''invalid num_channels'', None)
      else case soxr_datasize (io_otype io) of
        None \<Rightarrow> (Some ''invalid io_type'', None)
      | Some sz \<Rightarrow> (None, Some \<lparr>rf_ratio = orate / ir, rf_frame = unat ch * sz,
                                 rf_latency = lat, rf_fed = 0, rf_sent = 0\<rparr>))"

definition ref_process ::
  "ref_state \<Rightarrow> (bytes \<times> nat) option \<Rightarrow> nat \<Rightarrow> soxr_error \<times> ref_state \<times> nat \<times> nat \<times> bytes" where
  "ref_process s inp olen =
     (let ilen = (case inp of None \<Rightarrow> 0 | Some (_, n) \<Rightarrow> n);
          fed = rf_fed s + ilen;
          due = nat \<lfloor>of_nat fed * rf_ratio s\<rfloor>;
          ready = (case inp of None \<Rightarrow> due | Some _ \<Rightarrow> due - rf_latency s);
          done = min olen (ready - rf_sent s)
      in (None, s\<lparr>rf_fed := fed, rf_sent := rf_sent s + done\<rparr>, ilen, done,
          replicate (done * rf_frame s) 0))"

definition ref_clear :: "ref_state \<Rightarrow> ref_state" where
  "ref_clear s = s\<lparr>rf_fed := 0, rf_sent := 0\<rparr>"

definition ref_api :: "nat \<Rightarrow> ref_state soxr_api" where
  "ref_api lat = \<lparr>sx_create = ref_create lat, sx_process = ref_process, sx_clear = ref_clear\<rparr>"

section \<open>Lemmas\<close>

lemma soxr_failed_None [simp]: "\<not> soxr_failed None"
  by (simp add: soxr_failed_def go_string_def)

lemma soxr_error_ptr_None [simp]: "soxr_error_ptr None = CNull"
  by (simp add: soxr_error_ptr_def)

lemma soxr_failed_static:
  "soxr_failed e \<Longrightarrow> soxr_error_ptr e = CStatic (go_string e)"
  by (auto simp: soxr_failed_def soxr_error_ptr_def go_string_def split: option.splits)

lemma soxr_error_ptr_cases: "soxr_error_ptr e = CNull \<or> soxr_error_ptr e = CStatic (go_string e)"
  by (auto simp: soxr_error_ptr_def go_string_def split: option.splits)

lemma c_free_err_blocks [simp]: "blocks (c_free (soxr_error_ptr e) h) = blocks h"
  using soxr_error_ptr_cases [of e] by auto

lemma c_free_err_next [simp]: "next_addr (c_free (soxr_error_ptr e) h) = next_addr h"
  using soxr_error_ptr_cases [of e] by auto

lemma c_free_err_bad_frees:
  "set (bad_frees (c_free (soxr_error_ptr e) h)) \<subseteq> set (bad_frees h) \<union> range CStatic"
  using soxr_error_ptr_cases [of e] by auto

lemma c_free_err_wf: "heap_wf h \<Longrightarrow> heap_wf (c_free (soxr_error_ptr e) h)"
  by (rule heap_wf_c_free)

lemma soxr_create_w_heap:
  "soxr_create_w api ir orate ch io q rt w = (err, sx, w') \<Longrightarrow>
     sinks w' = sinks w \<and>
     (case sx of
        None \<Rightarrow> heap w' = heap w
      | Some (a, e) \<Rightarrow> a = next_addr (heap w) \<and> heap w' = snd (c_alloc CEngine (heap w)))"
  by (auto simp: soxr_create_w_def split: prod.splits option.splits)

lemma ref_process_done:
  "ref_process s inp olen = (err, s', rd, done, obuf) \<Longrightarrow>
     err = None \<and> done \<le> olen \<and> length obuf = done * rf_frame s \<and> rf_frame s' = rf_frame s"
  by (auto simp: ref_process_def Let_def)

end
