(* ===== verification/Resample.thy ===== *)
theory Resample
  imports Soxr
begin

text \<open>
  The stream resampler of \<open>src/resample.go\<close>: the quality and format constants, the
  struct \<open>Resampler\<close>, the validating constructor \<open>New\<close>, and the methods
  \<open>Reset\<close>, \<open>Close\<close>, \<open>Write\<close> and \<open>flush\<close>, each translated statement by statement.
  A method takes the receiver and the world (C heap and sinks) and returns its Go
  results with the updated receiver and world, or a panic. The receiver's field
  \<open>resampler\<close> (the \<open>soxr_t\<close>) is \<open>None\<close> where the Go pointer is nil. The
  process-wide \<open>threads\<close> (set once from \<open>runtime.NumCPU()\<close> by \<open>init\<close>) is the
  argument \<open>threads\<close> of \<open>New\<close>.
\<close>

section \<open>Constants\<close>

definition Quick :: int where "Quick = 0"
definition LowQ :: int where "LowQ = 1"
definition MediumQ :: int where "MediumQ = 2"
definition HighQ :: int where "HighQ = 4"
definition VeryHighQ :: int where "VeryHighQ = 6"

definition F32 :: int where "F32 = 0"
definition F64 :: int where "F64 = 1"
definition I32 :: int where "I32 = 2"
definition I16 :: int where "I16 = 3"

section \<open>Errors\<close>

text \<open>The error values \<open>resample.go\<close> returns, with their messages.\<close>

datatype rs_error =
    ErrWriterNil       \<comment> \<open>"io.Writer is nil"\<close>
  | ErrRates           \<comment> \<open>"invalid input or output sampling rates"\<close>
  | ErrChannels        \<comment> \<open>"invalid channels number"\<close>
  | ErrQuality         \<comment> \<open>"invalid quality setting"\<close>
  | ErrFormat          \<comment> \<open>"invalid format setting"\<close>
  | ErrNilResampler    \<comment> \<open>"soxr resampler is nil"\<close>
  | ErrIncomplete      \<comment> \<open>"incomplete input frame data"\<close>
  | ErrNotEnough       \<comment> \<open>"not enough input to generate output"\<close>
  | ErrSoxr string     \<comment> \<open>\<open>errors.New(C.GoString(soxErr))\<close>\<close>
  | ErrWrite string    \<comment> \<open>the error of \<open>destination.Write\<close>\<close>

section \<open>The Resampler struct\<close>

record 'e Resampler =
  resampler :: "'e soxr_t option"
  inRate :: real
  outRate :: real
  channels :: int
  inFrameSize :: int
  outFrameSize :: int
  destination :: "wid option"

section \<open>New\<close>

text \<open>The closure \<open>sizeOf\<close> of \<open>New\<close>.\<close>

definition sizeOf :: "int \<Rightarrow> rs_error + int" where
  "sizeOf format =
     (if format = F64 then Inr 8 else if format = F32 then Inr 4
      else if format = I32 then Inr 4 else if format = I16 then Inr 2
      else Inl ErrFormat)"

definition New ::
  "'e soxr_api \<Rightarrow> int \<Rightarrow> wid option \<Rightarrow> real \<Rightarrow> real \<Rightarrow> int \<Rightarrow> int \<Rightarrow> int \<Rightarrow> int \<Rightarrow> world \<Rightarrow>
   ('e Resampler option \<times> rs_error option) \<times> world" where
  "New api threads writer inputRate outputRate chans inFormat outFormat quality w =
     (if writer = None then ((None, Some ErrWriterNil), w)
      else if inputRate \<le> 0 \<or> outputRate \<le> 0 then ((None, Some ErrRates), w)
      else if chans = 0 then ((None, Some ErrChannels), w)
      else if quality < 0 \<or> quality > 6 then ((None, Some ErrQuality), w)
      else case sizeOf inFormat of
        Inl err \<Rightarrow> ((None, Some err), w)
      | Inr inSize \<Rightarrow> (case sizeOf outFormat of
          Inl err \<Rightarrow> ((None, Some err), w)
        | Inr outSize \<Rightarrow>
            (let ioSpec = soxr_io_spec inFormat outFormat;
                 qSpec = soxr_quality_spec (c_u64 quality) 0;
                 runtimeSpec = soxr_runtime_spec (c_uint threads);
                 (soxErr, soxr, w1) = soxr_create_w api inputRate outputRate (c_uint chans)
                                        ioSpec qSpec runtimeSpec w
             in if soxr_failed soxErr
                then ((None, Some (ErrSoxr (go_string soxErr))),
                      w_free_all [soxr_error_ptr soxErr] w1)
                else ((Some \<lparr>resampler = soxr, inRate = inputRate, outRate = outputRate,
                              channels = chans, inFrameSize = inSize, outFrameSize = outSize,
                              destination = writer\<rparr>, None),
                      w_free_all [soxr_error_ptr soxErr] w1))))"

text \<open>
  The package variable \<open>threads\<close> and \<open>init\<close> (lines 66 to 70): at start-up the
  process stores \<open>runtime.NumCPU()\<close>, which \<open>New\<close> then passes to libsoxr.
\<close>

definition threads_init :: "nat \<Rightarrow> int" where
  "threads_init numCPU = int numCPU"

section \<open>flush\<close>

text \<open>
  \<open>flush\<close> reads \<open>r.resampler\<close>, which both of its callers have just checked to be
  non-nil; the model passes that checked handle \<open>(hp, e)\<close>.
\<close>

definition flush ::
  "'e soxr_api \<Rightarrow> 'e Resampler \<Rightarrow> 'e soxr_t \<Rightarrow> world \<Rightarrow>
   (rs_error option \<times> 'e Resampler \<times> world) outcome" where
  "flush api r h w =
     (case h of (hp, e) \<Rightarrow>
       let framesOut = 4096 * 16 :: int;
           (dataOut, w1) = w_malloc (c_u64 (framesOut * channels r * outFrameSize r)) w;
           (soxErr, e', _, done, obuf) = sx_process api e None (c_u64 framesOut);
           r' = r\<lparr>resampler := Some (hp, e')\<rparr>
       in if soxr_failed soxErr
          then Ret (Some (ErrSoxr (go_string soxErr)), r',
                    w_free_all [dataOut, soxr_error_ptr soxErr] w1)
          else (case go_bytes obuf (c_int (go_int_of_u64 done * channels r * outFrameSize r)) of
                  Panic m \<Rightarrow> Panic m
                | Ret out \<Rightarrow> (case dest_write (destination r) out w1 of
                    Panic m \<Rightarrow> Panic m
                  | Ret (err, w2) \<Rightarrow>
                      Ret (map_option ErrWrite err, r',
                           w_free_all [dataOut, soxr_error_ptr soxErr] w2))))"

section \<open>Reset and Close\<close>

definition Reset ::
  "'e soxr_api \<Rightarrow> 'e Resampler \<Rightarrow> wid option \<Rightarrow> world \<Rightarrow>
   (rs_error option \<times> 'e Resampler \<times> world) outcome" where
  "Reset api r writer w =
     (case resampler r of
        None \<Rightarrow> Ret (Some ErrNilResampler, r, w)
      | Some h \<Rightarrow> (case flush api r h w of
          Panic m \<Rightarrow> Panic m
        | Ret (err, r1, w1) \<Rightarrow>
            (let r2 = r1\<lparr>destination := writer\<rparr>
             in Ret (err, r2\<lparr>resampler := map_option (\<lambda>(hp, e). (hp, sx_clear api e)) (resampler r2)\<rparr>,
                     w1))))"

definition Close ::
  "'e soxr_api \<Rightarrow> 'e Resampler \<Rightarrow> world \<Rightarrow> (rs_error option \<times> 'e Resampler \<times> world) outcome" where
  "Close api r w =
     (case resampler r of
        None \<Rightarrow> Ret (Some ErrNilResampler, r, w)
      | Some h \<Rightarrow> (case flush api r h w of
          Panic m \<Rightarrow> Panic m
        | Ret (err, r1, w1) \<Rightarrow>
            Ret (err, r1\<lparr>resampler := None\<rparr>, soxr_delete_w (fst h) w1)))"

section \<open>Write\<close>

text \<open>
  \<open>framesIn := len(p) / r.inFrameSize / r.channels\<close> (Go's truncating division, from
  the left) and \<open>framesOut := int(float64(framesIn) * (r.outRate / r.inRate))\<close>.
\<close>

definition frames_in :: "'e Resampler \<Rightarrow> nat \<Rightarrow> int" where
  "frames_in r n = int n sdiv inFrameSize r sdiv channels r"

definition frames_out :: "'e Resampler \<Rightarrow> int \<Rightarrow> int" where
  "frames_out r framesIn = go_f2i (of_int framesIn * (outRate r / inRate r))"

definition Write ::
  "'e soxr_api \<Rightarrow> 'e Resampler \<Rightarrow> bytes \<Rightarrow> world \<Rightarrow>
   ((int \<times> rs_error option) \<times> 'e Resampler \<times> world) outcome" where
  "Write api r p w =
     (case resampler r of
        None \<Rightarrow> Ret ((0, Some ErrNilResampler), r, w)
      | Some (hp, e) \<Rightarrow>
          if length p = 0 then Ret ((0, None), r, w)
          else if inFrameSize r = 0 \<or> channels r = 0 then Panic ''integer divide by zero''
          else
          let framesIn = frames_in r (length p)
          in if framesIn = 0 then Ret ((0, Some ErrIncomplete), r, w)
          else
          let framesOut = frames_out r framesIn
          in if framesOut = 0 then Ret ((0, Some ErrNotEnough), r, w)
          else
          let (dataIn, w1) = w_cbytes p w;
              (dataOut, w2) = w_malloc (c_u64 (framesOut * channels r * outFrameSize r)) w1;
              (soxErr, e', read, done, obuf) =
                 sx_process api e (Some (p, c_u64 framesIn)) (c_u64 framesOut);
              r' = r\<lparr>resampler := Some (hp, e')\<rparr>
          in if soxr_failed soxErr
             then Ret ((0, Some (ErrSoxr (go_string soxErr))), r',
                       w_free_all [dataIn, dataOut, soxr_error_ptr soxErr] w2)
             else (case go_bytes obuf (c_int (go_int_of_u64 done * channels r * outFrameSize r)) of
                     Panic m \<Rightarrow> Panic m
                   | Ret out \<Rightarrow> (case dest_write (destination r) out w2 of
                       Panic m \<Rightarrow> Panic m
                     | Ret (err, w3) \<Rightarrow>
                         Ret ((if err = None then int (length p) else 0, map_option ErrWrite err), r',
                              w_free_all [dataIn, dataOut, soxr_error_ptr soxErr] w3))))"

section \<open>Lemmas on the frame arithmetic\<close>

lemmas format_defs = F32_def F64_def I32_def I16_def
lemmas quality_defs = Quick_def LowQ_def MediumQ_def HighQ_def VeryHighQ_def

lemma frames_in_nil: "frames_in r 0 = 0"
  by (simp add: frames_in_def)

lemma frames_in_div:
  "0 < inFrameSize r \<Longrightarrow> 0 < channels r \<Longrightarrow>
     frames_in r n = int n div (inFrameSize r * channels r)"
  by (simp add: frames_in_def sdiv_sdiv_nonneg)

lemma frames_in_nonneg: "0 < inFrameSize r \<Longrightarrow> 0 < channels r \<Longrightarrow> 0 \<le> frames_in r n"
  by (simp add: frames_in_div pos_imp_zdiv_nonneg_iff)

section \<open>What every returning call leaves of the heap\<close>

text \<open>
  On every path that returns, \<open>Write\<close> and \<open>flush\<close> release what they allocate, change
  no field but the engine state, and write to no sink but the destination; \<open>Close\<close>
  releases the engine block; \<open>Reset\<close> keeps it.
\<close>

lemma Write_Ret_heap:
  assumes wf: "heap_wf (heap w)" and W: "Write api r p w = Ret (res, r', w')"
  shows "blocks (heap w') = blocks (heap w) \<and> heap_wf (heap w') \<and>
         set (bad_frees (heap w')) \<subseteq> set (bad_frees (heap w)) \<union> range CStatic \<and>
         map_option fst (resampler r') = map_option fst (resampler r) \<and>
         r' = r\<lparr>resampler := resampler r'\<rparr>"
proof (cases "resampler r")
  case None
  with W show ?thesis using wf by (simp add: Write_def)
next
  case (Some h)
  obtain hp e where h: "h = (hp, e)" by fastforce
  obtain dIn w1 where w1: "w_cbytes p w = (dIn, w1)" by fastforce
  obtain dOut w2 where
    w2: "w_malloc (c_u64 (frames_out r (frames_in r (length p)) * channels r * outFrameSize r)) w1
           = (dOut, w2)"
    by fastforce
  obtain err e' rd odone obuf where
    sx: "sx_process api e (Some (p, c_u64 (frames_in r (length p))))
           (c_u64 (frames_out r (frames_in r (length p)))) = (err, e', rd, odone, obuf)"
    by (cases "sx_process api e (Some (p, c_u64 (frames_in r (length p))))
                 (c_u64 (frames_out r (frames_in r (length p))))") auto
  have cl: "\<And>w3. heap w3 = heap w2 \<Longrightarrow>
      blocks (heap (w_free_all [dIn, dOut, soxr_error_ptr err] w3)) = blocks (heap w) \<and>
      heap_wf (heap (w_free_all [dIn, dOut, soxr_error_ptr err] w3)) \<and>
      set (bad_frees (heap (w_free_all [dIn, dOut, soxr_error_ptr err] w3)))
        \<subseteq> set (bad_frees (heap w)) \<union> range CStatic"
    using cleanup2 [OF wf w1 w2] heap_wf_bump2 [OF wf]
      c_free_err_bad_frees [of err "(heap w)\<lparr>next_addr := Suc (Suc (next_addr (heap w)))\<rparr>"]
    by (simp add: c_free_err_wf)
  show ?thesis
    using W Some h w1 w2 sx cl wf
    by (auto simp: Write_def Let_def split: if_splits outcome.splits prod.splits
             dest: dest_write_heap)
qed

lemma flush_Ret:
  assumes wf: "heap_wf (heap w)" and F: "flush api r (hp, e) w = Ret (err, r', w')"
  shows "blocks (heap w') = blocks (heap w) \<and> heap_wf (heap w') \<and>
         set (bad_frees (heap w')) \<subseteq> set (bad_frees (heap w)) \<union> range CStatic \<and>
         (\<exists>e'. r' = r\<lparr>resampler := Some (hp, e')\<rparr>) \<and>
         (\<forall>j. destination r \<noteq> Some j \<longrightarrow> sinks w' j = sinks w j)"
proof -
  obtain dOut w1 where w1: "w_malloc (c_u64 (4096 * 16 * channels r * outFrameSize r)) w = (dOut, w1)"
    by fastforce
  obtain serr e' rd odone obuf where
    sx: "sx_process api e None (c_u64 (4096 * 16)) = (serr, e', rd, odone, obuf)"
    by (cases "sx_process api e None (c_u64 (4096 * 16))") auto
  have cl: "\<And>w2. heap w2 = heap w1 \<Longrightarrow>
      blocks (heap (w_free_all [dOut, soxr_error_ptr serr] w2)) = blocks (heap w) \<and>
      heap_wf (heap (w_free_all [dOut, soxr_error_ptr serr] w2)) \<and>
      set (bad_frees (heap (w_free_all [dOut, soxr_error_ptr serr] w2)))
        \<subseteq> set (bad_frees (heap w)) \<union> range CStatic"
    using cleanup1 [OF wf w1] heap_wf_bump1 [OF wf]
      c_free_err_bad_frees [of serr "(heap w)\<lparr>next_addr := Suc (next_addr (heap w))\<rparr>"]
    by (simp add: c_free_err_wf)
  have s1: "sinks w1 = sinks w" using w1 by (rule w_malloc_sinks)
  show ?thesis
    using F w1 sx cl s1
    by (auto simp: flush_def Let_def split: if_splits outcome.splits prod.splits
             dest: dest_write_heap dest_write_other)
qed

lemma Close_Ret:
  assumes wf: "heap_wf (heap w)" and r: "resampler r = Some (hp, e)"
    and C: "Close api r w = Ret (err, r', w')"
  shows "r' = r\<lparr>resampler := None\<rparr> \<and> blocks (heap w') = (blocks (heap w))(hp := None) \<and>
         heap_wf (heap w') \<and> (\<forall>j. destination r \<noteq> Some j \<longrightarrow> sinks w' j = sinks w j)"
proof -
  obtain err1 r1 w1 where F: "flush api r (hp, e) w = Ret (err1, r1, w1)"
    using C r by (auto simp: Close_def split: outcome.splits)
  then have C': "err = err1" "r' = r1\<lparr>resampler := None\<rparr>" "w' = soxr_delete_w hp w1"
    using C r by (auto simp: Close_def)
  from flush_Ret [OF wf F] obtain e' where
    b: "blocks (heap w1) = blocks (heap w)" and wf1: "heap_wf (heap w1)"
    and r1: "r1 = r\<lparr>resampler := Some (hp, e')\<rparr>"
    and s: "\<forall>j. destination r \<noteq> Some j \<longrightarrow> sinks w1 j = sinks w j"
    by blast
  have "blocks (heap w') = (blocks (heap w))(hp := None)"
    using C'(3) b by (auto simp: soxr_delete_w_def w_free_all_def)
  moreover have "heap w' = c_free (CAddr hp) (heap w1)"
    using C'(3) by (simp add: soxr_delete_w_def w_free_all_def del: c_free.simps)
  then have "heap_wf (heap w')"
    using wf1 by (simp add: heap_wf_c_free del: c_free.simps)
  moreover have "sinks w' = sinks w1" using C'(3) by (simp add: soxr_delete_w_def)
  ultimately show ?thesis using C'(2) r1 s by simp
qed

lemma Reset_Ret:
  assumes wf: "heap_wf (heap w)" and r: "resampler r = Some (hp, e)"
    and R: "Reset api r d w = Ret (err, r', w')"
  shows "(\<exists>e'. r' = r\<lparr>resampler := Some (hp, e'), destination := d\<rparr>) \<and>
         blocks (heap w') = blocks (heap w) \<and> heap_wf (heap w') \<and>
         (\<forall>j. destination r \<noteq> Some j \<longrightarrow> sinks w' j = sinks w j)"
proof -
  obtain err1 r1 w1 where F: "flush api r (hp, e) w = Ret (err1, r1, w1)"
    using R r by (auto simp: Reset_def split: outcome.splits)
  from flush_Ret [OF wf F] obtain e' where
    b: "blocks (heap w1) = blocks (heap w)" "heap_wf (heap w1)"
    and r1: "r1 = r\<lparr>resampler := Some (hp, e')\<rparr>"
    and s: "\<forall>j. destination r \<noteq> Some j \<longrightarrow> sinks w1 j = sinks w j"
    by blast
  have "w' = w1" "r' = r\<lparr>resampler := Some (hp, sx_clear api e'), destination := d\<rparr>"
    using R r F r1 by (auto simp: Reset_def)
  then show ?thesis using b s by auto
qed

text \<open>
  The two C buffers of \<open>Write\<close>: \<open>dataIn\<close> and \<open>dataOut\<close> are fresh blocks, touch no
  sink, and the cleanup label returns the heap to its blocks whatever pointer it frees
  third.
\<close>

lemma write_buffers:
  assumes wf: "heap_wf (heap w)"
  obtains dIn w1 dOut w2 where "w_cbytes p w = (dIn, w1)" "w_malloc m w1 = (dOut, w2)"
    "sinks w2 = sinks w"
    "\<And>w3 q. heap w3 = heap w2 \<Longrightarrow>
       heap (w_free_all [dIn, dOut, q] w3) = c_free q ((heap w)\<lparr>next_addr := Suc (Suc (next_addr (heap w)))\<rparr>)"
proof -
  obtain dIn w1 where w1: "w_cbytes p w = (dIn, w1)" by fastforce
  obtain dOut w2 where w2: "w_malloc m w1 = (dOut, w2)" by fastforce
  have s: "sinks w2 = sinks w" using w1 w2 by (simp add: w_cbytes_sinks w_malloc_sinks)
  show ?thesis by (rule that [OF w1 w2 s]) (rule cleanup2 [OF wf w1 w2])
qed

text \<open>
  C1. A write that the engine serves without error delivers exactly the engine's
  output: \<open>Write\<close> reports the whole input as consumed with no error, the
  destination receives the first \<open>odone \<times> channels \<times> outFrameSize\<close> bytes of the
  output buffer appended to what it held, the receiver keeps every field but the
  engine state, and the C heap ends with the blocks it started with and no bad free
  (both buffers released, the null error pointer harmless).
\<close>

theorem Write_success:
  assumes r: "resampler r = Some (hp, e)" "0 < inFrameSize r" "0 < channels r" "0 < outFrameSize r"
    and fi: "frames_in r (length p) \<noteq> 0" and fo: "frames_out r (frames_in r (length p)) \<noteq> 0"
    and sx: "sx_process api e (Some (p, c_u64 (frames_in r (length p))))
               (c_u64 (frames_out r (frames_in r (length p)))) = (None, e', rd, n, obuf)"
    and fit: "int n * channels r * outFrameSize r < 2 ^ 31"
    and d: "destination r = Some i"
    and acc: "sink_accepts (sinks w i) (take (n * nat (channels r * outFrameSize r)) obuf)"
    and wf: "heap_wf (heap w)"
  shows "\<exists>w'. Write api r p w = Ret ((int (length p), None), r\<lparr>resampler := Some (hp, e')\<rparr>, w') \<and>
           sink_data (sinks w' i) = sink_data (sinks w i) @ take (n * nat (channels r * outFrameSize r)) obuf \<and>
           blocks (heap w') = blocks (heap w) \<and> bad_frees (heap w') = bad_frees (heap w)"
proof -
  let ?out = "take (n * nat (channels r * outFrameSize r)) obuf"
  have p: "p \<noteq> []" using fi by (auto simp: frames_in_nil)
  obtain dIn w1 dOut w2 where w1: "w_cbytes p w = (dIn, w1)"
    and w2: "w_malloc (c_u64 (frames_out r (frames_in r (length p)) * channels r * outFrameSize r)) w1
               = (dOut, w2)"
    and s2: "sinks w2 = sinks w"
    and cl: "\<And>w3 q. heap w3 = heap w2 \<Longrightarrow> heap (w_free_all [dIn, dOut, q] w3) =
               c_free q ((heap w)\<lparr>next_addr := Suc (Suc (next_addr (heap w)))\<rparr>)"
    using write_buffers [OF wf, where p = p and
          m = "c_u64 (frames_out r (frames_in r (length p)) * channels r * outFrameSize r)"]
    by blast
  let ?w3 = "w2\<lparr>sinks := (sinks w2)(i := fst (sink_write (sinks w2 i) ?out))\<rparr>"
  have dw: "dest_write (Some i) ?out w2 = Ret (None, ?w3)"
    using acc s2 by (simp add: dest_write_Some sink_write_error_iff)
  have gb: "go_bytes obuf (c_int (go_int_of_u64 n * channels r * outFrameSize r)) = Ret ?out"
    using fit r(3,4) by (rule go_bytes_exact)
  let ?w' = "w_free_all [dIn, dOut, CNull] ?w3"
  have "Write api r p w = Ret ((int (length p), None), r\<lparr>resampler := Some (hp, e')\<rparr>, ?w')"
    using r p fi fo sx d w1 w2 gb dw by (simp add: Write_def)
  moreover have "sink_data (sinks ?w' i) = sink_data (sinks w i) @ ?out"
    using acc s2 by (simp add: sink_write_accepts)
  moreover have "heap ?w' = (heap w)\<lparr>next_addr := Suc (Suc (next_addr (heap w)))\<rparr>"
    using cl [of ?w3 CNull] by simp
  ultimately show ?thesis by auto
qed

lemma Close_resampler_None: "Close api r w = Ret (err, r', w') \<Longrightarrow> resampler r' = None"
  by (auto simp: Close_def split: option.splits outcome.splits prod.splits)

text \<open>
  C2. A zero-length write on an open resampler is a no-op: it returns 0 and no error,
  and neither the receiver (so not the engine state) nor the world changes, so the
  engine is not invoked and nothing is allocated or written.
\<close>

theorem Write_empty:
  assumes "resampler r \<noteq> None"
  shows "Write api r [] w = Ret ((0, None), r, w)"
  using assms by (auto simp: Write_def)

text \<open>
  A non-empty write that holds less than one whole frame
  (\<open>inFrameSize \<times> channels\<close> bytes) fails with "incomplete input frame data",
  reports 0 bytes and changes neither the receiver nor the world.
\<close>

lemma Write_incomplete:
  assumes "resampler r \<noteq> None" "0 < inFrameSize r" "0 < channels r"
    and "p \<noteq> []" "int (length p) < inFrameSize r * channels r"
  shows "Write api r p w = Ret ((0, Some ErrIncomplete), r, w)"
proof -
  have "frames_in r (length p) = 0"
    using assms(2,3,5) by (simp add: frames_in_div)
  then show ?thesis using assms(1,2,3,4) by (auto simp: Write_def)
qed

text \<open>
  C3. Closing is final: after a \<open>Close\<close> that returns, a second \<open>Close\<close>, a
  \<open>Write\<close> and a \<open>Reset\<close> each fail with "soxr resampler is nil" and change
  nothing.
\<close>

theorem Close_then_misuse:
  assumes "Close api r w = Ret (err, r', w')"
  shows "Close api r' w' = Ret (Some ErrNilResampler, r', w') \<and>
         Write api r' p w' = Ret ((0, Some ErrNilResampler), r', w') \<and>
         Reset api r' d w' = Ret (Some ErrNilResampler, r', w')"
  using Close_resampler_None [OF assms] by (simp add: Close_def Write_def Reset_def)

text \<open>
  C4. \<open>Close\<close> on an open resampler whose engine block is live releases that block,
  whether or not its flush failed, and frees no heap address invalidly: the only bad
  frees it can add are of static error strings. The receiver is left closed.
\<close>

theorem Close_releases_engine:
  assumes wf: "heap_wf (heap w)" and r: "resampler r = Some (hp, e)"
    and live: "blocks (heap w) hp = Some CEngine"
    and C: "Close api r w = Ret (err, r', w')"
  shows "resampler r' = None \<and> blocks (heap w') = (blocks (heap w))(hp := None) \<and>
         set (bad_frees (heap w')) \<subseteq> set (bad_frees (heap w)) \<union> range CStatic"
proof -
  obtain err1 r1 w1 where F: "flush api r (hp, e) w = Ret (err1, r1, w1)"
    using C r by (auto simp: Close_def split: outcome.splits)
  then have w': "w' = soxr_delete_w hp w1"
    using C r by (auto simp: Close_def)
  from flush_Ret [OF wf F] have b: "blocks (heap w1) = blocks (heap w)"
    and bf: "set (bad_frees (heap w1)) \<subseteq> set (bad_frees (heap w)) \<union> range CStatic"
    by blast+
  have "heap w' = (heap w1)\<lparr>blocks := (blocks (heap w1))(hp := None)\<rparr>"
    using w' b live by (simp add: soxr_delete_w_def w_free_all_def domIff)
  then show ?thesis
    using Close_Ret [OF wf r C] bf by simp
qed

text \<open>
  C5. \<open>Reset\<close> to a new destination sends nothing to it: the flushed samples go to
  the old destination only, every other sink is unchanged, the new destination is
  installed, the engine handle is kept and the heap's blocks are as before.
\<close>

theorem Reset_isolates_destinations:
  assumes wf: "heap_wf (heap w)" and r: "resampler r = Some (hp, e)"
    and d: "destination r = Some i" and ij: "i \<noteq> j"
    and R: "Reset api r (Some j) w = Ret (err, r', w')"
  shows "sinks w' j = sinks w j \<and> (\<forall>k. k \<noteq> i \<longrightarrow> sinks w' k = sinks w k) \<and>
         destination r' = Some j \<and> map_option fst (resampler r') = Some hp \<and>
         blocks (heap w') = blocks (heap w)"
  using Reset_Ret [OF wf r R] d ij by auto

text \<open>
  C6. \<open>New\<close> with a non-nil writer and a rate that is not positive fails with
  "invalid input or output sampling rates" before any engine is created: the world,
  and so the heap, is unchanged.
\<close>

theorem New_rejects_rates:
  assumes "writer \<noteq> None" "inputRate \<le> 0 \<or> outputRate \<le> 0"
  shows "New api threads writer inputRate outputRate chans inFormat outFormat quality w =
           ((None, Some ErrRates), w)"
  using assms by (simp add: New_def)

text \<open>
  C7. \<open>New\<close> with a valid configuration, whose engine is created without error,
  returns an open resampler holding the rates, channel count, byte sizes of the two
  formats and the writer, whose handle is a fresh heap block holding the engine.
\<close>

theorem New_success:
  assumes "writer \<noteq> None" "0 < inputRate" "0 < outputRate" "chans \<noteq> 0"
    and "0 \<le> quality" "quality \<le> 6"
    and "sizeOf inFormat = Inr inSize" "sizeOf outFormat = Inr outSize"
    and "sx_create api inputRate outputRate (c_uint chans) (soxr_io_spec inFormat outFormat)
           (soxr_quality_spec (nat quality) 0) (soxr_runtime_spec (c_uint threads)) = (None, Some e)"
  shows "New api threads writer inputRate outputRate chans inFormat outFormat quality w =
           ((Some \<lparr>resampler = Some (next_addr (heap w), e), inRate = inputRate,
                   outRate = outputRate, channels = chans, inFrameSize = inSize,
                   outFrameSize = outSize, destination = writer\<rparr>, None),
            w\<lparr>heap := snd (c_alloc CEngine (heap w))\<rparr>)"
proof -
  have q: "c_u64 quality = nat quality" using assms(5,6) by (simp add: c_u64_exact)
  show ?thesis using assms q
    by (simp add: New_def soxr_create_w_def w_free_all_def)
qed

text \<open>
  C8. When the engine reports an error, \<open>Write\<close> fails with that error, reports 0
  bytes and writes nothing to any sink; its cleanup releases both buffers but then
  calls \<open>C.free\<close> on the error string, which libsoxr returns as a string literal: the
  heap records one invalid free of that static string.
\<close>

theorem Write_soxr_error_frees_static:
  assumes r: "resampler r = Some (hp, e)" "0 < inFrameSize r" "0 < channels r"
    and fi: "frames_in r (length p) \<noteq> 0" and fo: "frames_out r (frames_in r (length p)) \<noteq> 0"
    and sx: "sx_process api e (Some (p, c_u64 (frames_in r (length p))))
               (c_u64 (frames_out r (frames_in r (length p)))) = (Some s, e', rd, n, obuf)"
    and failed: "soxr_failed (Some s)"
    and wf: "heap_wf (heap w)"
  shows "\<exists>w'. Write api r p w = Ret ((0, Some (ErrSoxr s)), r\<lparr>resampler := Some (hp, e')\<rparr>, w') \<and>
           sinks w' = sinks w \<and> blocks (heap w') = blocks (heap w) \<and>
           bad_frees (heap w') = bad_frees (heap w) @ [CStatic s]"
proof -
  have p: "p \<noteq> []" using fi by (auto simp: frames_in_nil)
  obtain dIn w1 dOut w2 where w1: "w_cbytes p w = (dIn, w1)"
    and w2: "w_malloc (c_u64 (frames_out r (frames_in r (length p)) * channels r * outFrameSize r)) w1
               = (dOut, w2)"
    and s2: "sinks w2 = sinks w"
    and cl: "\<And>w3 q. heap w3 = heap w2 \<Longrightarrow> heap (w_free_all [dIn, dOut, q] w3) =
               c_free q ((heap w)\<lparr>next_addr := Suc (Suc (next_addr (heap w)))\<rparr>)"
    using write_buffers [OF wf, where p = p and
          m = "c_u64 (frames_out r (frames_in r (length p)) * channels r * outFrameSize r)"]
    by blast
  have ptr: "soxr_error_ptr (Some s) = CStatic s" by (simp add: soxr_error_ptr_def)
  have gs: "go_string (Some s) = s" by (simp add: go_string_def)
  let ?w' = "w_free_all [dIn, dOut, CStatic s] w2"
  have "Write api r p w = Ret ((0, Some (ErrSoxr s)), r\<lparr>resampler := Some (hp, e')\<rparr>, ?w')"
    using r p fi fo sx failed w1 w2 ptr gs by (simp add: Write_def)
  moreover have "heap ?w' = c_free (CStatic s) ((heap w)\<lparr>next_addr := Suc (Suc (next_addr (heap w)))\<rparr>)"
    using cl [of w2 "CStatic s"] by simp
  ultimately show ?thesis using s2 by auto
qed

text \<open>
  C9. \<open>Write\<close> never looks at the number of frames the engine reports as consumed
  (\<open>read\<close>, libsoxr's \<open>idone\<close>): replacing that count by any other number in every
  answer of the engine leaves every outcome of \<open>Write\<close> unchanged. Frames the engine
  did not consume are neither retried nor reported, yet the whole input is reported
  as written.
\<close>

theorem Write_ignores_consumed_count:
  "Write (api\<lparr>sx_process := (\<lambda>e inp olen. case sx_process api e inp olen of
                (err, e', _, n, obuf) \<Rightarrow> (err, e', k, n, obuf))\<rparr>) r p w = Write api r p w"
  by (simp add: Write_def Let_def split: prod.splits option.splits)

text \<open>
  C10. On an open resampler with positive frame sizes, \<open>Write\<close> fails with "incomplete
  input frame data" exactly when the input is non-empty and shorter than one frame,
  and it then reports 0 bytes and changes neither the receiver nor the world.
  An input of one or more whole frames followed by a partial frame is therefore never
  rejected as incomplete: the partial frame is not passed to the engine
  (\<open>framesIn\<close> counts whole frames only) and no field keeps it for the next call.
\<close>

theorem Write_incomplete_iff:
  assumes "resampler r \<noteq> None" "0 < inFrameSize r" "0 < channels r"
  shows "((\<exists>r' w'. Write api r p w = Ret ((0, Some ErrIncomplete), r', w')) \<longleftrightarrow>
            p \<noteq> [] \<and> int (length p) < inFrameSize r * channels r) \<and>
         (p \<noteq> [] \<and> int (length p) < inFrameSize r * channels r \<longrightarrow>
            Write api r p w = Ret ((0, Some ErrIncomplete), r, w))"
proof -
  have iff: "(\<exists>r' w'. Write api r p w = Ret ((0, Some ErrIncomplete), r', w')) \<longleftrightarrow>
               p \<noteq> [] \<and> int (length p) < inFrameSize r * channels r"
  proof
    assume "\<exists>r' w'. Write api r p w = Ret ((0, Some ErrIncomplete), r', w')"
    then show "p \<noteq> [] \<and> int (length p) < inFrameSize r * channels r"
      using assms
      by (auto simp: Write_def frames_in_div Let_def zdiv_eq_0_iff
               split: if_splits option.splits prod.splits outcome.splits)
  next
    assume "p \<noteq> [] \<and> int (length p) < inFrameSize r * channels r"
    then show "\<exists>r' w'. Write api r p w = Ret ((0, Some ErrIncomplete), r', w')"
      using assms Write_incomplete by blast
  qed
  moreover have "p \<noteq> [] \<and> int (length p) < inFrameSize r * channels r \<longrightarrow>
                   Write api r p w = Ret ((0, Some ErrIncomplete), r, w)"
    using assms Write_incomplete by blast
  ultimately show ?thesis by blast
qed

text \<open>
  C11. \<open>New\<close> rejects only a channel count of 0: a negative count passes validation,
  reaches \<open>soxr_create\<close> as \<open>C.uint(channels)\<close>, which wraps to \<open>2^32\<close> minus its
  magnitude, and if the engine accepts it \<open>New\<close> returns a resampler that stores the
  negative count.
\<close>

theorem New_accepts_negative_channels:
  assumes "writer \<noteq> None" "0 < inputRate" "0 < outputRate" "- (2 ^ 32) \<le> chans" "chans < 0"
    and "0 \<le> quality" "quality \<le> 6"
    and "sizeOf inFormat = Inr inSize" "sizeOf outFormat = Inr outSize"
    and "sx_create api inputRate outputRate (c_uint chans) (soxr_io_spec inFormat outFormat)
           (soxr_quality_spec (nat quality) 0) (soxr_runtime_spec (c_uint threads)) = (None, Some e)"
  shows "unat (c_uint chans) = nat (2 ^ 32 + chans) \<and>
         (\<exists>r w'. New api threads writer inputRate outputRate chans inFormat outFormat quality w =
                   ((Some r, None), w') \<and> channels r = chans \<and> resampler r \<noteq> None)"
proof -
  have q: "c_u64 quality = nat quality" using assms(6,7) by (simp add: c_u64_exact)
  have "chans \<noteq> 0" using assms(5) by simp
  then have "\<exists>r w'. New api threads writer inputRate outputRate chans inFormat outFormat quality w =
                   ((Some r, None), w') \<and> channels r = chans \<and> resampler r \<noteq> None"
    using assms q by (simp add: New_def soxr_create_w_def w_free_all_def)
  then show ?thesis using unat_c_uint_neg [OF assms(4,5)] by simp
qed

text \<open>
  C12. The byte count \<open>flush\<close> hands to \<open>C.GoBytes\<close> is a C \<open>int\<close>: when the
  frames the engine flushes times the output frame size reach \<open>2^31\<close> bytes (at
  4096 channels of 64-bit samples, for a full buffer of 65536 frames), the conversion
  wraps to a negative length and \<open>flush\<close> panics instead of writing the samples.
\<close>

theorem flush_int_overflow_panics:
  assumes sx: "sx_process api e None (c_u64 (4096 * 16)) = (None, e', rd, n, obuf)"
    and big: "int n * channels r * outFrameSize r = 2 ^ 31"
  shows "flush api r (hp, e) w = Panic ''gobytes: length out of range''"
proof -
  have prod: "int n * (channels r * outFrameSize r) = 2 ^ 31" using big by (simp add: mult.assoc)
  then have "0 < int n * (channels r * outFrameSize r)" by simp
  then have "0 < channels r * outFrameSize r" by (simp add: zero_less_mult_iff)
  then have "int n \<le> 2 ^ 31" using prod int_le_mult_pos [of "int n"] by fastforce
  then have "n < 2 ^ 63" by (simp add: of_nat_le_iff [symmetric])
  then have "go_int_of_u64 n = int n" by (rule go_int_of_u64_exact)
  then have "c_int (go_int_of_u64 n * channels r * outFrameSize r) = - (2 ^ 31)"
    using big by (simp add: c_int_def)
  then show ?thesis using sx
    by (simp add: flush_def Let_def go_bytes_def split: prod.splits)
qed




text \<open>
  C25. When the destination refuses part of the engine's output, \<open>Write\<close> reports 0
  bytes consumed and the write error, yet the engine has consumed the input (the
  receiver holds the engine's new state) and the destination keeps whatever part of
  the output it accepted: the failure is not all-or-nothing, and a retry of the same
  bytes feeds those frames to the engine twice. The heap keeps its blocks.
\<close>

theorem Write_dest_error:
  assumes r: "resampler r = Some (hp, e)" "0 < inFrameSize r" "0 < channels r" "0 < outFrameSize r"
    and fi: "frames_in r (length p) \<noteq> 0" and fo: "frames_out r (frames_in r (length p)) \<noteq> 0"
    and sx: "sx_process api e (Some (p, c_u64 (frames_in r (length p))))
               (c_u64 (frames_out r (frames_in r (length p)))) = (None, e', rd, n, obuf)"
    and fit: "int n * channels r * outFrameSize r < 2 ^ 31"
    and d: "destination r = Some i"
    and rej: "\<not> sink_accepts (sinks w i) (take (n * nat (channels r * outFrameSize r)) obuf)"
    and wf: "heap_wf (heap w)"
  shows "\<exists>w' m. Write api r p w = Ret ((0, Some (ErrWrite m)), r\<lparr>resampler := Some (hp, e')\<rparr>, w') \<and>
           sinks w' i = fst (sink_write (sinks w i) (take (n * nat (channels r * outFrameSize r)) obuf)) \<and>
           blocks (heap w') = blocks (heap w)"
proof -
  let ?out = "take (n * nat (channels r * outFrameSize r)) obuf"
  have p: "p \<noteq> []" using fi by (auto simp: frames_in_nil)
  obtain dIn w1 dOut w2 where w1: "w_cbytes p w = (dIn, w1)"
    and w2: "w_malloc (c_u64 (frames_out r (frames_in r (length p)) * channels r * outFrameSize r)) w1
               = (dOut, w2)"
    and s2: "sinks w2 = sinks w"
    and cl: "\<And>w3 q. heap w3 = heap w2 \<Longrightarrow> heap (w_free_all [dIn, dOut, q] w3) =
               c_free q ((heap w)\<lparr>next_addr := Suc (Suc (next_addr (heap w)))\<rparr>)"
    using write_buffers [OF wf, where p = p and
          m = "c_u64 (frames_out r (frames_in r (length p)) * channels r * outFrameSize r)"]
    by blast
  obtain m where m: "snd (sink_write (sinks w i) ?out) = Some m"
    using rej sink_write_error_iff [of "sinks w i" ?out] by (cases "snd (sink_write (sinks w i) ?out)") auto
  let ?w3 = "w2\<lparr>sinks := (sinks w2)(i := fst (sink_write (sinks w2 i) ?out))\<rparr>"
  have dw: "dest_write (Some i) ?out w2 = Ret (Some m, ?w3)"
    using m s2 by (simp add: dest_write_Some)
  have gb: "go_bytes obuf (c_int (go_int_of_u64 n * channels r * outFrameSize r)) = Ret ?out"
    using fit r(3,4) by (rule go_bytes_exact)
  let ?w' = "w_free_all [dIn, dOut, CNull] ?w3"
  have "Write api r p w = Ret ((0, Some (ErrWrite m)), r\<lparr>resampler := Some (hp, e')\<rparr>, ?w')"
    using r p fi fo sx d w1 w2 gb dw by (simp add: Write_def)
  moreover have "heap ?w' = (heap w)\<lparr>next_addr := Suc (Suc (next_addr (heap w)))\<rparr>"
    using cl [of ?w3 CNull] by simp
  ultimately show ?thesis using s2 by auto
qed

text \<open>
  C26. A write never delivers more than the frame budget it asked the engine for: for
  an engine that produces at most the capacity it is given, every sink grows by at
  most \<open>C.size_t(framesOut) \<times> channels \<times> outFrameSize\<close> bytes, whatever path
  \<open>Write\<close> takes.
\<close>

theorem Write_output_bound:
  assumes r: "resampler r = Some (hp, e)" "0 < channels r" "0 < outFrameSize r"
    and sx: "sx_process api e (Some (p, c_u64 (frames_in r (length p))))
               (c_u64 (frames_out r (frames_in r (length p)))) = (err, e', rd, n, obuf)"
    and cap: "n \<le> c_u64 (frames_out r (frames_in r (length p)))"
    and fit: "int n * channels r * outFrameSize r < 2 ^ 31"
    and W: "Write api r p w = Ret (res, r', w')"
  shows "length (sink_data (sinks w' j)) \<le>
           length (sink_data (sinks w j)) +
           c_u64 (frames_out r (frames_in r (length p))) * nat (channels r * outFrameSize r)"
proof -
  let ?out = "take (n * nat (channels r * outFrameSize r)) obuf"
  have gb: "go_bytes obuf (c_int (go_int_of_u64 n * channels r * outFrameSize r)) = Ret ?out"
    using fit r(2,3) by (rule go_bytes_exact)
  have lo: "length ?out \<le> c_u64 (frames_out r (frames_in r (length p))) * nat (channels r * outFrameSize r)"
    using cap by (simp add: min_le_iff_disj)
  obtain dIn w1 where w1: "w_cbytes p w = (dIn, w1)" by fastforce
  obtain dOut w2 where w2: "w_malloc (c_u64 (frames_out r (frames_in r (length p)) * channels r * outFrameSize r)) w1 = (dOut, w2)"
    by fastforce
  have s: "sinks w2 = sinks w" using w1 w2 by (simp add: w_cbytes_sinks w_malloc_sinks)
  show ?thesis
    using W r sx w1 w2 s gb lo
    by (auto simp: Write_def Let_def split: if_splits outcome.splits prod.splits
             dest!: dest_write_length [where j = j])
qed

text \<open>
  C30. Framing round trip: \<open>k\<close> whole frames of input give \<open>framesIn = k\<close>, and any
  input splits into \<open>framesIn\<close> whole frames and a tail shorter than one frame.
\<close>

theorem frames_in_roundtrip:
  assumes s: "0 < inFrameSize r" "0 < channels r"
  shows "frames_in r (k * nat (inFrameSize r * channels r)) = int k \<and>
         frames_in r n * (inFrameSize r * channels r) \<le> int n \<and>
         int n < (frames_in r n + 1) * (inFrameSize r * channels r)"
proof -
  let ?f = "inFrameSize r * channels r"
  have f: "0 < ?f" using s by simp
  have k: "int (k * nat ?f) = int k * ?f" using f by simp
  have a: "frames_in r (k * nat ?f) = int k"
    unfolding frames_in_div [OF s] k using f by (simp only: nonzero_mult_div_cancel_right less_irrefl)
  have m: "int n div ?f * ?f = int n - int n mod ?f" by (simp add: minus_mod_eq_div_mult)
  have "0 \<le> int n mod ?f" "int n mod ?f < ?f" using f by simp_all
  then have b: "frames_in r n * ?f \<le> int n" and c: "int n < (frames_in r n + 1) * ?f"
    unfolding frames_in_div [OF s] distrib_right using m by linarith+
  from a b c show ?thesis by blast
qed

lemma sizeOf_Inl: "sizeOf f = Inl e \<Longrightarrow> e = ErrFormat"
  by (simp add: sizeOf_def split: if_splits)

text \<open>
  C32. Configuration errors allocate nothing (specification, property 8): a nil writer,
  a rate that is not positive, zero channels, a quality outside 0 to 6 or an unknown
  format make \<open>New\<close> return no resampler and a configuration error, with the world
  (heap and sinks) unchanged.
\<close>

theorem New_config_error_no_alloc:
  assumes "writer = None \<or> inputRate \<le> 0 \<or> outputRate \<le> 0 \<or> chans = 0 \<or> quality < 0 \<or> 6 < quality \<or>
           sizeOf inFormat = Inl ErrFormat \<or> sizeOf outFormat = Inl ErrFormat"
  shows "\<exists>e. New api threads writer inputRate outputRate chans inFormat outFormat quality w = ((None, Some e), w) \<and>
           e \<in> {ErrWriterNil, ErrRates, ErrChannels, ErrQuality, ErrFormat}"
  using assms by (auto simp: New_def split: sum.splits dest: sizeOf_Inl)

text \<open>
  C33. When libsoxr fails to create the engine, \<open>New\<close> returns its message as the
  error and no resampler, and frees the engine's static error string: the heap's
  blocks are unchanged and the invalid free of that string is recorded.
\<close>

theorem New_soxr_error:
  assumes v: "writer \<noteq> None" "0 < inputRate" "0 < outputRate" "chans \<noteq> 0" "0 \<le> quality" "quality \<le> 6"
    and s: "sizeOf inFormat = Inr inSize" "sizeOf outFormat = Inr outSize"
    and c: "sx_create api inputRate outputRate (c_uint chans) (soxr_io_spec inFormat outFormat)
              (soxr_quality_spec (nat quality) 0) (soxr_runtime_spec (c_uint threads)) = (Some msg, None)"
    and f: "msg \<noteq> []" "msg \<noteq> ''0''"
  shows "New api threads writer inputRate outputRate chans inFormat outFormat quality w =
           ((None, Some (ErrSoxr msg)), w\<lparr>heap := (heap w)\<lparr>bad_frees := bad_frees (heap w) @ [CStatic msg]\<rparr>\<rparr>)"
proof -
  have q: "c_u64 quality = nat quality" using v(5,6) by (simp add: c_u64_exact)
  have "soxr_failed (Some msg)" using f by (simp add: soxr_failed_def go_string_def)
  then show ?thesis
    using v s c q by (simp add: New_def soxr_create_w_def w_free_all_def soxr_error_ptr_def go_string_def)
qed

text \<open>What a write and a flush that return no error append to the destination.\<close>

lemma Write_appends:
  assumes r: "resampler r = Some (hp, e)" "0 < channels r" "0 < outFrameSize r"
    and d: "destination r = Some i"
    and sx: "sx_process api e (Some (p, c_u64 (frames_in r (length p))))
               (c_u64 (frames_out r (frames_in r (length p)))) = (err, e', rd, n, obuf)"
    and fit: "int n * channels r * outFrameSize r < 2 ^ 31"
    and W: "Write api r p w = Ret ((m, None), r', w')"
  shows "sink_data (sinks w' i) = sink_data (sinks w i) \<or>
         sink_data (sinks w' i) = sink_data (sinks w i) @ take (n * nat (channels r * outFrameSize r)) obuf"
proof -
  let ?out = "take (n * nat (channels r * outFrameSize r)) obuf"
  have gb: "go_bytes obuf (c_int (go_int_of_u64 n * channels r * outFrameSize r)) = Ret ?out"
    using fit r(2,3) by (rule go_bytes_exact)
  obtain dIn w1 where w1: "w_cbytes p w = (dIn, w1)" by fastforce
  obtain dOut w2 where w2: "w_malloc (c_u64 (frames_out r (frames_in r (length p)) * channels r * outFrameSize r)) w1 = (dOut, w2)"
    by fastforce
  have s: "sinks w2 = sinks w" using w1 w2 by (simp add: w_cbytes_sinks w_malloc_sinks)
  show ?thesis
    using W r d sx w1 w2 s gb
    by (auto simp: Write_def Let_def split: if_splits outcome.splits prod.splits
             dest!: dest_write_ok)
qed

lemma Write_appends_engine:
  assumes "resampler r = Some (hp, e)" "0 < channels r" "0 < outFrameSize r" "destination r = Some i"
    and "frames_in r (length p) \<noteq> 0" "frames_out r (frames_in r (length p)) \<noteq> 0"
    and sx: "sx_process api e (Some (p, c_u64 (frames_in r (length p))))
               (c_u64 (frames_out r (frames_in r (length p)))) = (None, e', rd, n, obuf)"
    and "int n * channels r * outFrameSize r < 2 ^ 31"
    and W: "Write api r p w = Ret ((m, None), r', w')"
  shows "sink_data (sinks w' i) = sink_data (sinks w i) @ take (n * nat (channels r * outFrameSize r)) obuf \<and>
         r' = r\<lparr>resampler := Some (hp, e')\<rparr>"
proof -
  let ?out = "take (n * nat (channels r * outFrameSize r)) obuf"
  have p: "p \<noteq> []" using assms(5) by (auto simp: frames_in_nil)
  have gb: "go_bytes obuf (c_int (go_int_of_u64 n * channels r * outFrameSize r)) = Ret ?out"
    using assms(8,2,3) by (rule go_bytes_exact)
  obtain dIn w1 where w1: "w_cbytes p w = (dIn, w1)" by fastforce
  obtain dOut w2 where w2: "w_malloc (c_u64 (frames_out r (frames_in r (length p)) * channels r * outFrameSize r)) w1 = (dOut, w2)"
    by fastforce
  have s: "sinks w2 = sinks w" using w1 w2 by (simp add: w_cbytes_sinks w_malloc_sinks)
  show ?thesis
    using W assms(1,4,5,6) p sx w1 w2 s gb
    by (auto simp: Write_def Let_def split: if_splits outcome.splits prod.splits
             dest!: dest_write_ok)
qed

lemma flush_appends:
  assumes r: "0 < channels r" "0 < outFrameSize r" and d: "destination r = Some i"
    and sx: "sx_process api e None (c_u64 (4096 * 16)) = (err, e', rd, n, obuf)"
    and fit: "int n * channels r * outFrameSize r < 2 ^ 31"
    and F: "flush api r (hp, e) w = Ret (None, r', w')"
  shows "sink_data (sinks w' i) = sink_data (sinks w i) @ take (n * nat (channels r * outFrameSize r)) obuf"
proof -
  have gb: "go_bytes obuf (c_int (go_int_of_u64 n * channels r * outFrameSize r)) =
            Ret (take (n * nat (channels r * outFrameSize r)) obuf)"
    using fit r by (rule go_bytes_exact)
  obtain dOut w1 where w1: "w_malloc (c_u64 (4096 * 16 * channels r * outFrameSize r)) w = (dOut, w1)"
    by fastforce
  have s1: "sinks w1 = sinks w" using w1 by (rule w_malloc_sinks)
  show ?thesis
    using F d sx gb w1 s1
    by (auto simp: flush_def Let_def split: if_splits outcome.splits prod.splits dest!: dest_write_ok)
qed


end
