(* ===== verification/Lifecycle.thy ===== *)
theory Lifecycle
  imports Resample
begin

text \<open>
  The life of one resampler as a state machine. The caller drives it with three calls
  (\<open>Write\<close>, \<open>Reset\<close>, \<open>Close\<close>: the datatype \<open>rs_call\<close> and the step function
  \<open>run_call\<close>); between calls the caller may do anything to its own files that leaves
  the C heap alone (an environment step). A state is reachable when a successful
  \<open>New\<close> on a well-formed heap leads to it. The invariant \<open>rs_inv\<close> is what \<open>New\<close>
  establishes about the configuration and what ties an open handle to a live engine
  block; every step keeps it (rule induction), so \<open>Close\<close> in a reachable state always
  releases a live block, and closed is a terminal state. Every call only appends to
  sinks, so bytes reach each destination in the order they were produced.
\<close>

datatype rs_call = CWrite bytes | CReset "wid option" | CClose

definition run_call ::
  "'e soxr_api \<Rightarrow> rs_call \<Rightarrow> 'e Resampler \<Rightarrow> world \<Rightarrow> ('e Resampler \<times> world) outcome" where
  "run_call api c r w =
     (case c of
        CWrite p \<Rightarrow> (case Write api r p w of Ret (_, r', w') \<Rightarrow> Ret (r', w') | Panic m \<Rightarrow> Panic m)
      | CReset d \<Rightarrow> (case Reset api r d w of Ret (_, r', w') \<Rightarrow> Ret (r', w') | Panic m \<Rightarrow> Panic m)
      | CClose \<Rightarrow> (case Close api r w of Ret (_, r', w') \<Rightarrow> Ret (r', w') | Panic m \<Rightarrow> Panic m))"

fun run_calls ::
  "'e soxr_api \<Rightarrow> rs_call list \<Rightarrow> 'e Resampler \<Rightarrow> world \<Rightarrow> ('e Resampler \<times> world) outcome" where
  "run_calls api [] r w = Ret (r, w)"
| "run_calls api (c # cs) r w =
     (case run_call api c r w of Ret (r', w') \<Rightarrow> run_calls api cs r' w' | Panic m \<Rightarrow> Panic m)"

inductive rs_step :: "'e soxr_api \<Rightarrow> 'e Resampler \<times> world \<Rightarrow> 'e Resampler \<times> world \<Rightarrow> bool"
  for api where
  call: "run_call api c r w = Ret (r', w') \<Longrightarrow> rs_step api (r, w) (r', w')"
| env: "heap w' = heap w \<Longrightarrow> rs_step api (r, w) (r, w')"

inductive rs_reach :: "'e soxr_api \<Rightarrow> 'e Resampler \<times> world \<Rightarrow> bool" for api where
  new: "heap_wf (heap w) \<Longrightarrow>
        New api threads writer inputRate outputRate chans inFormat outFormat quality w =
          ((Some r, None), w') \<Longrightarrow> rs_reach api (r, w')"
| step: "rs_reach api s \<Longrightarrow> rs_step api s s' \<Longrightarrow> rs_reach api s'"

definition rs_inv :: "'e Resampler \<Rightarrow> world \<Rightarrow> bool" where
  "rs_inv r w \<longleftrightarrow>
     heap_wf (heap w) \<and> 0 < inRate r \<and> 0 < outRate r \<and> channels r \<noteq> 0 \<and>
     inFrameSize r \<in> {2, 4, 8} \<and> outFrameSize r \<in> {2, 4, 8} \<and>
     (case resampler r of None \<Rightarrow> True | Some (hp, _) \<Rightarrow> blocks (heap w) hp = Some CEngine)"

inductive_cases rs_step_callE: "rs_step api (r, w) (r', w')"

lemma sizeOf_range: "sizeOf f = Inr n \<Longrightarrow> n \<in> {2, 4, 8}"
  by (auto simp: sizeOf_def split: if_splits)

lemma New_inv:
  assumes wf: "heap_wf (heap w)"
    and N: "New api threads writer inputRate outputRate chans inFormat outFormat quality w =
              ((Some r, None), w')"
  shows "rs_inv r w'"
proof -
  obtain inSize outSize where
    g: "writer \<noteq> None" "0 < inputRate" "0 < outputRate" "chans \<noteq> 0"
    and s: "sizeOf inFormat = Inr inSize" "sizeOf outFormat = Inr outSize"
    using N by (auto simp: New_def split: if_splits sum.splits)
  obtain soxErr sx w1 where
    cw: "soxr_create_w api inputRate outputRate (c_uint chans) (soxr_io_spec inFormat outFormat)
           (soxr_quality_spec (c_u64 quality) 0) (soxr_runtime_spec (c_uint threads)) w = (soxErr, sx, w1)"
    by (cases "soxr_create_w api inputRate outputRate (c_uint chans) (soxr_io_spec inFormat outFormat)
           (soxr_quality_spec (c_u64 quality) 0) (soxr_runtime_spec (c_uint threads)) w") auto
  have r: "r = \<lparr>resampler = sx, inRate = inputRate, outRate = outputRate, channels = chans,
                inFrameSize = inSize, outFrameSize = outSize, destination = writer\<rparr>"
    and w': "w' = w_free_all [soxr_error_ptr soxErr] w1"
    using N g s cw by (auto simp: New_def split: if_splits)
  have h: "heap w' = c_free (soxr_error_ptr soxErr) (heap w1)"
    using w' by (simp add: w_free_all_def)
  have hw1: "heap_wf (heap w1) \<and>
             (case sx of None \<Rightarrow> True | Some (hp, _) \<Rightarrow> blocks (heap w1) hp = Some CEngine)"
    using soxr_create_w_heap [OF cw] wf
    by (auto simp: c_alloc_def heap_wf_c_alloc [OF wf] split: option.splits prod.splits
             intro: heap_wf_c_alloc [where b = CEngine])
  have sz: "inSize \<in> {2, 4, 8}" "outSize \<in> {2, 4, 8}"
    using sizeOf_range [OF s(1)] sizeOf_range [OF s(2)] by simp_all
  show ?thesis
    using hw1 h g sz r by (auto simp: rs_inv_def c_free_err_wf split: option.splits)
qed

lemma rs_inv_handle:
  "rs_inv r w \<Longrightarrow> r' = r\<lparr>resampler := resampler r'\<rparr> \<Longrightarrow>
   map_option fst (resampler r') = map_option fst (resampler r) \<Longrightarrow>
   heap_wf (heap w') \<Longrightarrow> blocks (heap w') = blocks (heap w) \<Longrightarrow> rs_inv r' w'"
  by (cases "resampler r"; cases "resampler r'") (auto simp: rs_inv_def)

lemma run_call_inv:
  assumes inv: "rs_inv r w" and C: "run_call api c r w = Ret (r', w')"
  shows "rs_inv r' w'"
proof (cases c)
  case (CWrite p)
  then obtain res where W: "Write api r p w = Ret (res, r', w')"
    using C by (auto simp: run_call_def split: outcome.splits prod.splits)
  have wf: "heap_wf (heap w)" using inv by (simp add: rs_inv_def)
  from Write_Ret_heap [OF wf W] show ?thesis
    using inv by (auto intro: rs_inv_handle)
next
  case (CReset d)
  then obtain err where R: "Reset api r d w = Ret (err, r', w')"
    using C by (auto simp: run_call_def split: outcome.splits prod.splits)
  show ?thesis
  proof (cases "resampler r")
    case None
    then show ?thesis using R inv by (simp add: Reset_def)
  next
    case (Some h)
    obtain hp e where h: "h = (hp, e)" by fastforce
    have wf: "heap_wf (heap w)" using inv by (simp add: rs_inv_def)
    from Reset_Ret [OF wf Some [unfolded h] R] show ?thesis
      using inv Some h by (auto simp: rs_inv_def)
  qed
next
  case CClose
  then obtain err where Cl: "Close api r w = Ret (err, r', w')"
    using C by (auto simp: run_call_def split: outcome.splits prod.splits)
  show ?thesis
  proof (cases "resampler r")
    case None
    then show ?thesis using Cl inv by (simp add: Close_def)
  next
    case (Some h)
    obtain hp e where h: "h = (hp, e)" by fastforce
    have wf: "heap_wf (heap w)" using inv by (simp add: rs_inv_def)
    from Close_Ret [OF wf Some [unfolded h] Cl] show ?thesis
      using inv by (auto simp: rs_inv_def)
  qed
qed

lemma rs_step_inv:
  assumes "rs_step api (r, w) (r', w')" and inv: "rs_inv r w"
  shows "rs_inv r' w'"
  using assms(1)
proof (rule rs_step_callE)
  fix c assume "run_call api c r w = Ret (r', w')"
  then show ?thesis by (rule run_call_inv [OF inv])
next
  assume "r' = r" "heap w' = heap w"
  then show ?thesis using inv by (auto simp: rs_inv_def split: option.splits)
qed

text \<open>Each call only appends to sinks: a sink's bytes are a prefix of its bytes after.\<close>

lemma Write_sinks_prefix:
  assumes W: "Write api r p w = Ret (res, r', w')"
  shows "prefix (sink_data (sinks w j)) (sink_data (sinks w' j))"
proof (cases "resampler r")
  case None
  then show ?thesis using W by (simp add: Write_def)
next
  case (Some h)
  obtain hp e where h: "h = (hp, e)" by fastforce
  obtain dIn w1 where w1: "w_cbytes p w = (dIn, w1)" by fastforce
  obtain dOut w2 where w2: "w_malloc (c_u64 (frames_out r (frames_in r (length p)) * channels r * outFrameSize r)) w1 = (dOut, w2)"
    by fastforce
  have s: "sinks w2 = sinks w" using w1 w2 by (simp add: w_cbytes_sinks w_malloc_sinks)
  obtain err e' rd odone obuf where sx: "sx_process api e (Some (p, c_u64 (frames_in r (length p))))
               (c_u64 (frames_out r (frames_in r (length p)))) = (err, e', rd, odone, obuf)"
    by (cases "sx_process api e (Some (p, c_u64 (frames_in r (length p))))
               (c_u64 (frames_out r (frames_in r (length p))))") auto
  show ?thesis
    using W Some h w1 w2 sx s
    by (auto simp: Write_def Let_def split: if_splits outcome.splits prod.splits
             dest!: dest_write_prefix [where j = j])
qed

lemma flush_sinks_prefix:
  assumes F: "flush api r (hp, e) w = Ret (err, r', w')"
  shows "prefix (sink_data (sinks w j)) (sink_data (sinks w' j))"
proof -
  obtain dOut w1 where w1: "w_malloc (c_u64 (4096 * 16 * channels r * outFrameSize r)) w = (dOut, w1)"
    by fastforce
  obtain serr e' rd odone obuf where
    sx: "sx_process api e None (c_u64 (4096 * 16)) = (serr, e', rd, odone, obuf)"
    by (cases "sx_process api e None (c_u64 (4096 * 16))") auto
  have s1: "sinks w1 = sinks w" using w1 by (rule w_malloc_sinks)
  show ?thesis
    using F w1 sx s1
    by (auto simp: flush_def Let_def split: if_splits outcome.splits prod.splits
             dest!: dest_write_prefix [where j = j])
qed

lemma run_call_sinks_prefix:
  assumes C: "run_call api c r w = Ret (r', w')"
  shows "prefix (sink_data (sinks w j)) (sink_data (sinks w' j))"
proof (cases c)
  case (CWrite p)
  then show ?thesis using C
    by (auto simp: run_call_def split: outcome.splits prod.splits intro: Write_sinks_prefix)
next
  case (CReset d)
  then show ?thesis using C flush_sinks_prefix [where j = j]
    by (auto simp: run_call_def Reset_def split: outcome.splits prod.splits option.splits)
next
  case CClose
  then show ?thesis using C flush_sinks_prefix [where j = j]
    by (auto simp: run_call_def Close_def soxr_delete_w_def split: outcome.splits prod.splits option.splits)
qed

text \<open>
  C14. Every reachable state satisfies the invariant: the heap is well formed, the
  rates are positive, the channel count is not zero, both frame sizes are 2, 4 or 8
  bytes, and an open handle always names a live engine block, so the block
  \<open>Close\<close> deletes is never already freed.
\<close>

theorem reachable_inv: "rs_reach api s \<Longrightarrow> rs_inv (fst s) (snd s)"
proof (induction rule: rs_reach.induct)
  case (new w threads writer inputRate outputRate chans inFormat outFormat quality r w')
  then show ?case by (simp add: New_inv)
next
  case (step s s')
  then show ?case
    by (cases s; cases s') (auto intro: rs_step_inv)
qed



text \<open>
  C17. \<open>Reset\<close> accepts a nil writer and stores it; the next \<open>Close\<close> then
  flushes into the nil destination and panics with a nil dereference, whenever the
  engine's flush succeeds, even with nothing to emit.
\<close>

theorem Reset_nil_then_Close_panics:
  assumes wf: "heap_wf (heap w)" and r: "resampler r = Some (hp, e)"
    and R: "Reset api r None w = Ret (err, r', w')" and r': "resampler r' = Some (hp, e')"
    and sx: "sx_process api e' None (c_u64 (4096 * 16)) = (None, e2, rd, n, obuf)"
    and fit: "int n * channels r * outFrameSize r < 2 ^ 31" "0 < channels r" "0 < outFrameSize r"
  shows "Close api r' w' = Panic ''invalid memory address or nil pointer dereference''"
proof -
  obtain e1 where r1: "r' = r\<lparr>resampler := Some (hp, e1), destination := None\<rparr>"
    using Reset_Ret [OF wf r R] by blast
  have gb: "go_bytes obuf (c_int (go_int_of_u64 n * channels r * outFrameSize r)) =
            Ret (take (n * nat (channels r * outFrameSize r)) obuf)"
    using fit by (rule go_bytes_exact)
  obtain dOut w1 where w1: "w_malloc (c_u64 (4096 * 16 * channels r * outFrameSize r)) w' = (dOut, w1)"
    by fastforce
  show ?thesis
    using r' r1 sx gb w1 by (simp add: Close_def flush_def Let_def dest_write_def)
qed

text \<open>\<open>Write\<close> touches its destination only and keeps it.\<close>

lemma Write_other_sinks:
  assumes W: "Write api r p w = Ret (res, r', w')" and k: "destination r \<noteq> Some k"
  shows "sinks w' k = sinks w k \<and> destination r' = destination r"
proof (cases "resampler r")
  case None
  then show ?thesis using W by (simp add: Write_def)
next
  case (Some h)
  obtain hp e where h: "h = (hp, e)" by fastforce
  obtain dIn w1 where w1: "w_cbytes p w = (dIn, w1)" by fastforce
  obtain dOut w2 where w2: "w_malloc (c_u64 (frames_out r (frames_in r (length p)) * channels r * outFrameSize r)) w1 = (dOut, w2)"
    by fastforce
  have s: "sinks w2 = sinks w" using w1 w2 by (simp add: w_cbytes_sinks w_malloc_sinks)
  obtain err e' rd odone obuf where sx: "sx_process api e (Some (p, c_u64 (frames_in r (length p))))
               (c_u64 (frames_out r (frames_in r (length p)))) = (err, e', rd, odone, obuf)"
    by (cases "sx_process api e (Some (p, c_u64 (frames_in r (length p))))
               (c_u64 (frames_out r (frames_in r (length p))))") auto
  show ?thesis
    using W Some h w1 w2 sx s k
    by (auto simp: Write_def Let_def split: if_splits outcome.splits prod.splits
             dest!: dest_write_other [where j = k])
qed

lemma Write_closed: "resampler r = None \<Longrightarrow> Write api r p w = Ret (res, r', w') \<Longrightarrow> r' = r \<and> w' = w"
  by (simp add: Write_def)

lemma writes_isolated:
  "destination r = Some j \<or> resampler r = None \<Longrightarrow> k \<noteq> j \<Longrightarrow>
   run_calls api (map CWrite ps) r w = Ret (r', w') \<Longrightarrow> sinks w' k = sinks w k"
proof (induction ps arbitrary: r w)
  case Nil
  then show ?case by simp
next
  case (Cons p ps)
  then obtain res r1 w1 where W: "Write api r p w = Ret (res, r1, w1)"
    and rest: "run_calls api (map CWrite ps) r1 w1 = Ret (r', w')"
    by (auto simp: run_call_def split: outcome.splits prod.splits)
  have step: "sinks w1 k = sinks w k \<and> (destination r1 = Some j \<or> resampler r1 = None)"
  proof (cases "resampler r = None")
    case True
    then show ?thesis using Write_closed [OF True W] by simp
  next
    case False
    then have "destination r = Some j" using Cons.prems(1) by auto
    then have "destination r \<noteq> Some k" using Cons.prems(2) by simp
    from Write_other_sinks [OF W this] show ?thesis using \<open>destination r = Some j\<close> by simp
  qed
  then show ?case using Cons.IH [OF _ Cons.prems(2) rest] by simp
qed

text \<open>
  C31. No cross-stream leakage (specification, property 6): after \<open>Reset\<close> switches to
  destination \<open>j\<close>, any run of writes leaves every other sink, the old destination
  included, exactly as the reset left it.
\<close>

theorem writes_after_reset_isolated:
  assumes R: "Reset api r (Some j) w = Ret (err, r1, w1)"
    and C: "run_calls api (map CWrite ps) r1 w1 = Ret (r2, w2)" and k: "k \<noteq> j"
  shows "sinks w2 k = sinks w1 k"
proof -
  have "destination r1 = Some j \<or> resampler r1 = None"
    using R by (auto simp: Reset_def split: option.splits outcome.splits prod.splits)
  then show ?thesis using k C by (rule writes_isolated)
qed

text \<open>A run of calls split at any point is the two runs in sequence.\<close>

lemma run_calls_append:
  "run_calls api (xs @ ys) r w =
     (case run_calls api xs r w of Ret (r', w') \<Rightarrow> run_calls api ys r' w' | Panic m \<Rightarrow> Panic m)"
  by (induction xs arbitrary: r w) (simp_all split: outcome.splits)


end
