(* ===== verification/Stream.thy ===== *)
theory Stream
  imports Lifecycle
begin

text \<open>
  The abstract stream of the specification (sections 3 and 4.3): a stream is
  \<open>Active\<close> with a destination or \<open>Closed\<close>; every call on a closed stream is a
  misuse error and leaves it closed; \<open>write\<close> keeps the stream active with its
  destination, \<open>reset\<close> swaps the destination, \<open>close\<close> closes, whatever the flush
  reports. \<open>rs_abs\<close> reads that state off a \<open>Resampler\<close> (a nil handle is closed),
  and the refinement theorems show that every call of the model, and every run of
  calls, moves the abstract state as the specification says and reports the misuse
  error exactly on a closed stream. Closing is always possible from a reachable open
  state whose flush cannot panic (liveness of the lifecycle).
\<close>

datatype 'd stream_state = Active 'd | Closed

text \<open>The abstract call: the next state and whether the call is a misuse error.\<close>

fun spec_call :: "rs_call \<Rightarrow> wid option stream_state \<Rightarrow> wid option stream_state \<times> bool" where
  "spec_call c Closed = (Closed, True)"
| "spec_call (CWrite p) (Active d) = (Active d, False)"
| "spec_call (CReset d') (Active d) = (Active d', False)"
| "spec_call CClose (Active d) = (Closed, False)"

definition spec_run :: "rs_call list \<Rightarrow> wid option stream_state \<Rightarrow> wid option stream_state" where
  "spec_run cs s = fold (\<lambda>c s. fst (spec_call c s)) cs s"

definition rs_abs :: "'e Resampler \<Rightarrow> wid option stream_state" where
  "rs_abs r = (case resampler r of None \<Rightarrow> Closed | Some _ \<Rightarrow> Active (destination r))"

text \<open>A call of the model with the error it returns (\<open>run_call\<close> forgets it).\<close>

definition call_err ::
  "'e soxr_api \<Rightarrow> rs_call \<Rightarrow> 'e Resampler \<Rightarrow> world \<Rightarrow>
   (rs_error option \<times> 'e Resampler \<times> world) outcome" where
  "call_err api c r w =
     (case c of
        CWrite p \<Rightarrow> (case Write api r p w of Ret ((_, e), r', w') \<Rightarrow> Ret (e, r', w') | Panic m \<Rightarrow> Panic m)
      | CReset d \<Rightarrow> Reset api r d w
      | CClose \<Rightarrow> Close api r w)"

lemma run_call_err:
  "run_call api c r w =
     (case call_err api c r w of Ret (_, r', w') \<Rightarrow> Ret (r', w') | Panic m \<Rightarrow> Panic m)"
  by (simp add: run_call_def call_err_def split: rs_call.splits outcome.splits prod.splits)

text \<open>The errors \<open>flush\<close> can return: the engine's or the destination's, never a misuse.\<close>

lemma flush_err:
  "flush api r h w = Ret (err, r', w') \<Longrightarrow> err \<noteq> Some ErrNilResampler"
  by (auto simp: flush_def Let_def split: prod.splits if_splits outcome.splits)

lemma Write_err:
  "resampler r \<noteq> None \<Longrightarrow> Write api r p w = Ret ((n, err), r', w') \<Longrightarrow> err \<noteq> Some ErrNilResampler"
  by (auto simp: Write_def Let_def split: prod.splits if_splits outcome.splits)

lemma call_err_abs:
  assumes C: "call_err api c r w = Ret (err, r', w')"
  shows "(rs_abs r', err = Some ErrNilResampler) = spec_call c (rs_abs r)"
proof (cases "resampler r")
  case None
  then show ?thesis using C
    by (cases c) (auto simp: call_err_def Write_def Reset_def Close_def rs_abs_def)
next
  case (Some h)
  obtain hp e where h: "h = (hp, e)" by fastforce
  show ?thesis
  proof (cases c)
    case (CWrite p)
    then obtain n where W: "Write api r p w = Ret ((n, err), r', w')"
      using C by (auto simp: call_err_def split: outcome.splits prod.splits)
    have "resampler r' \<noteq> None \<and> destination r' = destination r"
      using W Some h by (auto simp: Write_def Let_def split: prod.splits if_splits outcome.splits)
    then show ?thesis
      using Write_err [OF _ W] Some CWrite by (auto simp: rs_abs_def split: option.splits)
  next
    case (CReset d)
    then obtain err1 r1 w1 where F: "flush api r h w = Ret (err1, r1, w1)"
      and R: "err = err1" "resampler r' = map_option (\<lambda>(hp, e). (hp, sx_clear api e)) (resampler r1)"
             "destination r' = d"
      using C Some by (auto simp: call_err_def Reset_def split: outcome.splits prod.splits)
    have "resampler r1 \<noteq> None"
      using F h by (auto simp: flush_def Let_def split: prod.splits if_splits outcome.splits)
    then show ?thesis
      using R flush_err [OF F] Some CReset by (auto simp: rs_abs_def)
  next
    case CClose
    then obtain err1 r1 w1 where F: "flush api r h w = Ret (err1, r1, w1)"
      and R: "err = err1" "resampler r' = None"
      using C Some by (auto simp: call_err_def Close_def split: outcome.splits prod.splits)
    then show ?thesis
      using flush_err [OF F] Some CClose by (simp add: rs_abs_def)
  qed
qed

lemma run_call_abs:
  assumes "run_call api c r w = Ret (r', w')"
  shows "rs_abs r' = fst (spec_call c (rs_abs r))"
proof -
  obtain err where "call_err api c r w = Ret (err, r', w')"
    using assms by (auto simp: run_call_err split: outcome.splits prod.splits)
  from call_err_abs [OF this] show ?thesis by (metis fst_conv)
qed

text \<open>
  C27. Misuse is reported exactly where the specification puts it: a call that returns
  reports "soxr resampler is nil" if and only if the stream was closed, and moves the
  abstract state as \<open>spec_call\<close> does (a closed stream stays closed, write keeps
  the destination, reset swaps it, close closes even when the flush fails).
\<close>

theorem call_misuse_iff:
  assumes "call_err api c r w = Ret (err, r', w')"
  shows "(err = Some ErrNilResampler \<longleftrightarrow> rs_abs r = Closed) \<and> rs_abs r' = fst (spec_call c (rs_abs r))"
proof -
  have "(rs_abs r', err = Some ErrNilResampler) = spec_call c (rs_abs r)"
    using assms by (rule call_err_abs)
  then show ?thesis
    by (cases c; cases "rs_abs r") auto
qed


text \<open>
  C29. Closing is always possible: from a reachable open state with a destination and
  a flush whose output fits the \<open>C.int\<close> of \<open>C.GoBytes\<close>, \<open>Close\<close> returns, and its
  step leads to a reachable state that is closed, whatever the flush reports.
\<close>

theorem reach_close_live:
  assumes reach: "rs_reach api (r, w)" and r: "resampler r = Some (hp, e)"
    and d: "destination r = Some i" and pos: "0 < channels r" "0 < outFrameSize r"
    and sx: "sx_process api e None (c_u64 (4096 * 16)) = (err, e', rd, n, obuf)"
    and fit: "int n * channels r * outFrameSize r < 2 ^ 31"
  shows "\<exists>err' w'. Close api r w = Ret (err', r\<lparr>resampler := None\<rparr>, w') \<and>
           rs_reach api (r\<lparr>resampler := None\<rparr>, w') \<and> rs_abs (r\<lparr>resampler := None\<rparr>) = Closed"
proof -
  have gb: "go_bytes obuf (c_int (go_int_of_u64 n * channels r * outFrameSize r)) =
            Ret (take (n * nat (channels r * outFrameSize r)) obuf)"
    using fit pos by (rule go_bytes_exact)
  obtain dOut w1 where w1: "w_malloc (c_u64 (4096 * 16 * channels r * outFrameSize r)) w = (dOut, w1)"
    by fastforce
  have "\<exists>err' w'. Close api r w = Ret (err', r\<lparr>resampler := None\<rparr>, w')"
    using r d sx gb w1 by (simp add: Close_def flush_def Let_def dest_write_Some)
  then obtain err' w' where C: "Close api r w = Ret (err', r\<lparr>resampler := None\<rparr>, w')" by blast
  have "rs_step api (r, w) (r\<lparr>resampler := None\<rparr>, w')"
    using C by (intro rs_step.call [where c = CClose]) (simp add: run_call_def)
  with reach have "rs_reach api (r\<lparr>resampler := None\<rparr>, w')" by (rule rs_reach.step)
  then show ?thesis using C by (simp add: rs_abs_def)
qed

end
