(* ===== verification/Reference.thy ===== *)
theory Reference
  imports Resample
begin

text \<open>
  The resampler composed with the reference engine \<open>ref_api\<close>, an engine that emits
  \<open>\<lfloor>frames fed \<times> ratio\<rfloor>\<close> frames in total and holds back a latency until a flush.
  For such an engine, a write followed by a close delivers every frame the engine
  owes: nothing is lost between \<open>Write\<close>'s frame budget and \<open>flush\<close>'s buffer of
  65536 frames (specification, properties 3 and 4, for one write). The theorems start
  from \<open>New\<close>, whose engine state they read off the configuration, and cover a
  \<open>Reset\<close> to a new writer before the write.
\<close>

text \<open>
  The frame arithmetic of \<open>Write\<close> on a valid configuration: a non-zero budget
  means whole input frames, both counts pass \<open>C.size_t\<close> unchanged, and the
  budget is the floor of the frames times the ratio.
\<close>

lemma frames_in_upd [simp]: "frames_in (r\<lparr>resampler := x\<rparr>) n = frames_in r n"
  by (simp add: frames_in_def)

lemma frames_out_upd [simp]: "frames_out (r\<lparr>resampler := x\<rparr>) n = frames_out r n"
  by (simp add: frames_out_def)

lemma frames_out_floor:
  "0 \<le> x \<Longrightarrow> 0 < inRate r \<Longrightarrow> 0 \<le> outRate r \<Longrightarrow>
     frames_out r x = \<lfloor>of_int x * (outRate r / inRate r)\<rfloor>"
  by (simp add: frames_out_def go_conv)

lemma frames_ref:
  assumes r: "0 < inFrameSize r" "0 < channels r" "0 < outFrameSize r"
    and rates: "0 < inRate r" "0 \<le> outRate r"
    and fo: "frames_out r (frames_in r (length p)) \<noteq> 0"
    and fit: "frames_out r (frames_in r (length p)) * channels r * outFrameSize r < 2 ^ 31"
    and len: "length p < 2 ^ 63"
  shows "0 \<le> frames_in r (length p) \<and> frames_in r (length p) \<noteq> 0 \<and>
         0 \<le> frames_out r (frames_in r (length p)) \<and>
         c_u64 (frames_in r (length p)) = nat (frames_in r (length p)) \<and>
         c_u64 (frames_out r (frames_in r (length p))) = nat (frames_out r (frames_in r (length p)))"
proof -
  let ?fi = "frames_in r (length p)" and ?fo = "frames_out r (frames_in r (length p))"
  have fi0: "0 \<le> ?fi" using r(1,2) by (rule frames_in_nonneg)
  have fi: "?fi \<noteq> 0" using fo by (auto simp: frames_out_def go_f2i_def)
  have "?fi = int (length p div nat (inFrameSize r * channels r))"
    using r(1,2) by (simp add: frames_in_div zdiv_int)
  then have "?fi \<le> int (length p)" by simp
  then have cfi: "c_u64 ?fi = nat ?fi" using fi0 len by (intro c_u64_exact) simp_all
  have fo0: "0 \<le> ?fo" using fi0 rates by (simp add: frames_out_def go_f2i_def)
  have "?fo \<le> ?fo * channels r * outFrameSize r"
    using fo0 r(2,3) by (simp add: mult.assoc int_le_mult_pos)
  then have "c_u64 ?fo = nat ?fo" using fo0 fit by (intro c_u64_exact) simp_all
  then show ?thesis using fi0 fi fo0 cfi by simp
qed

lemma ref_process_feed:
  assumes "rf_fed s = 0" "rf_sent s = 0" "nat \<lfloor>of_nat k * rf_ratio s\<rfloor> = d"
  shows "ref_process s (Some (p, k)) d =
           (None, s\<lparr>rf_fed := k, rf_sent := d - rf_latency s\<rparr>, k, d - rf_latency s,
            replicate ((d - rf_latency s) * rf_frame s) 0)"
  using assms by (simp add: ref_process_def Let_def)

lemma ref_process_drain:
  assumes "nat \<lfloor>of_nat k * rf_ratio s\<rfloor> = d" "rf_latency s \<le> 65536"
  shows "ref_process (s\<lparr>rf_fed := k, rf_sent := d - rf_latency s\<rparr>) None 65536 =
           (None, s\<lparr>rf_fed := k, rf_sent := d\<rparr>, 0, min (rf_latency s) d,
            replicate (min (rf_latency s) d * rf_frame s) 0)"
  using assms by (auto simp: ref_process_def Let_def min_def)

text \<open>
  What \<open>New\<close> hands over on the reference engine: a fresh engine state with the
  configuration's ratio and output frame, and valid sizes.
\<close>

lemma sizeOf_datasize: "sizeOf f = Inr n \<Longrightarrow> soxr_datasize f = Some (nat n) \<and> 0 < n"
  by (auto simp: sizeOf_def soxr_datasize_def format_defs split: if_splits)


lemma New_ref_fresh:
  assumes N: "New (ref_api lat) t (Some i) ir orr ch fi fo q w = ((Some r, None), w0)"
    and ch: "0 < ch" "ch < 2 ^ 32"
  shows "\<exists>hp. resampler r = Some (hp, \<lparr>rf_ratio = orr / ir, rf_frame = nat (ch * outFrameSize r),
                                      rf_latency = lat, rf_fed = 0, rf_sent = 0\<rparr>) \<and>
             0 < inFrameSize r \<and> 0 < outFrameSize r \<and> channels r = ch \<and> inRate r = ir \<and>
             outRate r = orr \<and> destination r = Some i \<and> 0 < ir \<and> 0 < orr \<and> sinks w0 = sinks w"
proof -
  obtain isz osz where si: "sizeOf fi = Inr isz" and so: "sizeOf fo = Inr osz"
    using N by (auto simp: New_def split: if_splits sum.splits)
  have ds: "soxr_datasize fo = Some (nat osz)" "0 < osz" "0 < isz"
    using sizeOf_datasize [OF so] sizeOf_datasize [OF si] by simp_all
  have u: "unat (c_uint ch) = nat ch" using ch by (simp add: unat_c_uint_pos)
  have f: "unat (c_uint ch) * nat osz = nat (ch * osz)" using u ch ds by (simp add: nat_mult_distrib)
  have c0: "c_uint ch \<noteq> 0" using u ch by (metis nat_0_iff not_le unat_0)
  show ?thesis
    using N si so ds f ch c0
    by (auto simp: New_def Let_def soxr_create_w_def ref_api_def ref_create_def soxr_io_spec_def
             soxr_failed_def go_string_def
             split: if_splits prod.splits)
qed


text \<open>
  A flush or a reset of an engine that holds nothing delivers no bytes and leaves the
  engine as it was.
\<close>

lemma flush_ref_idle:
  assumes s: "rf_fed s = 0" "rf_sent s = 0" and F: "flush (ref_api lat) r (hp, s) w = Ret (err, r', w')"
  shows "r' = r\<lparr>resampler := Some (hp, s)\<rparr> \<and> (\<forall>k. sink_data (sinks w' k) = sink_data (sinks w k))"
proof -
  have sx: "sx_process (ref_api lat) s None (c_u64 (4096 * 16)) = (None, s, 0, 0, [])"
    using s by (simp add: ref_api_def ref_process_def Let_def)
  obtain dOut w1 where w1: "w_malloc (c_u64 (4096 * 16 * channels r * outFrameSize r)) w = (dOut, w1)"
    by fastforce
  have s1: "sinks w1 = sinks w" using w1 by (rule w_malloc_sinks)
  show ?thesis
    using F sx w1 s1
    by (auto simp: flush_def Let_def go_bytes_def dest_write_def 
             split: if_splits outcome.splits prod.splits option.splits dest: sink_write_Nil_data)
qed


lemma Reset_ref_idle:
  assumes r: "resampler r = Some (hp, s)" and s: "rf_fed s = 0" "rf_sent s = 0"
    and R: "Reset (ref_api lat) r d w = Ret (err, r', w')"
  shows "r' = r\<lparr>destination := d\<rparr> \<and> (\<forall>k. sink_data (sinks w' k) = sink_data (sinks w k))"
proof -
  obtain r1 where F: "flush (ref_api lat) r (hp, s) w = Ret (err, r1, w')"
    and R': "r' = r1\<lparr>destination := d, resampler := map_option (\<lambda>(hp, e). (hp, ref_clear e)) (resampler r1)\<rparr>"
    using R r by (auto simp: Reset_def ref_api_def split: outcome.splits prod.splits)
  have "ref_clear s = s" using s by (simp add: ref_clear_def)
  then show ?thesis using flush_ref_idle [OF s F] R' r by auto
qed


text \<open>
  One write of whole frames on a fresh reference engine whose ratio is
  \<open>outRate / inRate\<close> and whose latency fits the flush buffer, followed by a flush
  that reports no error, delivers exactly \<open>framesOut\<close> output frames to the
  destination, in order.
\<close>

lemma ref_write_flush_frames:
  assumes r: "resampler r = Some (hp, s)" "0 < inFrameSize r" "0 < channels r" "0 < outFrameSize r"
    and s: "rf_fed s = 0" "rf_sent s = 0" "rf_ratio s = outRate r / inRate r"
           "rf_frame s = nat (channels r * outFrameSize r)" "rf_latency s \<le> 65536"
    and rates: "0 < inRate r" "0 \<le> outRate r"
    and d: "destination r = Some i"
    and fo: "frames_out r (frames_in r (length p)) \<noteq> 0"
    and fit: "frames_out r (frames_in r (length p)) * channels r * outFrameSize r < 2 ^ 31"
    and len: "length p < 2 ^ 63"
    and W: "Write (ref_api lat) r p w = Ret ((m, None), r1, w1)"
  shows "\<exists>e1. resampler r1 = Some (hp, e1) \<and>
           (\<forall>r1' w1'. flush (ref_api lat) r1 (hp, e1) w1 = Ret (None, r1', w1') \<longrightarrow>
              sink_data (sinks w1' i) =
                sink_data (sinks w i) @
                replicate (nat (frames_out r (frames_in r (length p))) * nat (channels r * outFrameSize r)) 0)"
proof -
  let ?fi = "frames_in r (length p)" and ?fo = "frames_out r (frames_in r (length p))"
  let ?f = "nat (channels r * outFrameSize r)" and ?lat = "rf_latency s"
  have fr: "0 \<le> ?fi" "?fi \<noteq> 0" "0 \<le> ?fo" "c_u64 ?fi = nat ?fi" "c_u64 ?fo = nat ?fo"
    using frames_ref [OF r(2,3,4) rates fo fit len] by simp_all
  note fi0 = fr(1) and fi = fr(2) and fo0 = fr(3) and cfi = fr(4) and cfo = fr(5)
  have due: "nat \<lfloor>of_nat (nat ?fi) * rf_ratio s\<rfloor> = nat ?fo"
    using fi0 rates s(3) by (simp add: frames_out_def go_f2i_def)
  let ?s1 = "s\<lparr>rf_fed := nat ?fi, rf_sent := nat ?fo - ?lat\<rparr>"
  have sx1: "sx_process (ref_api lat) s (Some (p, c_u64 ?fi)) (c_u64 ?fo) =
      (None, ?s1, nat ?fi, nat ?fo - ?lat, replicate ((nat ?fo - ?lat) * rf_frame s) 0)"
    using ref_process_feed [OF s(1,2) due] by (simp add: ref_api_def cfi cfo)
  have cs: "0 < channels r * outFrameSize r" using r(3,4) by simp
  have le_fo: "\<And>k. k \<le> nat ?fo \<Longrightarrow> int k * channels r * outFrameSize r < 2 ^ 31"
  proof -
    fix k assume "k \<le> nat ?fo"
    then have "int k \<le> ?fo" using fo0 by simp
    then have "int k * (channels r * outFrameSize r) \<le> ?fo * (channels r * outFrameSize r)"
      using cs by (intro mult_right_mono) simp_all
    then show "int k * channels r * outFrameSize r < 2 ^ 31" using fit by (simp add: mult.assoc)
  qed
  have fit1: "int (nat ?fo - ?lat) * channels r * outFrameSize r < 2 ^ 31"
    by (rule le_fo) simp
  from Write_appends_engine [OF r(1,3,4) d fi fo sx1 fit1 W]
  have w1: "sink_data (sinks w1 i) = sink_data (sinks w i) @ replicate ((nat ?fo - ?lat) * ?f) 0"
    and r1: "r1 = r\<lparr>resampler := Some (hp, ?s1)\<rparr>"
    using s(4) by simp_all
  have sx2: "sx_process (ref_api lat) ?s1 None (c_u64 (4096 * 16)) =
      (None, s\<lparr>rf_fed := nat ?fi, rf_sent := nat ?fo\<rparr>, 0, min ?lat (nat ?fo),
       replicate (min ?lat (nat ?fo) * rf_frame s) 0)"
    using ref_process_drain [OF due s(5)] by (simp add: ref_api_def c_u64_def)
  have fit2: "int (min ?lat (nat ?fo)) * channels r1 * outFrameSize r1 < 2 ^ 31"
    using r1 le_fo [of "min ?lat (nat ?fo)"] by simp
  have "nat ?fo - ?lat + min ?lat (nat ?fo) = nat ?fo" by simp
  then have tot: "(nat ?fo - ?lat) * ?f + min ?lat (nat ?fo) * ?f = nat ?fo * ?f"
    by (metis add_mult_distrib)
  have "\<forall>r1' w1'. flush (ref_api lat) r1 (hp, ?s1) w1 = Ret (None, r1', w1') \<longrightarrow>
          sink_data (sinks w1' i) = sink_data (sinks w i) @ replicate (nat ?fo * ?f) 0"
  proof (intro allI impI)
    fix r1' w1' assume F: "flush (ref_api lat) r1 (hp, ?s1) w1 = Ret (None, r1', w1')"
    have "sink_data (sinks w1' i) = sink_data (sinks w1 i) @ replicate (min ?lat (nat ?fo) * ?f) 0"
      using flush_appends [of r1 i "ref_api lat", OF _ _ _ sx2 fit2] F r1 r(3,4) d s(4) by simp
    then show "sink_data (sinks w1' i) = sink_data (sinks w i) @ replicate (nat ?fo * ?f) 0"
      using w1 tot by (simp add: replicate_add [symmetric])
  qed
  then show ?thesis using r1 by simp
qed

text \<open>
  C36. Frame conservation from creation to close: a resampler created by \<open>New\<close> on the
  reference engine (with a latency that fits the flush buffer), given one write of
  whole frames and then closed, delivers to its writer exactly
  \<open>framesOut = \<lfloor>\<lfloor>len(p) / (inFrameSize \<times> channels)\<rfloor> \<times> outRate / inRate\<rfloor>\<close>
  output frames, appended in order to what the writer held before \<open>New\<close>.
\<close>

theorem New_Write_Close_conserves:
  assumes N: "New (ref_api lat) t (Some i) ir orr ch fi fo q w = ((Some r, None), w0)"
    and ch: "0 < ch" "ch < 2 ^ 32" and lat: "lat \<le> 65536"
    and fo: "frames_out r (frames_in r (length p)) \<noteq> 0"
    and fit: "frames_out r (frames_in r (length p)) * ch * outFrameSize r < 2 ^ 31"
    and len: "length p < 2 ^ 63"
    and W: "Write (ref_api lat) r p w0 = Ret ((m, None), r1, w1)"
    and C: "Close (ref_api lat) r1 w1 = Ret (None, r2, w2)"
  shows "sink_data (sinks w2 i) =
           sink_data (sinks w i) @ replicate (nat (frames_out r (frames_in r (length p))) * nat (ch * outFrameSize r)) 0"
proof -
  from New_ref_fresh [OF N ch] obtain hp where
    r: "resampler r = Some (hp, \<lparr>rf_ratio = orr / ir, rf_frame = nat (ch * outFrameSize r),
                                 rf_latency = lat, rf_fed = 0, rf_sent = 0\<rparr>)"
    and f: "0 < inFrameSize r" "0 < outFrameSize r" "channels r = ch" "inRate r = ir"
           "outRate r = orr" "destination r = Some i" "0 < ir" "0 < orr" "sinks w0 = sinks w"
    by blast
  from ref_write_flush_frames [OF r f(1) _ f(2) _ _ _ _ _ _ _ f(6) fo _ len W] f ch lat fit
  obtain e1 where e1: "resampler r1 = Some (hp, e1)"
    and fl: "\<forall>r1' w1'. flush (ref_api lat) r1 (hp, e1) w1 = Ret (None, r1', w1') \<longrightarrow>
               sink_data (sinks w1' i) = sink_data (sinks w0 i) @
                 replicate (nat (frames_out r (frames_in r (length p))) * nat (ch * outFrameSize r)) 0"
    by auto
  obtain r1' w1' where F: "flush (ref_api lat) r1 (hp, e1) w1 = Ret (None, r1', w1')"
    and w2: "w2 = soxr_delete_w hp w1'"
    using C e1 by (auto simp: Close_def split: outcome.splits prod.splits)
  show ?thesis using fl F w2 f(9) by (simp add: soxr_delete_w_def)
qed



end
