(* ===== verification/Conservation.thy ===== *)
theory Conservation
  imports Reference Lifecycle
begin

text \<open>
  Frame conservation over a whole stream on the reference engine: any run of writes
  of whole frames, then \<open>Close\<close>, delivers the frames the engine owes for all the
  input, \<open>\<lfloor>(\<Sum> framesIn) \<times> ratio\<rfloor>\<close>, as long as what the engine holds back fits the
  single flush of \<open>Close\<close>. The run is the \<open>run_calls\<close> of the lifecycle.
\<close>

text \<open>
  The frames the reference engine owes for what it has been fed; what it has sent
  never exceeds that, and the difference is its backlog.
\<close>

abbreviation ref_due :: "ref_state \<Rightarrow> nat" where
  "ref_due s \<equiv> nat \<lfloor>of_nat (rf_fed s) * rf_ratio s\<rfloor>"

text \<open>
  Several writes. Each \<open>Write\<close> budgets \<open>\<lfloor>framesIn \<times> ratio\<rfloor>\<close> frames for its own
  input; the engine owes \<open>\<lfloor>fed \<times> ratio\<rfloor>\<close> for all input so far, so the frames
  it holds back grow by at most one per write on top of its latency
  (\<open>backlog_step\<close>), and the single flush of \<open>Close\<close> drains them while they fit
  its buffer of 65536 frames.
\<close>

lemma floor_sum_le:
  assumes "0 \<le> x" "0 \<le> y"
  shows "nat \<lfloor>x + y\<rfloor> \<le> nat \<lfloor>x\<rfloor> + nat \<lfloor>y\<rfloor> + 1" and "nat \<lfloor>x\<rfloor> \<le> nat \<lfloor>x + y\<rfloor>"
proof -
  have "\<lfloor>x + y\<rfloor> \<le> \<lfloor>x\<rfloor> + \<lfloor>y\<rfloor> + 1" by (simp add: floor_add)
  then show "nat \<lfloor>x + y\<rfloor> \<le> nat \<lfloor>x\<rfloor> + nat \<lfloor>y\<rfloor> + 1" using assms by linarith
  show "nat \<lfloor>x\<rfloor> \<le> nat \<lfloor>x + y\<rfloor>" using assms by (intro nat_mono floor_mono) simp
qed


lemma backlog_step:
  fixes sent due due' fo lat k :: nat
  assumes "sent \<le> due" "due \<le> sent + lat + k" "due \<le> due'" "due' \<le> due + fo + 1"
  shows "sent + min fo (due' - lat - sent) \<le> due' \<and>
         due' \<le> sent + min fo (due' - lat - sent) + lat + Suc k"
  using assms by (cases "fo \<le> due' - lat - sent") (simp_all add: min_def, arith+)


lemma Write_ref_step:
  assumes r: "0 < inFrameSize r" "0 < channels r" "0 < outFrameSize r"
    and rates: "0 < inRate r" "0 \<le> outRate r" and d: "destination r = Some i"
    and s: "rf_frame s = nat (channels r * outFrameSize r)"
    and k: "\<not> sink_closed (sinks w i)" "sink_room (sinks w i) = None"
    and fo: "frames_out r (frames_in r (length p)) \<noteq> 0"
    and fit: "frames_out r (frames_in r (length p)) * channels r * outFrameSize r < 2 ^ 31"
    and len: "length p < 2 ^ 63"
    and W: "Write (ref_api lat) (r\<lparr>resampler := Some (hp, s)\<rparr>) p w = Ret (res, r', w')"
  shows "r' = r\<lparr>resampler := Some (hp, s\<lparr>rf_fed := rf_fed s + nat (frames_in r (length p)),
            rf_sent := rf_sent s + min (nat (frames_out r (frames_in r (length p))))
              (nat \<lfloor>of_nat (rf_fed s + nat (frames_in r (length p))) * rf_ratio s\<rfloor> - rf_latency s - rf_sent s)\<rparr>)\<rparr> \<and>
         sinks w' i = (sinks w i)\<lparr>sink_data := sink_data (sinks w i) @
            replicate (min (nat (frames_out r (frames_in r (length p))))
              (nat \<lfloor>of_nat (rf_fed s + nat (frames_in r (length p))) * rf_ratio s\<rfloor> - rf_latency s - rf_sent s) *
              rf_frame s) 0\<rparr>"
proof -
  let ?fi = "frames_in r (length p)" and ?fo = "frames_out r (frames_in r (length p))"
  let ?dn = "min (nat ?fo) (nat \<lfloor>of_nat (rf_fed s + nat ?fi) * rf_ratio s\<rfloor> - rf_latency s - rf_sent s)"
  have fr: "0 \<le> ?fi" "?fi \<noteq> 0" "0 \<le> ?fo" "c_u64 ?fi = nat ?fi" "c_u64 ?fo = nat ?fo"
    using frames_ref [OF r rates fo fit len] by simp_all
  have sx: "sx_process (ref_api lat) s (Some (p, c_u64 ?fi)) (c_u64 ?fo) =
      (None, s\<lparr>rf_fed := rf_fed s + nat ?fi, rf_sent := rf_sent s + ?dn\<rparr>, nat ?fi, ?dn,
       replicate (?dn * rf_frame s) 0)"
    using fr by (simp add: ref_api_def ref_process_def Let_def)
  have "int ?dn \<le> ?fo" using fr(3) by simp
  then have "int ?dn * (channels r * outFrameSize r) \<le> ?fo * (channels r * outFrameSize r)"
    using r(2,3) by (intro mult_right_mono) simp_all
  then have f2: "int ?dn * channels r * outFrameSize r < 2 ^ 31" using fit by (simp add: mult.assoc)
  have gb: "go_bytes (replicate (?dn * rf_frame s) 0) (c_int (go_int_of_u64 ?dn * channels r * outFrameSize r)) =
      Ret (replicate (?dn * rf_frame s) 0)"
    using go_bytes_exact [OF f2 r(2,3)] s by simp
  obtain dIn w1 where w1: "w_cbytes p w = (dIn, w1)" by fastforce
  obtain dOut w2 where w2: "w_malloc (c_u64 (?fo * channels r * outFrameSize r)) w1 = (dOut, w2)"
    by fastforce
  have sk: "sinks w2 = sinks w" using w1 w2 by (simp add: w_cbytes_sinks w_malloc_sinks)
  have p: "p \<noteq> []" using fr(2) by (auto simp: frames_in_nil)
  show ?thesis
    using W d fo fr p sx w1 w2 sk gb k
    by (auto simp: Write_def Let_def dest_write_def sink_write_def split: if_splits outcome.splits prod.splits)
qed


lemma ref_due_step:
  assumes rho: "0 \<le> rf_ratio s"
  shows "nat \<lfloor>of_nat (rf_fed s + a) * rf_ratio s\<rfloor> \<le> ref_due s + nat \<lfloor>of_nat a * rf_ratio s\<rfloor> + 1"
    and "ref_due s \<le> nat \<lfloor>of_nat (rf_fed s + a) * rf_ratio s\<rfloor>"
  using floor_sum_le [of "of_nat (rf_fed s) * rf_ratio s" "of_nat a * rf_ratio s"] rho
  by (simp_all add: distrib_right)


lemma ref_writes_run:
  assumes r: "0 < inFrameSize r" "0 < channels r" "0 < outFrameSize r"
    and rates: "0 < inRate r" "0 \<le> outRate r" and d: "destination r = Some i"
  shows "\<forall>p\<in>set ps. frames_out r (frames_in r (length p)) \<noteq> 0 \<and>
               frames_out r (frames_in r (length p)) * channels r * outFrameSize r < 2 ^ 31 \<and>
               length p < 2 ^ 63 \<Longrightarrow>
     rf_ratio s = outRate r / inRate r \<Longrightarrow> rf_frame s = nat (channels r * outFrameSize r) \<Longrightarrow>
     \<not> sink_closed (sinks w i) \<Longrightarrow> sink_room (sinks w i) = None \<Longrightarrow>
     rf_sent s \<le> ref_due s \<Longrightarrow> ref_due s \<le> rf_sent s + rf_latency s + k \<Longrightarrow>
     run_calls (ref_api lat) (map CWrite ps) (r\<lparr>resampler := Some (hp, s)\<rparr>) w = Ret (r', w') \<Longrightarrow>
     \<exists>fed sent. r' = r\<lparr>resampler := Some (hp, s\<lparr>rf_fed := fed, rf_sent := sent\<rparr>)\<rparr> \<and>
        fed = rf_fed s + (\<Sum>p\<leftarrow>ps. nat (frames_in r (length p))) \<and> rf_sent s \<le> sent \<and>
        sent \<le> nat \<lfloor>of_nat fed * rf_ratio s\<rfloor> \<and>
        nat \<lfloor>of_nat fed * rf_ratio s\<rfloor> \<le> sent + rf_latency s + k + length ps \<and>
        sinks w' i = (sinks w i)\<lparr>sink_data := sink_data (sinks w i) @ replicate ((sent - rf_sent s) * rf_frame s) 0\<rparr>"
proof (induction ps arbitrary: s w k)
  case Nil
  then show ?case by (intro exI [of _ "rf_fed s"] exI [of _ "rf_sent s"]) simp
next
  case (Cons p ps)
  let ?a = "nat (frames_in r (length p))" and ?fo = "nat (frames_out r (frames_in r (length p)))"
  let ?due' = "nat \<lfloor>of_nat (rf_fed s + ?a) * rf_ratio s\<rfloor>"
  let ?dn = "min ?fo (?due' - rf_latency s - rf_sent s)"
  let ?s1 = "s\<lparr>rf_fed := rf_fed s + ?a, rf_sent := rf_sent s + ?dn\<rparr>"
  have pp: "frames_out r (frames_in r (length p)) \<noteq> 0"
    "frames_out r (frames_in r (length p)) * channels r * outFrameSize r < 2 ^ 31" "length p < 2 ^ 63"
    using Cons.prems(1) by simp_all
  obtain res r1 w1 where W: "Write (ref_api lat) (r\<lparr>resampler := Some (hp, s)\<rparr>) p w = Ret (res, r1, w1)"
    and R: "run_calls (ref_api lat) (map CWrite ps) r1 w1 = Ret (r', w')"
    using Cons.prems(8) by (auto simp: run_call_def split: outcome.splits)
  from Write_ref_step [OF r rates d Cons.prems(3,4,5) pp W]
  have r1: "r1 = r\<lparr>resampler := Some (hp, ?s1)\<rparr>"
    and w1: "sinks w1 i = (sinks w i)\<lparr>sink_data := sink_data (sinks w i) @ replicate (?dn * rf_frame s) 0\<rparr>"
    by simp_all
  have fr: "0 \<le> frames_in r (length p)" using frames_ref [OF r rates pp] by simp
  have rho: "0 \<le> rf_ratio s" using Cons.prems(2) rates by simp
  have fo: "?fo = nat \<lfloor>of_nat ?a * rf_ratio s\<rfloor>"
    using frames_out_floor [OF fr rates] fr Cons.prems(2) by simp
  have inv: "rf_sent s + ?dn \<le> ?due' \<and> ?due' \<le> rf_sent s + ?dn + rf_latency s + Suc k"
    unfolding fo by (rule backlog_step [OF Cons.prems(6,7) ref_due_step(2) [OF rho] ref_due_step(1) [OF rho]])
  have ps_all: "\<forall>p\<in>set ps. frames_out r (frames_in r (length p)) \<noteq> 0 \<and>
               frames_out r (frames_in r (length p)) * channels r * outFrameSize r < 2 ^ 31 \<and>
               length p < 2 ^ 63"
    using Cons.prems(1) by simp
  have IHr: "\<exists>fed sent. r' = r\<lparr>resampler := Some (hp, ?s1\<lparr>rf_fed := fed, rf_sent := sent\<rparr>)\<rparr> \<and>
        fed = rf_fed ?s1 + (\<Sum>p\<leftarrow>ps. nat (frames_in r (length p))) \<and> rf_sent ?s1 \<le> sent \<and>
        sent \<le> nat \<lfloor>of_nat fed * rf_ratio ?s1\<rfloor> \<and>
        nat \<lfloor>of_nat fed * rf_ratio ?s1\<rfloor> \<le> sent + rf_latency ?s1 + Suc k + length ps \<and>
        sinks w' i = (sinks w1 i)\<lparr>sink_data := sink_data (sinks w1 i) @ replicate ((sent - rf_sent ?s1) * rf_frame ?s1) 0\<rparr>"
    by (rule Cons.IH [OF ps_all _ _ _ _ _ _ R [unfolded r1]]) (use inv Cons.prems(2-5) w1 in simp_all)
  then obtain fed sent where
    IH: "r' = r\<lparr>resampler := Some (hp, ?s1\<lparr>rf_fed := fed, rf_sent := sent\<rparr>)\<rparr>"
        "fed = rf_fed ?s1 + (\<Sum>p\<leftarrow>ps. nat (frames_in r (length p)))" "rf_sent ?s1 \<le> sent"
        "sent \<le> nat \<lfloor>of_nat fed * rf_ratio ?s1\<rfloor>"
        "nat \<lfloor>of_nat fed * rf_ratio ?s1\<rfloor> \<le> sent + rf_latency ?s1 + Suc k + length ps"
        "sinks w' i = (sinks w1 i)\<lparr>sink_data := sink_data (sinks w1 i) @ replicate ((sent - rf_sent ?s1) * rf_frame ?s1) 0\<rparr>"
    by blast
  have tot: "?dn * rf_frame s + (sent - (rf_sent s + ?dn)) * rf_frame s = (sent - rf_sent s) * rf_frame s"
    using IH(3) by (simp add: add_mult_distrib [symmetric])
  have "r' = r\<lparr>resampler := Some (hp, s\<lparr>rf_fed := fed, rf_sent := sent\<rparr>)\<rparr>" using IH(1) by simp
  moreover have "fed = rf_fed s + (\<Sum>p\<leftarrow>p # ps. nat (frames_in r (length p)))" using IH(2) by simp
  moreover have "rf_sent s \<le> sent" using IH(3) by simp
  moreover have "sent \<le> nat \<lfloor>of_nat fed * rf_ratio s\<rfloor>" using IH(4) by simp
  moreover have "nat \<lfloor>of_nat fed * rf_ratio s\<rfloor> \<le> sent + rf_latency s + k + length (p # ps)"
    using IH(5) by simp
  moreover have "sinks w' i = (sinks w i)\<lparr>sink_data := sink_data (sinks w i) @
                   replicate ((sent - rf_sent s) * rf_frame s) 0\<rparr>"
  proof -
    have "replicate (?dn * rf_frame s) (0::byte) @ replicate ((sent - (rf_sent s + ?dn)) * rf_frame s) 0 =
          replicate ((sent - rf_sent s) * rf_frame s) 0"
      unfolding tot [symmetric] by (rule replicate_add [symmetric])
    then show ?thesis using IH(6) w1 by (simp del: replicate_append_same)
  qed
  ultimately show ?case by blast
qed


lemma Close_ref_drain:
  assumes r: "0 < channels r" "0 < outFrameSize r" and d: "destination r = Some i"
    and s: "rf_frame s = nat (channels r * outFrameSize r)"
    and k: "\<not> sink_closed (sinks w i)" "sink_room (sinks w i) = None"
    and bl: "ref_due s - rf_sent s \<le> 65536"
    and fit: "int (ref_due s - rf_sent s) * channels r * outFrameSize r < 2 ^ 31"
    and C: "Close (ref_api lat) (r\<lparr>resampler := Some (hp, s)\<rparr>) w = Ret (err, r', w')"
  shows "sink_data (sinks w' i) = sink_data (sinks w i) @ replicate ((ref_due s - rf_sent s) * rf_frame s) 0"
proof -
  let ?dn = "ref_due s - rf_sent s"
  have sx: "sx_process (ref_api lat) s None (c_u64 (4096 * 16)) =
      (None, s\<lparr>rf_sent := rf_sent s + ?dn\<rparr>, 0, ?dn, replicate (?dn * rf_frame s) 0)"
    using bl by (simp add: ref_api_def ref_process_def Let_def c_u64_def min_def)
  have gb: "go_bytes (replicate (?dn * rf_frame s) 0) (c_int (go_int_of_u64 ?dn * channels r * outFrameSize r)) =
      Ret (replicate (?dn * rf_frame s) 0)"
    using go_bytes_exact [OF fit r] s by simp
  obtain dOut w1 where w1: "w_malloc (c_u64 (4096 * 16 * channels r * outFrameSize r)) w = (dOut, w1)"
    by fastforce
  have s1: "sinks w1 = sinks w" using w1 by (rule w_malloc_sinks)
  show ?thesis
    using C d k sx gb w1 s1
    by (auto simp: Close_def flush_def Let_def dest_write_def sink_write_def soxr_delete_w_def
             split: if_splits outcome.splits prod.splits)
qed


lemma sum_list_nat:
  "\<forall>x\<in>set xs. 0 \<le> f x \<Longrightarrow> int (\<Sum>x\<leftarrow>xs. nat (f x)) = (\<Sum>x\<leftarrow>xs. f x)"
  by (induction xs) auto


text \<open>
  Frame conservation over a whole stream: a resampler created by \<open>New\<close> on the
  reference engine, given any sequence of writes of whole frames (each with a
  non-zero frame budget) and then closed, delivers to an open writer on a device
  with room exactly \<open>\<lfloor>(\<Sum> framesIn) \<times> outRate / inRate\<rfloor>\<close> output frames: what one
  write of all the frames would budget, although each write budgets only its own
  frames. The hypothesis \<open>latency + number of writes \<le> 65536\<close> is what the single
  flush of \<open>Close\<close> can drain.
\<close>

theorem New_writes_Close_conserves:
  assumes N: "New (ref_api lat) t (Some i) ir orr ch fi fo q w = ((Some r, None), w0)"
    and ch: "0 < ch" "ch < 2 ^ 32"
    and k: "\<not> sink_closed (sinks w i)" "sink_room (sinks w i) = None"
    and bl: "lat + length ps \<le> 65536" "int (lat + length ps) * ch * outFrameSize r < 2 ^ 31"
    and ps: "\<forall>p\<in>set ps. frames_out r (frames_in r (length p)) \<noteq> 0 \<and>
               frames_out r (frames_in r (length p)) * ch * outFrameSize r < 2 ^ 31 \<and> length p < 2 ^ 63"
    and R: "run_calls (ref_api lat) (map CWrite ps @ [CClose]) r w0 = Ret (r', w')"
  shows "sink_data (sinks w' i) =
           sink_data (sinks w i) @
           replicate (nat (frames_out r (\<Sum>p\<leftarrow>ps. frames_in r (length p))) * nat (ch * outFrameSize r)) 0"
proof -
  from New_ref_fresh [OF N ch] obtain hp where
    r: "resampler r = Some (hp, \<lparr>rf_ratio = orr / ir, rf_frame = nat (ch * outFrameSize r),
                                 rf_latency = lat, rf_fed = 0, rf_sent = 0\<rparr>)"
    and f: "0 < inFrameSize r" "0 < outFrameSize r" "channels r = ch" "inRate r = ir"
           "outRate r = orr" "destination r = Some i" "0 < ir" "0 < orr" "sinks w0 = sinks w"
    by blast
  let ?s = "\<lparr>rf_ratio = orr / ir, rf_frame = nat (ch * outFrameSize r), rf_latency = lat, rf_fed = 0, rf_sent = 0\<rparr>"
  have r0: "r = r\<lparr>resampler := Some (hp, ?s)\<rparr>" using r by simp
  obtain r1 w1 where R1: "run_calls (ref_api lat) (map CWrite ps) (r\<lparr>resampler := Some (hp, ?s)\<rparr>) w0 = Ret (r1, w1)"
    and C: "run_calls (ref_api lat) [CClose] r1 w1 = Ret (r', w')"
    using R r0 by (auto simp: run_calls_append split: outcome.splits)
  have ps': "\<forall>p\<in>set ps. frames_out r (frames_in r (length p)) \<noteq> 0 \<and>
               frames_out r (frames_in r (length p)) * channels r * outFrameSize r < 2 ^ 31 \<and> length p < 2 ^ 63"
    using ps f(3) by simp
  from ref_writes_run [OF f(1) _ f(2) _ _ f(6) ps' _ _ _ _ _ _ R1, of 0] f ch k
  obtain fed sent where
    W: "r1 = r\<lparr>resampler := Some (hp, ?s\<lparr>rf_fed := fed, rf_sent := sent\<rparr>)\<rparr>"
       "fed = (\<Sum>p\<leftarrow>ps. nat (frames_in r (length p)))"
       "sent \<le> nat \<lfloor>of_nat fed * (orr / ir)\<rfloor>" "nat \<lfloor>of_nat fed * (orr / ir)\<rfloor> \<le> sent + lat + length ps"
       "sinks w1 i = (sinks w i)\<lparr>sink_data := sink_data (sinks w i) @ replicate (sent * nat (ch * outFrameSize r)) 0\<rparr>"
    by auto
  obtain err where Cl: "Close (ref_api lat) (r\<lparr>resampler := Some (hp, ?s\<lparr>rf_fed := fed, rf_sent := sent\<rparr>)\<rparr>) w1 =
                        Ret (err, r', w')"
    using C W(1) by (auto simp: run_call_def split: outcome.splits prod.splits)
  let ?due = "nat \<lfloor>of_nat fed * (orr / ir)\<rfloor>"
  have "int (?due - sent) * ch * outFrameSize r \<le> int (lat + length ps) * ch * outFrameSize r"
    using W(4) ch f(2) by (intro mult_right_mono) simp_all
  then have fitC: "int (ref_due (?s\<lparr>rf_fed := fed, rf_sent := sent\<rparr>) - rf_sent (?s\<lparr>rf_fed := fed, rf_sent := sent\<rparr>)) *
                     channels r * outFrameSize r < 2 ^ 31"
    using bl(2) f(3) by simp
  have dr: "sink_data (sinks w' i) = sink_data (sinks w1 i) @ replicate ((?due - sent) * nat (ch * outFrameSize r)) 0"
    using Close_ref_drain [OF _ f(2) f(6) _ _ _ _ fitC Cl] ch f(3) W(4,5) k bl(1) by simp
  have "int fed = (\<Sum>p\<leftarrow>ps. frames_in r (length p))"
    using W(2) sum_list_nat [of ps "\<lambda>p. frames_in r (length p)"] frames_in_nonneg [OF f(1)] ch f(3) by simp
  then have due: "?due = nat (frames_out r (\<Sum>p\<leftarrow>ps. frames_in r (length p)))"
    using frames_out_floor [of "\<Sum>p\<leftarrow>ps. frames_in r (length p)" r] f(4,5,7,8)
    by (metis of_int_of_nat_eq of_nat_0_le_iff order_less_imp_le)
  have "sent * nat (ch * outFrameSize r) + (?due - sent) * nat (ch * outFrameSize r) = ?due * nat (ch * outFrameSize r)"
    using W(3) by (simp add: add_mult_distrib [symmetric])
  then show ?thesis using dr W(5) due by (simp add: replicate_add [symmetric])
qed


end
