(* ===== verification/Contract.thy ===== *)
theory Contract
  imports Conservation
begin

text \<open>
  An engine contract. libsoxr is opaque; what the conservation theorems need of it is
  that it behaves like the reference engine in everything but the sample values: an
  engine \<open>api\<close> refines \<open>ref_api lat\<close> through an abstraction \<open>\<alpha>\<close> of its state when
  creation fails or succeeds as the reference does and yields the abstract fresh
  state, and every process and clear call reports what the reference reports, moves
  the abstract state as the reference does, and fills a buffer of the same length.
  The resampler over such an engine is simulated by the resampler over the reference
  engine: the same heap, the same results, and sinks that differ only in their bytes.
\<close>

definition sx_refines :: "'e soxr_api \<Rightarrow> ('e \<Rightarrow> ref_state) \<Rightarrow> nat \<Rightarrow> bool" where
  "sx_refines api \<alpha> lat \<longleftrightarrow>
     (\<forall>ir orate ch io q rt.
        fst (sx_create api ir orate ch io q rt) = fst (ref_create lat ir orate ch io q rt) \<and>
        map_option \<alpha> (snd (sx_create api ir orate ch io q rt)) = snd (ref_create lat ir orate ch io q rt)) \<and>
     (\<forall>e inp olen.
        case sx_process api e inp olen of (err, e', rd, dn, buf) \<Rightarrow>
          (case ref_process (\<alpha> e) inp olen of (err', s', rd', dn', buf') \<Rightarrow>
             err = err' \<and> \<alpha> e' = s' \<and> rd = rd' \<and> dn = dn' \<and> length buf = length buf')) \<and>
     (\<forall>e. \<alpha> (sx_clear api e) = ref_clear (\<alpha> e))"

definition res_sim :: "('e \<Rightarrow> ref_state) \<Rightarrow> 'e Resampler \<Rightarrow> ref_state Resampler \<Rightarrow> bool" where
  "res_sim \<alpha> r rr \<longleftrightarrow>
     resampler rr = map_option (\<lambda>(hp, e). (hp, \<alpha> e)) (resampler r) \<and>
     inRate rr = inRate r \<and> outRate rr = outRate r \<and> channels rr = channels r \<and>
     inFrameSize rr = inFrameSize r \<and> outFrameSize rr = outFrameSize r \<and>
     destination rr = destination r"

definition sink_sim :: "sink \<Rightarrow> sink \<Rightarrow> bool" where
  "sink_sim s t \<longleftrightarrow>
     length (sink_data s) = length (sink_data t) \<and> sink_room s = sink_room t \<and>
     sink_closed s = sink_closed t"

definition world_sim :: "world \<Rightarrow> world \<Rightarrow> bool" where
  "world_sim w v \<longleftrightarrow> heap w = heap v \<and> (\<forall>k. sink_sim (sinks w k) (sinks v k))"

section \<open>Simulation of the world operations\<close>

lemma world_sim_refl: "world_sim w w"
  by (simp add: world_sim_def sink_sim_def)

lemma world_sim_heap:
  "world_sim w v \<Longrightarrow> world_sim (w\<lparr>heap := h\<rparr>) (v\<lparr>heap := h\<rparr>)"
  by (simp add: world_sim_def)

lemma w_malloc_sim:
  "world_sim w v \<Longrightarrow> w_malloc n w = (a, w1) \<Longrightarrow> w_malloc n v = (b, v1) \<Longrightarrow> a = b \<and> world_sim w1 v1"
  by (auto simp: w_malloc_def world_sim_def split: prod.splits)

lemma w_cbytes_sim:
  "world_sim w v \<Longrightarrow> w_cbytes p w = (a, w1) \<Longrightarrow> w_cbytes p v = (b, v1) \<Longrightarrow> a = b \<and> world_sim w1 v1"
  by (auto simp: w_cbytes_def world_sim_def split: prod.splits)

lemma w_free_all_sim: "world_sim w v \<Longrightarrow> world_sim (w_free_all ps w) (w_free_all ps v)"
  by (simp add: w_free_all_def world_sim_def)

lemma sink_write_sim:
  assumes "sink_sim s t" "length bs = length cs"
  shows "sink_sim (fst (sink_write s bs)) (fst (sink_write t cs)) \<and> snd (sink_write s bs) = snd (sink_write t cs)"
  using assms by (auto simp: sink_sim_def sink_write_def split: option.splits)

lemma dest_write_sim:
  assumes W: "world_sim w v" and L: "length bs = length cs"
  shows "(case dest_write d bs w of
            Panic m \<Rightarrow> dest_write d cs v = Panic m
          | Ret (err, w') \<Rightarrow> (\<exists>v'. dest_write d cs v = Ret (err, v') \<and> world_sim w' v'))"
proof (cases d)
  case None
  then show ?thesis by (simp add: dest_write_def)
next
  case (Some i)
  have s: "sink_sim (sinks w i) (sinks v i)" using W by (simp add: world_sim_def)
  from sink_write_sim [OF s L] W show ?thesis
    by (auto simp: dest_write_def Some world_sim_def split: prod.splits)
qed

lemma go_bytes_sim:
  "length buf = length buf' \<Longrightarrow>
     (case go_bytes buf n of
        Panic m \<Rightarrow> go_bytes buf' n = Panic m
      | Ret out \<Rightarrow> (\<exists>out'. go_bytes buf' n = Ret out' \<and> length out = length out'))"
  by (simp add: go_bytes_def)

section \<open>Simulation of the calls\<close>

lemma sx_refines_process:
  assumes E: "sx_refines api \<alpha> lat" and S: "sx_process api e inp olen = (err, e', rd, dn, buf)"
  obtains buf' where "sx_process (ref_api lat) (\<alpha> e) inp olen = (err, \<alpha> e', rd, dn, buf')"
    "length buf = length buf'"
proof -
  obtain err' s' rd' dn' buf' where P: "ref_process (\<alpha> e) inp olen = (err', s', rd', dn', buf')"
    by (cases "ref_process (\<alpha> e) inp olen") auto
  have "\<forall>e inp olen. case sx_process api e inp olen of (err, e', rd, dn, buf) \<Rightarrow>
                 (case ref_process (\<alpha> e) inp olen of (err', s', rd', dn', buf') \<Rightarrow>
                    err = err' \<and> \<alpha> e' = s' \<and> rd = rd' \<and> dn = dn' \<and> length buf = length buf')"
    using E unfolding sx_refines_def by (rule conjunct1 [OF conjunct2])
  then have "case sx_process api e inp olen of (err, e', rd, dn, buf) \<Rightarrow>
                 (case ref_process (\<alpha> e) inp olen of (err', s', rd', dn', buf') \<Rightarrow>
                    err = err' \<and> \<alpha> e' = s' \<and> rd = rd' \<and> dn = dn' \<and> length buf = length buf')"
    by (elim allE)
  then have "err = err' \<and> \<alpha> e' = s' \<and> rd = rd' \<and> dn = dn' \<and> length buf = length buf'"
    using S P by simp
  then show ?thesis using that P by (simp add: ref_api_def)
qed

lemma res_sim_frames:
  "res_sim \<alpha> r rr \<Longrightarrow> frames_in rr n = frames_in r n \<and> frames_out rr x = frames_out r x"
  by (simp add: res_sim_def frames_in_def frames_out_def)

lemma res_sim_update:
  "res_sim \<alpha> r rr \<Longrightarrow> res_sim \<alpha> (r\<lparr>resampler := Some (hp, e)\<rparr>) (rr\<lparr>resampler := Some (hp, \<alpha> e)\<rparr>)"
  by (simp add: res_sim_def)

text \<open>
  The tail that \<open>Write\<close> and \<open>flush\<close> share: \<open>C.GoBytes\<close> of buffers of the same
  length, then the destination's \<open>Write\<close>, on simulating worlds.
\<close>

lemma emit_sim:
  assumes V: "world_sim w2 v2" and lb: "length buf = length buf'"
    and G: "go_bytes buf n = Ret out" and D: "dest_write d out w2 = Ret (err2, w3)"
  obtains out' v3 where "go_bytes buf' n = Ret out'" "dest_write d out' v2 = Ret (err2, v3)"
    "world_sim w3 v3"
proof -
  from go_bytes_sim [OF lb, of n] G obtain out' where G': "go_bytes buf' n = Ret out'"
    and lo: "length out = length out'" by auto
  from dest_write_sim [OF V lo, of d] D obtain v3 where "dest_write d out' v2 = Ret (err2, v3)"
    "world_sim w3 v3" by auto
  with G' that show ?thesis by blast
qed

lemma Write_sim:
  assumes E: "sx_refines api \<alpha> lat" and R: "res_sim \<alpha> r rr" and V: "world_sim w v"
    and W: "Write api r p w = Ret (res, r', w')"
  shows "\<exists>rr' v'. Write (ref_api lat) rr p v = Ret (res, rr', v') \<and> res_sim \<alpha> r' rr' \<and> world_sim w' v'"
proof (cases "resampler r")
  case None
  then show ?thesis using R V W by (simp add: Write_def res_sim_def)
next
  case (Some h)
  obtain hp e where h: "h = (hp, e)" by fastforce
  have rr: "resampler rr = Some (hp, \<alpha> e)" and f: "inFrameSize rr = inFrameSize r" "channels rr = channels r"
    "outFrameSize rr = outFrameSize r" "destination rr = destination r"
    using R Some h by (simp_all add: res_sim_def)
  let ?fi = "frames_in r (length p)" and ?fo = "frames_out r (frames_in r (length p))"
  have fr: "frames_in rr (length p) = ?fi" "frames_out rr ?fi = ?fo" using res_sim_frames [OF R] by simp_all
  have G: "p \<noteq> []" "inFrameSize r \<noteq> 0" "channels r \<noteq> 0" "?fi \<noteq> 0" "?fo \<noteq> 0"
    if "\<not> (\<exists>rr' v'. Write (ref_api lat) rr p v = Ret (res, rr', v') \<and> res_sim \<alpha> r' rr' \<and> world_sim w' v')"
  proof -
    show p: "p \<noteq> []"
      using that W V R Some h rr f by (cases "p = []") (simp_all add: Write_def)
    show z: "inFrameSize r \<noteq> 0" "channels r \<noteq> 0"
      using W Some h p by (auto simp: Write_def)
    show i: "?fi \<noteq> 0"
      using that W V R Some h rr f fr p z by (cases "?fi = 0") (simp_all add: Write_def)
    show "?fo \<noteq> 0"
      using that W V R Some h rr f fr p z i by (cases "?fo = 0") (simp_all add: Write_def)
  qed
  show ?thesis
  proof (rule ccontr)
    assume N: "\<not> ?thesis"
    note False = G [OF N]
    obtain dIn w1 where w1: "w_cbytes p w = (dIn, w1)" by fastforce
    obtain dIn' v1 where v1: "w_cbytes p v = (dIn', v1)" by fastforce
    from w_cbytes_sim [OF V w1 v1] have d1: "dIn' = dIn" "world_sim w1 v1" by simp_all
    obtain dOut w2 where w2: "w_malloc (c_u64 (?fo * channels r * outFrameSize r)) w1 = (dOut, w2)" by fastforce
    obtain dOut' v2 where v2: "w_malloc (c_u64 (?fo * channels r * outFrameSize r)) v1 = (dOut', v2)" by fastforce
    from w_malloc_sim [OF d1(2) w2 v2] have d2: "dOut' = dOut" "world_sim w2 v2" by simp_all
    obtain err e' rd dn buf where sx: "sx_process api e (Some (p, c_u64 ?fi)) (c_u64 ?fo) = (err, e', rd, dn, buf)"
      by (cases "sx_process api e (Some (p, c_u64 ?fi)) (c_u64 ?fo)") auto
    from sx_refines_process [OF E sx] obtain buf' where
      sx': "sx_process (ref_api lat) (\<alpha> e) (Some (p, c_u64 ?fi)) (c_u64 ?fo) = (err, \<alpha> e', rd, dn, buf')"
      and lb: "length buf = length buf'" .
    let ?N = "c_int (go_int_of_u64 dn * channels r * outFrameSize r)"
    have A: "Write api r p w =
      (if soxr_failed err then Ret ((0, Some (ErrSoxr (go_string err))), r\<lparr>resampler := Some (hp, e')\<rparr>,
                                   w_free_all [dIn, dOut, soxr_error_ptr err] w2)
       else (case go_bytes buf ?N of
               Panic m \<Rightarrow> Panic m
             | Ret out \<Rightarrow> (case dest_write (destination r) out w2 of
                 Panic m \<Rightarrow> Panic m
               | Ret (err2, w3) \<Rightarrow>
                   Ret ((if err2 = None then int (length p) else 0, map_option ErrWrite err2),
                        r\<lparr>resampler := Some (hp, e')\<rparr>, w_free_all [dIn, dOut, soxr_error_ptr err] w3))))"
      using False Some h w1 w2 sx by (simp add: Write_def Let_def)
    have B: "Write (ref_api lat) rr p v =
      (if soxr_failed err then Ret ((0, Some (ErrSoxr (go_string err))), rr\<lparr>resampler := Some (hp, \<alpha> e')\<rparr>,
                                   w_free_all [dIn, dOut, soxr_error_ptr err] v2)
       else (case go_bytes buf' ?N of
               Panic m \<Rightarrow> Panic m
             | Ret out \<Rightarrow> (case dest_write (destination rr) out v2 of
                 Panic m \<Rightarrow> Panic m
               | Ret (err2, v3) \<Rightarrow>
                   Ret ((if err2 = None then int (length p) else 0, map_option ErrWrite err2),
                        rr\<lparr>resampler := Some (hp, \<alpha> e')\<rparr>, w_free_all [dIn, dOut, soxr_error_ptr err] v3))))"
      using False rr f fr v1 v2 d1 d2 sx' by (simp add: Write_def Let_def)
    have RS: "res_sim \<alpha> (r\<lparr>resampler := Some (hp, e')\<rparr>) (rr\<lparr>resampler := Some (hp, \<alpha> e')\<rparr>)"
      using R by (rule res_sim_update)
    show False
    proof (cases "soxr_failed err")
      case True
      then show False using N W A B RS w_free_all_sim [OF d2(2)] by auto
    next
      case nf: False
      obtain out err2 w3 where gb: "go_bytes buf ?N = Ret out"
        and dw: "dest_write (destination rr) out w2 = Ret (err2, w3)"
        using W A nf f(4) by (auto split: outcome.splits)
      from emit_sim [OF d2(2) lb gb dw] obtain out' v3 where gb': "go_bytes buf' ?N = Ret out'"
        and dv: "dest_write (destination rr) out' v2 = Ret (err2, v3)" and s3: "world_sim w3 v3" .
      show False using N W A B nf gb gb' dw dv RS w_free_all_sim [OF s3] f(4) by auto
    qed
  qed
qed


lemma flush_sim:
  assumes E: "sx_refines api \<alpha> lat" and R: "res_sim \<alpha> r rr" and V: "world_sim w v"
    and F: "flush api r (hp, e) w = Ret (err2, r', w')"
  shows "\<exists>rr' v'. flush (ref_api lat) rr (hp, \<alpha> e) v = Ret (err2, rr', v') \<and> res_sim \<alpha> r' rr' \<and> world_sim w' v'"
proof -
  have f: "channels rr = channels r" "outFrameSize rr = outFrameSize r" "destination rr = destination r"
    using R by (simp_all add: res_sim_def)
  let ?M = "c_u64 ((4096 * 16) * channels r * outFrameSize r)"
  obtain dOut w1 where w1: "w_malloc ?M w = (dOut, w1)" by fastforce
  obtain dOut' v1 where v1: "w_malloc ?M v = (dOut', v1)" by fastforce
  from w_malloc_sim [OF V w1 v1] have d1: "dOut' = dOut" "world_sim w1 v1" by simp_all
  obtain err e' rd dn buf where sx: "sx_process api e None (c_u64 (4096 * 16)) = (err, e', rd, dn, buf)"
    by (cases "sx_process api e None (c_u64 (4096 * 16))") auto
  from sx_refines_process [OF E sx] obtain buf' where
    sx': "sx_process (ref_api lat) (\<alpha> e) None (c_u64 (4096 * 16)) = (err, \<alpha> e', rd, dn, buf')"
    and lb: "length buf = length buf'" .
  let ?N = "c_int (go_int_of_u64 dn * channels r * outFrameSize r)"
  have A: "flush api r (hp, e) w =
      (if soxr_failed err then Ret (Some (ErrSoxr (go_string err)), r\<lparr>resampler := Some (hp, e')\<rparr>,
                                   w_free_all [dOut, soxr_error_ptr err] w1)
       else (case go_bytes buf ?N of
               Panic m \<Rightarrow> Panic m
             | Ret out \<Rightarrow> (case dest_write (destination r) out w1 of
                 Panic m \<Rightarrow> Panic m
               | Ret (err3, w2) \<Rightarrow>
                   Ret (map_option ErrWrite err3, r\<lparr>resampler := Some (hp, e')\<rparr>,
                        w_free_all [dOut, soxr_error_ptr err] w2))))"
    using w1 sx by (simp add: flush_def Let_def)
  have B: "flush (ref_api lat) rr (hp, \<alpha> e) v =
      (if soxr_failed err then Ret (Some (ErrSoxr (go_string err)), rr\<lparr>resampler := Some (hp, \<alpha> e')\<rparr>,
                                   w_free_all [dOut, soxr_error_ptr err] v1)
       else (case go_bytes buf' ?N of
               Panic m \<Rightarrow> Panic m
             | Ret out \<Rightarrow> (case dest_write (destination rr) out v1 of
                 Panic m \<Rightarrow> Panic m
               | Ret (err3, v2) \<Rightarrow>
                   Ret (map_option ErrWrite err3, rr\<lparr>resampler := Some (hp, \<alpha> e')\<rparr>,
                        w_free_all [dOut, soxr_error_ptr err] v2))))"
    using f v1 d1 sx' by (simp add: flush_def Let_def)
  have RS: "res_sim \<alpha> (r\<lparr>resampler := Some (hp, e')\<rparr>) (rr\<lparr>resampler := Some (hp, \<alpha> e')\<rparr>)"
    using R by (rule res_sim_update)
  show ?thesis
  proof (cases "soxr_failed err")
    case True
    then show ?thesis using F A B RS w_free_all_sim [OF d1(2)] by auto
  next
    case nf: False
    obtain out err3 w2 where gb: "go_bytes buf ?N = Ret out"
      and dw: "dest_write (destination rr) out w1 = Ret (err3, w2)"
      using F A nf f(3) by (auto split: outcome.splits)
    from emit_sim [OF d1(2) lb gb dw] obtain out' v2 where gb': "go_bytes buf' ?N = Ret out'"
      and dv: "dest_write (destination rr) out' v1 = Ret (err3, v2)" and s2: "world_sim w2 v2" .
    show ?thesis using F A B nf gb gb' dw dv RS w_free_all_sim [OF s2] f(3) by auto
  qed
qed

lemma res_sim_handle:
  assumes "res_sim \<alpha> r rr" "resampler r = Some (hp, e)"
  shows "resampler rr = Some (hp, \<alpha> e)"
  using assms by (simp add: res_sim_def)

lemma Close_sim:
  assumes E: "sx_refines api \<alpha> lat" and R: "res_sim \<alpha> r rr" and V: "world_sim w v"
    and C: "Close api r w = Ret (err2, r', w')"
  shows "\<exists>rr' v'. Close (ref_api lat) rr v = Ret (err2, rr', v') \<and> res_sim \<alpha> r' rr' \<and> world_sim w' v'"
proof (cases "resampler r")
  case None
  then show ?thesis using R V C by (simp add: Close_def res_sim_def)
next
  case (Some h)
  obtain hp e where h: "h = (hp, e)" by fastforce
  obtain r1 w1 where F: "flush api r (hp, e) w = Ret (err2, r1, w1)"
    and r': "r' = r1\<lparr>resampler := None\<rparr>" and w': "w' = soxr_delete_w hp w1"
    using C Some h by (auto simp: Close_def split: outcome.splits prod.splits)
  from flush_sim [OF E R V F] obtain rr1 v1 where
    F': "flush (ref_api lat) rr (hp, \<alpha> e) v = Ret (err2, rr1, v1)"
    and s: "res_sim \<alpha> r1 rr1" "world_sim w1 v1" by blast
  have "res_sim \<alpha> r' (rr1\<lparr>resampler := None\<rparr>)" using s(1) r' by (simp add: res_sim_def)
  moreover have "world_sim w' (soxr_delete_w hp v1)"
    using w_free_all_sim [OF s(2)] w' by (simp add: soxr_delete_w_def)
  ultimately show ?thesis using F' res_sim_handle [OF R Some [unfolded h]] by (simp add: Close_def)
qed

lemma Reset_sim:
  assumes E: "sx_refines api \<alpha> lat" and R: "res_sim \<alpha> r rr" and V: "world_sim w v"
    and C: "Reset api r d w = Ret (err2, r', w')"
  shows "\<exists>rr' v'. Reset (ref_api lat) rr d v = Ret (err2, rr', v') \<and> res_sim \<alpha> r' rr' \<and> world_sim w' v'"
proof (cases "resampler r")
  case None
  then show ?thesis using R V C by (simp add: Reset_def res_sim_def)
next
  case (Some h)
  obtain hp e where h: "h = (hp, e)" by fastforce
  obtain r1 where F: "flush api r (hp, e) w = Ret (err2, r1, w')"
    and r': "r' = r1\<lparr>destination := d, resampler := map_option (\<lambda>(hp, e). (hp, sx_clear api e)) (resampler r1)\<rparr>"
    using C Some h by (auto simp: Reset_def Let_def split: outcome.splits prod.splits)
  from flush_sim [OF E R V F] obtain rr1 v' where
    F': "flush (ref_api lat) rr (hp, \<alpha> e) v = Ret (err2, rr1, v')"
    and s: "res_sim \<alpha> r1 rr1" "world_sim w' v'" by blast
  have cl: "\<alpha> (sx_clear api x) = ref_clear (\<alpha> x)" for x using E by (simp add: sx_refines_def)
  have "res_sim \<alpha> r' (rr1\<lparr>destination := d, resampler := map_option (\<lambda>(hp, e). (hp, ref_clear e)) (resampler rr1)\<rparr>)"
    using s(1) r' cl by (auto simp: res_sim_def option.map_comp case_prod_beta comp_def)
  then show ?thesis using F' s(2) res_sim_handle [OF R Some [unfolded h]]
    by (simp add: Reset_def ref_api_def)
qed

lemma run_call_sim:
  assumes E: "sx_refines api \<alpha> lat" and R: "res_sim \<alpha> r rr" and V: "world_sim w v"
    and C: "run_call api c r w = Ret (r', w')"
  shows "\<exists>rr' v'. run_call (ref_api lat) c rr v = Ret (rr', v') \<and> res_sim \<alpha> r' rr' \<and> world_sim w' v'"
proof (cases c)
  case (CWrite p)
  then obtain res where "Write api r p w = Ret (res, r', w')"
    using C by (auto simp: run_call_def split: outcome.splits prod.splits)
  from Write_sim [OF E R V this] CWrite show ?thesis by (auto simp: run_call_def)
next
  case (CReset d)
  then obtain err2 where "Reset api r d w = Ret (err2, r', w')"
    using C by (auto simp: run_call_def split: outcome.splits prod.splits)
  from Reset_sim [OF E R V this] CReset show ?thesis by (auto simp: run_call_def)
next
  case CClose
  then obtain err2 where "Close api r w = Ret (err2, r', w')"
    using C by (auto simp: run_call_def split: outcome.splits prod.splits)
  from Close_sim [OF E R V this] CClose show ?thesis by (auto simp: run_call_def)
qed

lemma run_calls_sim:
  assumes E: "sx_refines api \<alpha> lat"
  shows "res_sim \<alpha> r rr \<Longrightarrow> world_sim w v \<Longrightarrow> run_calls api cs r w = Ret (r', w') \<Longrightarrow>
         \<exists>rr' v'. run_calls (ref_api lat) cs rr v = Ret (rr', v') \<and> res_sim \<alpha> r' rr' \<and> world_sim w' v'"
proof (induction cs arbitrary: r rr w v)
  case Nil
  then show ?case by simp
next
  case (Cons c cs)
  from Cons.prems(3) obtain r1 w1 where C: "run_call api c r w = Ret (r1, w1)"
    and T: "run_calls api cs r1 w1 = Ret (r', w')" by (auto split: outcome.splits)
  from run_call_sim [OF E Cons.prems(1,2) C] obtain rr1 v1 where
    C': "run_call (ref_api lat) c rr v = Ret (rr1, v1)" and s: "res_sim \<alpha> r1 rr1" "world_sim w1 v1" by blast
  from Cons.IH [OF s T] C' show ?case by simp
qed

lemma run_calls_sinks_prefix:
  "run_calls api cs r w = Ret (r', w') \<Longrightarrow> prefix (sink_data (sinks w j)) (sink_data (sinks w' j))"
proof (induction cs arbitrary: r w)
  case Nil
  then show ?case by simp
next
  case (Cons c cs)
  then obtain r1 w1 where "run_call api c r w = Ret (r1, w1)" "run_calls api cs r1 w1 = Ret (r', w')"
    by (auto split: outcome.splits)
  with Cons.IH run_call_sinks_prefix [of api c r w r1 w1 j] show ?case by (blast intro: prefix_order.trans)
qed

lemma New_sim:
  assumes E: "sx_refines api \<alpha> lat"
    and N: "New api t d ir orr ch fi fo q w = ((Some r, None), w0)"
  shows "\<exists>rr. New (ref_api lat) t d ir orr ch fi fo q w = ((Some rr, None), w0) \<and> res_sim \<alpha> r rr"
proof -
  let ?c = "\<lambda>api. sx_create api ir orr (c_uint ch) (soxr_io_spec fi fo)
                     (soxr_quality_spec (c_u64 q) 0) (soxr_runtime_spec (c_uint t))"
  obtain err x where c: "?c api = (err, x)" by fastforce
  have "fst (?c api) = fst (?c (ref_api lat))" "map_option \<alpha> (snd (?c api)) = snd (?c (ref_api lat))"
    using E by (simp_all add: sx_refines_def ref_api_def)
  then have c': "?c (ref_api lat) = (err, map_option \<alpha> x)" using c by (metis prod.collapse fst_conv snd_conv)
  show ?thesis
    using N c c' by (cases x) (auto simp: New_def soxr_create_w_def Let_def res_sim_def
                                    split: if_splits sum.splits)
qed

lemma New_sinks: "New api t d ir orr ch fi fo q w = (res, w0) \<Longrightarrow> sinks w0 = sinks w"
  by (auto simp: New_def soxr_create_w_def Let_def w_free_all_sinks
           split: if_splits sum.splits option.splits prod.splits)

lemma ref_api_refines: "sx_refines (ref_api lat) id lat"
  by (simp add: sx_refines_def ref_api_def option.map_id split: prod.splits)


text \<open>
  C38. Frame conservation does not depend on the engine: for every engine that meets
  the contract \<open>sx_refines\<close> (the same errors, sample counts and output buffer
  lengths as the reference engine, through an abstraction of its state), the calls
  \<open>New\<close>, \<open>Write\<close> for each chunk and \<open>Close\<close> append to the destination exactly
  \<open>frames_out\<close> of the total number of input frames, times the output frame width,
  and nothing else.
\<close>

theorem engine_conserves_frames:
  assumes E: "sx_refines api \<alpha> lat"
    and N: "New api t (Some i) ir orr ch fi fo q w = ((Some r, None), w0)"
    and ch: "0 < ch" "ch < 2 ^ 32"
    and k: "\<not> sink_closed (sinks w i)" "sink_room (sinks w i) = None"
    and bl: "lat + length ps \<le> 65536" "int (lat + length ps) * ch * outFrameSize r < 2 ^ 31"
    and ps: "\<forall>p\<in>set ps. frames_out r (frames_in r (length p)) \<noteq> 0 \<and>
               frames_out r (frames_in r (length p)) * ch * outFrameSize r < 2 ^ 31 \<and> length p < 2 ^ 63"
    and R: "run_calls api (map CWrite ps @ [CClose]) r w0 = Ret (r', w')"
  shows "\<exists>out. sink_data (sinks w' i) = sink_data (sinks w i) @ out \<and>
           length out = nat (frames_out r (\<Sum>p\<leftarrow>ps. frames_in r (length p))) * nat (ch * outFrameSize r)"
proof -
  from New_sim [OF E N] obtain rr where N': "New (ref_api lat) t (Some i) ir orr ch fi fo q w = ((Some rr, None), w0)"
    and s: "res_sim \<alpha> r rr" by blast
  from run_calls_sim [OF E s world_sim_refl R] obtain rr' v' where
    R': "run_calls (ref_api lat) (map CWrite ps @ [CClose]) rr w0 = Ret (rr', v')"
    and ws: "world_sim w' v'" by blast
  have fr: "frames_in rr = frames_in r" "frames_out rr = frames_out r" "outFrameSize rr = outFrameSize r"
    using res_sim_frames [OF s] s by (auto simp: res_sim_def)
  have ref: "sink_data (sinks v' i) = sink_data (sinks w i) @
      replicate (nat (frames_out r (\<Sum>p\<leftarrow>ps. frames_in r (length p))) * nat (ch * outFrameSize r)) 0"
    using New_writes_Close_conserves [OF N' ch k, of ps rr' v'] bl ps R' by (simp add: fr)
  have "prefix (sink_data (sinks w i)) (sink_data (sinks w' i))"
    using run_calls_sinks_prefix [OF R, of i] New_sinks [OF N] by simp
  then obtain out where o: "sink_data (sinks w' i) = sink_data (sinks w i) @ out" by (auto simp: prefix_def)
  have "length (sink_data (sinks w' i)) = length (sink_data (sinks v' i))"
    using ws by (simp add: world_sim_def sink_sim_def)
  then show ?thesis using o ref by simp
qed

end
