(* ===== verification/Driver.thy ===== *)
theory Driver
  imports Lifecycle
begin

text \<open>
  The command-line driver of src/unnamed/part_000 (package main): \<open>strToFormat\<close>, the
  part of \<open>filepath.Ext\<close> and \<open>strings.ToLower\<close> it relies on, the \<open>io.Copy\<close> loop
  that feeds the input file to \<open>Write\<close> in chunks of 32 KiB, and \<open>main\<close> with its
  validation, its files and its exit status. The file system is a map from paths to
  contents, with the free room of the output device and the paths that cannot be
  created; the output file is sink 0 of the resampler's world while \<open>main\<close> runs.
  \<open>log.Fatal\<close> prints its message and exits with status 1 (\<open>Exit1\<close>).
\<close>

section \<open>Formats and paths\<close>

text \<open>
  \<open>strings.ToLower\<close> on the characters of the model: ASCII letters are lowered, every
  other character is kept (no other character lowers to a letter of a format name).
\<close>

definition go_lower_char :: "char \<Rightarrow> char" where
  "go_lower_char c =
     (case map_of (zip ''ABCDEFGHIJKLMNOPQRSTUVWXYZ'' ''abcdefghijklmnopqrstuvwxyz'') c of
        Some d \<Rightarrow> d
      | None \<Rightarrow> c)"

definition go_to_lower :: "string \<Rightarrow> string" where
  "go_to_lower s = map go_lower_char s"

definition strToFormat :: "string \<Rightarrow> string + int" where
  "strToFormat format =
     (let l = go_to_lower format
      in if l = ''i16'' then Inr I16
         else if l = ''i32'' then Inr I32
         else if l = ''f32'' then Inr F32
         else if l = ''f64'' then Inr F64
         else Inl (''unknown format '' @ format))"

text \<open>
  \<open>filepath.Ext\<close>: scanning the path from its end, stop at a separator (no
  extension) or at a dot (the extension is the dot and what follows it).
  \<open>ext_scan\<close> is that loop over the reversed path, \<open>acc\<close> the characters passed.
\<close>

fun ext_scan :: "string \<Rightarrow> string \<Rightarrow> string" where
  "ext_scan [] acc = []"
| "ext_scan (c # cs) acc =
     (if c = CHR ''/'' then [] else if c = CHR ''.'' then c # acc else ext_scan cs (c # acc))"

definition filepath_Ext :: "string \<Rightarrow> string" where
  "filepath_Ext path = ext_scan (rev path) []"

definition wavHeader :: nat where
  "wavHeader = 44"

section \<open>io.Copy\<close>

text \<open>
  \<open>io.Copy(res, input)\<close>: neither side offers a shortcut that applies, so the copy
  reads into a buffer of 32 KiB; a read of a regular file returns the next
  \<open>min 32768 remaining\<close> bytes, and an empty read is the end of the file. Each
  non-empty read is written to the resampler; a write error, an invalid count or a
  short write stops the copy. The result is the total written and the error.
\<close>

datatype copy_error = CopyWrite rs_error | ErrShortWrite | ErrInvalidWrite

definition copyBufSize :: nat where
  "copyBufSize = 32 * 1024"

function io_copy ::
  "'e soxr_api \<Rightarrow> 'e Resampler \<Rightarrow> bytes \<Rightarrow> world \<Rightarrow>
   ((int \<times> copy_error option) \<times> 'e Resampler \<times> world) outcome" where
  "io_copy api r src w =
     (if src = [] then Ret ((0, None), r, w)
      else
      let buf = take copyBufSize src; nr = int (length buf)
      in case Write api r buf w of
           Panic m \<Rightarrow> Panic m
         | Ret ((nw0, ew0), r1, w1) \<Rightarrow>
             (let ew1 = map_option CopyWrite ew0;
                  (nw, ew) = (if nw0 < 0 \<or> nr < nw0
                              then (0, if ew1 = None then Some ErrInvalidWrite else ew1)
                              else (nw0, ew1))
              in if ew \<noteq> None then Ret ((nw, ew), r1, w1)
                 else if nr \<noteq> nw then Ret ((nw, Some ErrShortWrite), r1, w1)
                 else (case io_copy api r1 (drop copyBufSize src) w1 of
                         Panic m \<Rightarrow> Panic m
                       | Ret ((n, e), r2, w2) \<Rightarrow> Ret ((nw + n, e), r2, w2))))"
  by pat_completeness auto

termination
  by (relation "measure (\<lambda>(api, r, src, w). length src)") (auto simp: copyBufSize_def)

text \<open>
  The same loop with a bound on its rounds: \<open>None\<close> when the bound runs out before
  the copy ends.
\<close>

fun io_copy_fuel ::
  "nat \<Rightarrow> 'e soxr_api \<Rightarrow> 'e Resampler \<Rightarrow> bytes \<Rightarrow> world \<Rightarrow>
   ((int \<times> copy_error option) \<times> 'e Resampler \<times> world) outcome option" where
  "io_copy_fuel 0 api r src w = None"
| "io_copy_fuel (Suc f) api r src w =
     (if src = [] then Some (Ret ((0, None), r, w))
      else
      let buf = take copyBufSize src; nr = int (length buf)
      in case Write api r buf w of
           Panic m \<Rightarrow> Some (Panic m)
         | Ret ((nw0, ew0), r1, w1) \<Rightarrow>
             (let ew1 = map_option CopyWrite ew0;
                  (nw, ew) = (if nw0 < 0 \<or> nr < nw0
                              then (0, if ew1 = None then Some ErrInvalidWrite else ew1)
                              else (nw0, ew1))
              in if ew \<noteq> None then Some (Ret ((nw, ew), r1, w1))
                 else if nr \<noteq> nw then Some (Ret ((nw, Some ErrShortWrite), r1, w1))
                 else map_option (\<lambda>res. case res of
                         Panic m \<Rightarrow> Panic m
                       | Ret ((n, e), r2, w2) \<Rightarrow> Ret ((nw + n, e), r2, w2))
                        (io_copy_fuel f api r1 (drop copyBufSize src) w1)))"

section \<open>main\<close>

record cli_flags =
  flag_if :: string
  flag_iof :: string
  flag_ch :: int
  flag_ir :: int
  flag_or :: int
  flag_args :: "string list"

text \<open>The flag defaults of lines 33 to 37, for the positional arguments given.\<close>

definition default_flags :: "string list \<Rightarrow> cli_flags" where
  "default_flags args = \<lparr>flag_if = ''i16'', flag_iof = ''i16'', flag_ch = 2, flag_ir = 44100,
                          flag_or = 0, flag_args = args\<rparr>"

record fsys =
  fs_files :: "string \<rightharpoonup> bytes"
  fs_room :: "nat option"
  fs_readonly :: "string list"

datatype exit_status = Exit0 | Exit1 string

text \<open>The messages of the errors \<open>log.Fatalln\<close> prints (resample.go and package io).\<close>

fun rs_error_msg :: "rs_error \<Rightarrow> string" where
  "rs_error_msg ErrWriterNil = ''io.Writer is nil''"
| "rs_error_msg ErrRates = ''invalid input or output sampling rates''"
| "rs_error_msg ErrChannels = ''invalid channels number''"
| "rs_error_msg ErrQuality = ''invalid quality setting''"
| "rs_error_msg ErrFormat = ''invalid format setting''"
| "rs_error_msg ErrNilResampler = ''soxr resampler is nil''"
| "rs_error_msg ErrIncomplete = ''incomplete input frame data''"
| "rs_error_msg ErrNotEnough = ''not enough input to generate output''"
| "rs_error_msg (ErrSoxr s) = s"
| "rs_error_msg (ErrWrite s) = s"

fun copy_error_msg :: "copy_error \<Rightarrow> string" where
  "copy_error_msg (CopyWrite e) = rs_error_msg e"
| "copy_error_msg ErrShortWrite = ''short write''"
| "copy_error_msg ErrInvalidWrite = ''invalid write result''"

text \<open>
  The world \<open>main\<close> gives the resampler: an empty C heap and the freshly created
  output file as sink 0, on a device with the room of the file system.
\<close>

definition main_world :: "fsys \<Rightarrow> world" where
  "main_world fs =
     \<lparr>heap = \<lparr>blocks = Map.empty, next_addr = 0, bad_frees = []\<rparr>,
      sinks = (\<lambda>_. \<lparr>sink_data = [], sink_room = fs_room fs, sink_closed = False\<rparr>)\<rparr>"

definition remove_file :: "string \<Rightarrow> fsys \<Rightarrow> fsys" where
  "remove_file p fs = fs\<lparr>fs_files := (fs_files fs)(p := None)\<rparr>"

definition write_file :: "string \<Rightarrow> bytes \<Rightarrow> fsys \<Rightarrow> fsys" where
  "write_file p d fs = fs\<lparr>fs_files := (fs_files fs)(p \<mapsto> d)\<rparr>"

text \<open>
  The bytes \<open>io.Copy\<close> reads from the input: \<open>os.Create\<close> has truncated the file if
  the output path is the input path, and the header of a \<open>.wav\<close> input (the test is
  case-insensitive) is skipped by \<open>input.Seek(wavHeader, 0)\<close>.
\<close>

definition input_pcm :: "string \<Rightarrow> string \<Rightarrow> bytes \<Rightarrow> bytes" where
  "input_pcm inputFile outputFile data =
     (let data1 = (if outputFile = inputFile then [] else data)
      in if go_to_lower (filepath_Ext inputFile) = ''.wav'' then drop wavHeader data1 else data1)"

text \<open>
  \<open>main\<close> after \<open>flag.Parse\<close>, with \<open>threads\<close> the value \<open>init\<close> stored. \<open>os.Create\<close>
  truncates the output file, so an output path equal to the input path leaves nothing
  to read. \<open>input.Seek\<close> past the header of a \<open>.wav\<close> input drops its first 44 bytes.
  The error of \<open>res.Close()\<close> is discarded (line 102); only the copy's error decides
  the exit status and whether the output is removed.
\<close>

definition main :: "'e soxr_api \<Rightarrow> int \<Rightarrow> cli_flags \<Rightarrow> fsys \<Rightarrow> (exit_status \<times> fsys) outcome" where
  "main api threads fl fs =
     (case strToFormat (flag_if fl) of
        Inl e \<Rightarrow> Ret (Exit1 (''Invalid input format : '' @ e), fs)
      | Inr inFrmt \<Rightarrow> (case strToFormat (flag_iof fl) of
        Inl e \<Rightarrow> Ret (Exit1 (''Invalid output format : '' @ e), fs)
      | Inr outFrmt \<Rightarrow>
        if flag_ch fl < 1 then Ret (Exit1 ''Invalid channel number'', fs)
        else if flag_ir fl \<le> 0 \<or> flag_or fl \<le> 0
        then Ret (Exit1 ''Invalid input or output sample rate'', fs)
        else if length (flag_args fl) < 2 then Ret (Exit1 ''No input or output files given'', fs)
        else
        let inputFile = flag_args fl ! 0; outputFile = flag_args fl ! 1
        in (case fs_files fs inputFile of
          None \<Rightarrow> Ret (Exit1 (''open '' @ inputFile @ '': no such file or directory''), fs)
        | Some data \<Rightarrow>
          if outputFile \<in> set (fs_readonly fs)
          then Ret (Exit1 (''open '' @ outputFile @ '': permission denied''), fs)
          else
          let fs1 = write_file outputFile [] fs
          in (case New api threads (Some 0) (of_int (flag_ir fl)) (of_int (flag_or fl)) (flag_ch fl)
                    inFrmt outFrmt HighQ (main_world fs) of
            ((_, Some err), _) \<Rightarrow> Ret (Exit1 (rs_error_msg err), remove_file outputFile fs1)
          | ((None, None), _) \<Rightarrow> Panic ''invalid memory address or nil pointer dereference''
          | ((Some res, None), w1) \<Rightarrow>
            (case io_copy api res (input_pcm inputFile outputFile data) w1 of
              Panic m \<Rightarrow> Panic m
            | Ret ((_, err), r2, w2) \<Rightarrow> (case Close api r2 w2 of
                Panic m \<Rightarrow> Panic m
              | Ret (_, _, w3) \<Rightarrow>
                  (case err of
                     Some e \<Rightarrow> Ret (Exit1 (copy_error_msg e), remove_file outputFile fs1)
                   | None \<Rightarrow> Ret (Exit0, write_file outputFile (sink_data (sinks w3 0)) fs1))))))))"

text \<open>The process: the package \<open>init\<close> stores \<open>threads\<close>, then \<open>main\<close> runs.\<close>

definition program :: "'e soxr_api \<Rightarrow> nat \<Rightarrow> cli_flags \<Rightarrow> fsys \<Rightarrow> (exit_status \<times> fsys) outcome" where
  "program api numCPU fl fs = main api (threads_init numCPU) fl fs"


section \<open>The copy as a run of writes\<close>

function chunks :: "nat \<Rightarrow> 'a list \<Rightarrow> 'a list list" where
  "chunks n xs = (if xs = [] then [] else if n = 0 then [xs] else take n xs # chunks n (drop n xs))"
  by pat_completeness auto

termination
  by (relation "measure (\<lambda>(n, xs). length xs)") auto

declare io_copy.simps [simp del] chunks.simps [simp del]

lemma io_copy_Nil [simp]: "io_copy api r [] w = Ret ((0, None), r, w)"
  by (simp add: io_copy.simps)

lemma chunks_Nil [simp]: "chunks n [] = []"
  by (simp add: chunks.simps)

lemma chunks_step: "xs \<noteq> [] \<Longrightarrow> 0 < n \<Longrightarrow> chunks n xs = take n xs # chunks n (drop n xs)"
  by (simp add: chunks.simps)

lemma concat_chunks: "0 < n \<Longrightarrow> concat (chunks n xs) = xs"
  by (induction n xs rule: chunks.induct) (simp add: chunks.simps)

lemma io_copy_accept:
  assumes "src \<noteq> []"
    and "Write api r (take copyBufSize src) w = Ret ((int (length (take copyBufSize src)), None), r1, w1)"
  shows "io_copy api r src w =
    (case io_copy api r1 (drop copyBufSize src) w1 of
       Panic m \<Rightarrow> Panic m
     | Ret ((n, e), r2, w2) \<Rightarrow> Ret ((int (length (take copyBufSize src)) + n, e), r2, w2))"
  using assms by (subst io_copy.simps) (simp add: Let_def del: length_take)

lemma io_copy_reject:
  assumes "src \<noteq> []" and "Write api r (take copyBufSize src) w = Ret ((0, Some e), r1, w1)"
  shows "io_copy api r src w = Ret ((0, Some (CopyWrite e)), r1, w1)"
  using assms by (subst io_copy.simps) (simp add: Let_def)

text \<open>
  One round of the copy loop that neither stops nor fails: the resampler accepted the
  whole buffer, and the copy goes on from the next byte of the input.
\<close>

lemma io_copy_step:
  assumes "src \<noteq> []" "io_copy api r src w = Ret ((n, None), r', w')"
  obtains r1 w1 n1 where
    "Write api r (take copyBufSize src) w = Ret ((int (length (take copyBufSize src)), None), r1, w1)"
    "io_copy api r1 (drop copyBufSize src) w1 = Ret ((n1, None), r', w')"
    "n = int (length (take copyBufSize src)) + n1"
  using assms
  by (subst (asm) io_copy.simps)
     (auto simp: Let_def split: outcome.splits prod.splits if_splits option.splits)

text \<open>
  C18. A copy that ends without error is the run of \<open>Write\<close> calls on the 32 KiB
  chunks of the input, in order, and reports every input byte written; so everything
  the lifecycle shows of a run of calls holds of the copy.
\<close>

theorem io_copy_run_calls:
  "io_copy api r src w = Ret ((n, None), r', w') \<Longrightarrow>
     run_calls api (map CWrite (chunks copyBufSize src)) r w = Ret (r', w') \<and> n = int (length src)"
proof (induction src arbitrary: r w n rule: measure_induct_rule [of length])
  case (less src)
  show ?case
  proof (cases "src = []")
    case True
    then show ?thesis using less.prems by simp
  next
    case False
    obtain r1 w1 n1 where
      W: "Write api r (take copyBufSize src) w = Ret ((int (length (take copyBufSize src)), None), r1, w1)"
      and C: "io_copy api r1 (drop copyBufSize src) w1 = Ret ((n1, None), r', w')"
      and n: "n = int (length (take copyBufSize src)) + n1"
      using io_copy_step [OF False less.prems] by blast
    have "length (drop copyBufSize src) < length src"
      using False by (simp add: copyBufSize_def)
    from less.IH [OF this C] have IH:
      "run_calls api (map CWrite (chunks copyBufSize (drop copyBufSize src))) r1 w1 = Ret (r', w')"
      "n1 = int (length (drop copyBufSize src))" by simp_all
    show ?thesis
      using False W IH n by (simp add: chunks_step copyBufSize_def run_call_def)
  qed
qed


section \<open>main\<close>

lemma strToFormat_Inr:
  "strToFormat s = Inr f \<Longrightarrow> go_to_lower s \<in> {''i16'', ''i32'', ''f32'', ''f64''}"
  by (simp add: strToFormat_def Let_def split: if_splits)

text \<open>Past validation, opening the files and \<open>New\<close>, \<open>main\<close> is the copy and the close.\<close>

lemma main_valid:
  assumes f: "strToFormat (flag_if fl) = Inr fi" "strToFormat (flag_iof fl) = Inr fo"
    and v: "1 \<le> flag_ch fl" "0 < flag_ir fl" "0 < flag_or fl"
    and a: "flag_args fl = inp # out # rest"
    and d: "fs_files fs inp = Some data" "out \<notin> set (fs_readonly fs)"
    and N: "New api t (Some 0) (of_int (flag_ir fl)) (of_int (flag_or fl)) (flag_ch fl) fi fo HighQ
              (main_world fs) = ((Some res, None), w1)"
  shows "main api t fl fs =
    (case io_copy api res (input_pcm inp out data) w1 of
       Panic m \<Rightarrow> Panic m
     | Ret ((_, err), r2, w2) \<Rightarrow> (case Close api r2 w2 of
         Panic m \<Rightarrow> Panic m
       | Ret (_, _, w3) \<Rightarrow> (case err of
           Some e \<Rightarrow> Ret (Exit1 (copy_error_msg e), remove_file out (write_file out [] fs))
         | None \<Rightarrow> Ret (Exit0, write_file out (sink_data (sinks w3 0)) (write_file out [] fs)))))"
  using assms by (simp add: main_def Let_def)



text \<open>
  C21. \<open>main\<close> discards the error of \<open>res.Close()\<close>: when the copy succeeded, the
  program exits with status 0 and keeps the output file as the final flush left it,
  whatever \<open>Close\<close> returned, a failed flush included.
\<close>

theorem main_ignores_close_error:
  assumes f: "strToFormat (flag_if fl) = Inr fi" "strToFormat (flag_iof fl) = Inr fo"
    and v: "1 \<le> flag_ch fl" "0 < flag_ir fl" "0 < flag_or fl"
    and a: "flag_args fl = inp # out # rest"
    and d: "fs_files fs inp = Some data" "out \<notin> set (fs_readonly fs)"
    and N: "New api t (Some 0) (of_int (flag_ir fl)) (of_int (flag_or fl)) (flag_ch fl) fi fo HighQ
              (main_world fs) = ((Some res, None), w1)"
    and C: "io_copy api res (input_pcm inp out data) w1 = Ret ((n, None), r2, w2)"
    and Cl: "Close api r2 w2 = Ret (err, r3, w3)"
  shows "main api t fl fs = Ret (Exit0, write_file out (sink_data (sinks w3 0)) (write_file out [] fs))"
  using main_valid [OF f v a d N] C Cl by simp

text \<open>
  C22. When the copy fails, \<open>main\<close> still closes the resampler, then removes the output
  file and exits with status 1, printing the copy's error.
\<close>

theorem main_copy_error_removes_output:
  assumes f: "strToFormat (flag_if fl) = Inr fi" "strToFormat (flag_iof fl) = Inr fo"
    and v: "1 \<le> flag_ch fl" "0 < flag_ir fl" "0 < flag_or fl"
    and a: "flag_args fl = inp # out # rest"
    and d: "fs_files fs inp = Some data" "out \<notin> set (fs_readonly fs)"
    and N: "New api t (Some 0) (of_int (flag_ir fl)) (of_int (flag_or fl)) (flag_ch fl) fi fo HighQ
              (main_world fs) = ((Some res, None), w1)"
    and C: "io_copy api res (input_pcm inp out data) w1 = Ret ((n, Some e), r2, w2)"
    and Cl: "Close api r2 w2 = Ret (err, r3, w3)"
  shows "main api t fl fs = Ret (Exit1 (copy_error_msg e), remove_file out (write_file out [] fs)) \<and>
         fs_files (remove_file out (write_file out [] fs)) out = None"
  using main_valid [OF f v a d N] C Cl by (simp add: remove_file_def)


lemma copy_rounds_drop:
  "src \<noteq> [] \<Longrightarrow>
   (length (drop copyBufSize src) + copyBufSize - 1) div copyBufSize + 1 =
   (length src + copyBufSize - 1) div copyBufSize"
  by (auto simp: copyBufSize_def div_if)


end
