(* ===== verification/Flags.thy ===== *)
theory Flags
  imports Driver "HOL-Library.Char_ord" "HOL-Library.Code_Target_Nat"
begin

text \<open>
  \<open>flag.Parse()\<close> (src/unnamed/part_000, line 55) over the five flags of lines 33 to 37,
  and the process around \<open>main\<close>: the command line \<open>os.Args[1:]\<close> is parsed by the
  package \<open>flag\<close> with \<open>ExitOnError\<close>, so a bad flag ends the process with status 2
  (\<open>-h\<close> and \<open>-help\<close> with status 0, after the usage message). \<open>flag.Int\<close> reads its
  value with \<open>strconv.ParseInt(s, 0, 64)\<close>: an optional sign, a base prefix (\<open>0b\<close>,
  \<open>0o\<close>, \<open>0x\<close>, or a leading \<open>0\<close> for octal), digits with \<open>_\<close> separators, and the
  range of a 64-bit \<open>int\<close>.
\<close>

unbundle bit_operations_syntax

section \<open>strconv.ParseInt with base 0\<close>

datatype 'a num_result = NumOk 'a | NumSyntax | NumRange

text \<open>\<open>lower(c)\<close> of package strconv: \<open>c | ('x' - 'X')\<close>.\<close>

definition strconv_lower :: "char \<Rightarrow> char" where
  "strconv_lower c = char_of (of_char c OR (32::nat))"

text \<open>The digit value of a byte: \<open>0-9\<close>, then letters in either case from 10.\<close>

definition strconv_digit :: "char \<Rightarrow> nat option" where
  "strconv_digit c =
     (if CHR ''0'' \<le> c \<and> c \<le> CHR ''9'' then Some (of_char c - of_char CHR ''0'')
      else if CHR ''a'' \<le> strconv_lower c \<and> strconv_lower c \<le> CHR ''z''
      then Some (of_char (strconv_lower c) - of_char CHR ''a'' + 10)
      else None)"

definition maxUint64 :: nat where
  "maxUint64 = 2 ^ 64 - 1"

text \<open>
  The digit loop of \<open>ParseUint\<close>: \<open>n\<close> the value so far, \<open>us\<close> whether an underscore
  was skipped (only with base 0); the first bad digit or overflow ends it.
\<close>

fun uint_digits :: "nat \<Rightarrow> bool \<Rightarrow> string \<Rightarrow> nat \<Rightarrow> bool \<Rightarrow> (nat \<times> bool) num_result" where
  "uint_digits base base0 [] n us = NumOk (n, us)"
| "uint_digits base base0 (c # cs) n us =
     (if c = CHR ''_'' \<and> base0 then uint_digits base base0 cs n True
      else case strconv_digit c of
        None \<Rightarrow> NumSyntax
      | Some d \<Rightarrow>
          if base \<le> d then NumSyntax
          else if maxUint64 div base + 1 \<le> n then NumRange
          else if maxUint64 < n * base + d then NumRange
          else uint_digits base base0 cs (n * base + d) us)"

datatype us_saw = SawStart | SawDigit | SawUnder | SawOther

fun us_scan :: "bool \<Rightarrow> us_saw \<Rightarrow> string \<Rightarrow> bool" where
  "us_scan hex saw [] = (saw \<noteq> SawUnder)"
| "us_scan hex saw (c # cs) =
     (if (CHR ''0'' \<le> c \<and> c \<le> CHR ''9'') \<or>
         (hex \<and> CHR ''a'' \<le> strconv_lower c \<and> strconv_lower c \<le> CHR ''f'')
      then us_scan hex SawDigit cs
      else if c = CHR ''_'' then (saw = SawDigit \<and> us_scan hex SawUnder cs)
      else if saw = SawUnder then False
      else us_scan hex SawOther cs)"

text \<open>\<open>underscoreOK\<close>: underscores only between digits, or after a base prefix.\<close>

definition underscoreOK :: "string \<Rightarrow> bool" where
  "underscoreOK s =
     (let s1 = (if s \<noteq> [] \<and> (hd s = CHR ''-'' \<or> hd s = CHR ''+'') then tl s else s)
      in if 2 \<le> length s1 \<and> hd s1 = CHR ''0'' \<and>
            strconv_lower (s1 ! 1) \<in> {CHR ''b'', CHR ''o'', CHR ''x''}
         then us_scan (strconv_lower (s1 ! 1) = CHR ''x'') SawDigit (drop 2 s1)
         else us_scan False SawStart s1)"

text \<open>\<open>ParseUint(s, 0, 64)\<close>: the base is chosen by the prefix.\<close>

definition parse_uint0 :: "string \<Rightarrow> nat num_result" where
  "parse_uint0 s =
     (if s = [] then NumSyntax
      else
      let (base, ds) =
            (if hd s = CHR ''0'' then
               (if 3 \<le> length s \<and> strconv_lower (s ! 1) = CHR ''b'' then (2, drop 2 s)
                else if 3 \<le> length s \<and> strconv_lower (s ! 1) = CHR ''o'' then (8, drop 2 s)
                else if 3 \<le> length s \<and> strconv_lower (s ! 1) = CHR ''x'' then (16, drop 2 s)
                else (8, drop 1 s))
             else (10, s))
      in case uint_digits base True ds 0 False of
           NumOk (n, us) \<Rightarrow> if us \<and> \<not> underscoreOK s then NumSyntax else NumOk n
         | NumSyntax \<Rightarrow> NumSyntax
         | NumRange \<Rightarrow> NumRange)"

text \<open>\<open>ParseInt(s, 0, 64)\<close>: the sign, then the unsigned value within the int64 range.\<close>

definition parse_int0 :: "string \<Rightarrow> int num_result" where
  "parse_int0 s =
     (if s = [] then NumSyntax
      else
      let (neg, u) = (if hd s = CHR ''+'' then (False, tl s)
                      else if hd s = CHR ''-'' then (True, tl s) else (False, s))
      in case parse_uint0 u of
           NumSyntax \<Rightarrow> NumSyntax
         | NumRange \<Rightarrow> NumRange
         | NumOk un \<Rightarrow>
             if \<not> neg \<and> 2 ^ 63 \<le> un then NumRange
             else if neg \<and> 2 ^ 63 < un then NumRange
             else NumOk (if neg then - int un else int un))"

section \<open>flag.Parse\<close>

datatype flag_error =
    BadSyntax string
  | NotDefined string
  | NeedsArg string
  | InvalidValue string string bool

datatype parse_result = ParseOk cli_flags | ParseHelp | ParseFail flag_error

text \<open>\<open>Value.Set\<close> of the flag named: a string flag takes the text, an int flag parses it.\<close>

definition set_flag :: "string \<Rightarrow> string \<Rightarrow> cli_flags \<Rightarrow> flag_error + cli_flags" where
  "set_flag name v fl =
     (if name = ''if'' then Inr (fl\<lparr>flag_if := v\<rparr>)
      else if name = ''iof'' then Inr (fl\<lparr>flag_iof := v\<rparr>)
      else case parse_int0 v of
        NumOk n \<Rightarrow> Inr (if name = ''ch'' then fl\<lparr>flag_ch := n\<rparr>
                       else if name = ''ir'' then fl\<lparr>flag_ir := n\<rparr> else fl\<lparr>flag_or := n\<rparr>)
      | NumSyntax \<Rightarrow> Inl (InvalidValue v name False)
      | NumRange \<Rightarrow> Inl (InvalidValue v name True))"

definition flag_names :: "string list" where
  "flag_names = [''if'', ''iof'', ''ch'', ''ir'', ''or'']"

text \<open>
  \<open>parseOne\<close> in a loop: the arguments after the last flag are \<open>flag.Args()\<close>; a
  non-flag argument or \<open>--\<close> ends the flags; \<open>-name=value\<close> or \<open>-name value\<close>
  (the next argument is taken as the value whatever it is).
\<close>

fun parse_args :: "cli_flags \<Rightarrow> string list \<Rightarrow> parse_result" where
  "parse_args fl [] = ParseOk (fl\<lparr>flag_args := []\<rparr>)"
| "parse_args fl (s # rest) =
     (if length s < 2 \<or> hd s \<noteq> CHR ''-'' then ParseOk (fl\<lparr>flag_args := s # rest\<rparr>)
      else if s = ''--'' then ParseOk (fl\<lparr>flag_args := rest\<rparr>)
      else
      let name0 = drop (if s ! 1 = CHR ''-'' then 2 else 1) s
      in if name0 = [] \<or> hd name0 = CHR ''-'' \<or> hd name0 = CHR ''='' then ParseFail (BadSyntax s)
      else
      let name = takeWhile (\<lambda>c. c \<noteq> CHR ''='') name0;
          hasValue = CHR ''='' \<in> set name0;
          value = drop 1 (dropWhile (\<lambda>c. c \<noteq> CHR ''='') name0)
      in if name \<notin> set flag_names
         then (if name = ''help'' \<or> name = ''h'' then ParseHelp else ParseFail (NotDefined name))
      else if hasValue
      then (case set_flag name value fl of Inl e \<Rightarrow> ParseFail e | Inr fl' \<Rightarrow> parse_args fl' rest)
      else (case rest of
              [] \<Rightarrow> ParseFail (NeedsArg name)
            | v # rest' \<Rightarrow> (case set_flag name v fl of
                              Inl e \<Rightarrow> ParseFail e
                            | Inr fl' \<Rightarrow> parse_args fl' rest')))"

section \<open>The process\<close>

definition exit_code :: "exit_status \<Rightarrow> nat" where
  "exit_code e = (case e of Exit0 \<Rightarrow> 0 | Exit1 _ \<Rightarrow> 1)"

text \<open>
  The process on \<open>os.Args\<close>: \<open>init\<close>, \<open>flag.Parse()\<close> on the arguments after the
  program name, then \<open>main\<close>; the result is the exit status and the file system.
\<close>

definition run_process :: "'e soxr_api \<Rightarrow> nat \<Rightarrow> string list \<Rightarrow> fsys \<Rightarrow> (nat \<times> fsys) outcome" where
  "run_process api numCPU argv fs =
     (case parse_args (default_flags []) (drop 1 argv) of
        ParseHelp \<Rightarrow> Ret (0, fs)
      | ParseFail _ \<Rightarrow> Ret (2, fs)
      | ParseOk fl \<Rightarrow> (case program api numCPU fl fs of
          Panic m \<Rightarrow> Panic m
        | Ret (e, fs') \<Rightarrow> Ret (exit_code e, fs')))"

section \<open>Printing flags\<close>

text \<open>
  Decimal text of an integer, as \<open>strconv.Itoa\<close> writes it, and the command line that
  sets every flag explicitly and passes the positional arguments after \<open>--\<close>.
\<close>

fun nat_dec :: "nat \<Rightarrow> string" where
  "nat_dec n = (if n < 10 then [char_of (48 + n)] else nat_dec (n div 10) @ [char_of (48 + n mod 10)])"

definition int_dec :: "int \<Rightarrow> string" where
  "int_dec i = (if i < 0 then CHR ''-'' # nat_dec (nat (- i)) else nat_dec (nat i))"

definition render_flags :: "cli_flags \<Rightarrow> string list" where
  "render_flags fl =
     [''-if'', flag_if fl, ''-iof'', flag_iof fl, ''-ch'', int_dec (flag_ch fl),
      ''-ir'', int_dec (flag_ir fl), ''-or'', int_dec (flag_or fl), ''--''] @ flag_args fl"

definition is_dec :: "char \<Rightarrow> bool" where
  "is_dec c \<longleftrightarrow> CHR ''0'' \<le> c \<and> c \<le> CHR ''9''"

definition dec_val :: "nat \<Rightarrow> string \<Rightarrow> nat" where
  "dec_val acc ds = foldl (\<lambda>n c. n * 10 + (of_char c - 48)) acc ds"

section \<open>Lemmas on decimal text\<close>

declare nat_dec.simps [simp del]

lemma is_dec_iff: "is_dec c \<longleftrightarrow> (48::nat) \<le> of_char c \<and> of_char c \<le> (57::nat)"
  by (simp add: is_dec_def less_eq_char_def)

text \<open>\<open>lower\<close> leaves a decimal digit as it is.\<close>

lemma strconv_lower_dec: "is_dec c \<Longrightarrow> strconv_lower c = c"
proof -
  assume "is_dec c"
  then have r: "(48::nat) \<le> of_char c" "of_char c \<le> (57::nat)" by (simp_all add: is_dec_iff)
  have "\<forall>n\<in>set [48..<58]. n OR (32::nat) = n" by simp
  moreover have "of_char c \<in> set [48..<58]" unfolding set_upt using r by simp
  ultimately have "of_char c OR (32::nat) = of_char c" by blast
  then show ?thesis by (simp add: strconv_lower_def)
qed

lemma strconv_digit_dec: "is_dec c \<Longrightarrow> strconv_digit c = Some (of_char c - 48)"
  by (simp add: strconv_digit_def is_dec_def)

lemma dec_val_Cons [simp]: "dec_val acc (c # cs) = dec_val (acc * 10 + (of_char c - 48)) cs"
  by (simp add: dec_val_def)

lemma dec_val_ge: "acc \<le> dec_val acc ds"
proof (induction ds arbitrary: acc)
  case (Cons c cs)
  then show ?case by (metis dec_val_Cons le_add1 le_trans mult.commute mult_le_cancel2
        nat_mult_1 one_le_numeral)
qed (simp add: dec_val_def)

lemma uint_digits_dec:
  "\<forall>c\<in>set ds. is_dec c \<Longrightarrow> acc \<le> maxUint64 \<Longrightarrow>
     uint_digits 10 b ds acc us =
       (if dec_val acc ds \<le> maxUint64 then NumOk (dec_val acc ds, us) else NumRange)"
proof (induction ds arbitrary: acc)
  case Nil
  then show ?case by (simp add: dec_val_def maxUint64_def)
next
  case (Cons c cs)
  let ?d = "of_char c - (48::nat)"
  have c: "is_dec c" "c \<noteq> CHR ''_''" and d: "?d < 10" using Cons.prems by (auto simp: is_dec_iff)
  have ge: "acc * 10 + ?d \<le> dec_val (acc * 10 + ?d) cs" by (rule dec_val_ge)
  show ?case
  proof (cases "maxUint64 div 10 + 1 \<le> acc \<or> maxUint64 < acc * 10 + ?d")
    case True
    then have "maxUint64 < acc * 10 + ?d" by (auto simp: maxUint64_def)
    then show ?thesis using True c d ge by (auto simp: strconv_digit_dec)
  next
    case False
    then show ?thesis using Cons c d by (simp add: strconv_digit_dec)
  qed
qed

lemma nat_dec_digits: "\<forall>c\<in>set (nat_dec n). is_dec c"
  by (induction n rule: nat_dec.induct) (subst nat_dec.simps, auto simp: is_dec_iff)

lemma dec_val_snoc: "dec_val acc (xs @ [c]) = dec_val acc xs * 10 + (of_char c - 48)"
  by (simp add: dec_val_def)

lemma dec_val_nat_dec: "dec_val 0 (nat_dec n) = n"
  by (induction n rule: nat_dec.induct) (subst nat_dec.simps, simp add: dec_val_snoc dec_val_def)

lemma nat_dec_hd: "nat_dec n \<noteq> [] \<and> (hd (nat_dec n) = CHR ''0'' \<longrightarrow> n = 0)"
proof (induction n rule: nat_dec.induct)
  case (1 n)
  show ?case
  proof (cases "n < 10")
    case True
    have "of_char (char_of (48 + n) :: char) = (48 + n :: nat)" using True by simp
    then have "char_of (48 + n) = CHR ''0'' \<Longrightarrow> n = 0" by auto
    moreover have "nat_dec n = [char_of (48 + n)]" using True by (subst nat_dec.simps) simp
    ultimately show ?thesis by simp
  next
    case False
    then have "nat_dec n = nat_dec (n div 10) @ [char_of (48 + n mod 10)]"
      by (subst nat_dec.simps) simp
    moreover have "0 < n div 10" using False by simp
    ultimately show ?thesis using 1 False by simp
  qed
qed

lemma nat_dec_0: "nat_dec 0 = [CHR ''0'']"
  by code_simp

lemma parse_uint0_dec: "parse_uint0 (nat_dec n) = (if n \<le> maxUint64 then NumOk n else NumRange)"
proof (cases "n = 0")
  case True
  then show ?thesis by (simp add: nat_dec_0 parse_uint0_def maxUint64_def)
next
  case False
  then have h: "nat_dec n \<noteq> []" "hd (nat_dec n) \<noteq> CHR ''0''" using nat_dec_hd [of n] by auto
  show ?thesis
    using uint_digits_dec [OF nat_dec_digits, where acc = 0 and b = True and us = False] h
    by (simp add: parse_uint0_def dec_val_nat_dec maxUint64_def split: num_result.splits)
qed

lemma nat_dec_sign: "hd (nat_dec n) \<noteq> CHR ''+'' \<and> hd (nat_dec n) \<noteq> CHR ''-''"
proof -
  have "nat_dec n \<noteq> []" using nat_dec_hd by blast
  then have "is_dec (hd (nat_dec n))" using nat_dec_digits [of n] by simp
  then show ?thesis by (auto simp: is_dec_def)
qed

lemma parse_int0_in_range:
  assumes "- (2 ^ 63) \<le> i" "i < 2 ^ 63"
  shows "parse_int0 (int_dec i) = NumOk i"
  using assms nat_dec_sign [of "nat (- i)"] nat_dec_sign [of "nat i"] nat_dec_hd [of "nat i"]
  by (auto simp: parse_int0_def int_dec_def parse_uint0_dec maxUint64_def nat_less_iff)



end
