(* ===== verification/Scenarios.thy ===== *)
theory Scenarios
  imports Stream Contract Flags
begin

text \<open>
  Concrete runs of the resampler on the reference engine \<open>ref_api\<close>: a fixed world,
  engine state and receiver, the facts that evaluate the model on them, and the
  witnesses that apply the component theorems at these inputs.
  The fixture is the configuration of the command-line example of the repository:
  two channels of 16-bit samples, 16000 Hz to 8000 Hz; the engine holds back two
  frames until a flush.
\<close>

section \<open>Fixtures\<close>

definition w_ex :: world where
  "w_ex = \<lparr>heap = \<lparr>blocks = [0 \<mapsto> CEngine], next_addr = 1, bad_frees = []\<rparr>,
           sinks = (\<lambda>_. \<lparr>sink_data = [], sink_room = None, sink_closed = False\<rparr>)\<rparr>"

definition e_ex :: ref_state where
  "e_ex = \<lparr>rf_ratio = 1 / 2, rf_frame = 4, rf_latency = 2, rf_fed = 0, rf_sent = 0\<rparr>"

definition r_ex :: "ref_state Resampler" where
  "r_ex = \<lparr>resampler = Some (0, e_ex), inRate = 16000, outRate = 8000, channels = 2,
           inFrameSize = 2, outFrameSize = 2, destination = Some 0\<rparr>"

text \<open>An engine whose every call fails, and one whose flush returns a full buffer.\<close>

definition api_fail :: "ref_state soxr_api" where
  "api_fail = (ref_api 2)\<lparr>sx_process := (\<lambda>s inp olen. (Some ''internal error'', s, 0, 0, []))\<rparr>"

definition api_flood :: "ref_state soxr_api" where
  "api_flood = (ref_api 2)\<lparr>sx_process := (\<lambda>s inp olen. (None, s, 0, olen, []))\<rparr>"

text \<open>An engine whose creation fails.\<close>

definition api_nocreate :: "ref_state soxr_api" where
  "api_nocreate = (ref_api 2)\<lparr>sx_create := (\<lambda>ir orate ch io q rt. (Some ''out of memory'', None))\<rparr>"

text \<open>
  The driver's fixtures: a run of \<open>main\<close> with the example's flags on a full
  device, one on an input shorter than a frame, and a three-channel receiver fed by
  the engine that fills every buffer.
\<close>

definition fs_full :: fsys where
  "fs_full = \<lparr>fs_files = [''in.raw'' \<mapsto> replicate 8 0], fs_room = Some 0, fs_readonly = []\<rparr>"

definition fl_ex :: cli_flags where
  "fl_ex = (default_flags [''in.raw'', ''out.raw''])\<lparr>flag_ir := 16000, flag_or := 8000\<rparr>"

abbreviation w_m1 :: world where
  "w_m1 \<equiv> (main_world fs_full)\<lparr>heap := \<lparr>blocks = [0 \<mapsto> CEngine], next_addr = 1, bad_frees = []\<rparr>\<rparr>"

abbreviation w_m2 :: world where
  "w_m2 \<equiv> (main_world fs_full)\<lparr>heap := \<lparr>blocks = [0 \<mapsto> CEngine], next_addr = 3, bad_frees = []\<rparr>\<rparr>"

definition fs_short :: fsys where
  "fs_short = \<lparr>fs_files = [''in.raw'' \<mapsto> [0, 0, 0]], fs_room = None, fs_readonly = []\<rparr>"

definition r_tri :: "ref_state Resampler" where
  "r_tri = r_ex\<lparr>channels := 3, outRate := 16000\<rparr>"

text \<open>A world whose sinks have room for two more bytes.\<close>

definition w_room2 :: world where
  "w_room2 = w_ex\<lparr>sinks := (\<lambda>_. \<lparr>sink_data = [], sink_room = Some 2, sink_closed = False\<rparr>)\<rparr>"

section \<open>Evaluation facts\<close>

text \<open>A command line whose string values and file names start with a dash.\<close>

definition fl_cli :: cli_flags where
  "fl_cli = \<lparr>flag_if = ''I16'', flag_iof = ''-f32'', flag_ch = 2, flag_ir = 16000, flag_or = 8000,
             flag_args = [''in.wav'', ''-out.raw'']\<rparr>"

lemma r_ex_fields [simp]:
  "resampler r_ex = Some (0, e_ex)" "inFrameSize r_ex = 2" "outFrameSize r_ex = 2"
  "channels r_ex = 2" "destination r_ex = Some 0" "inRate r_ex = 16000" "outRate r_ex = 8000"
  by (simp_all add: r_ex_def)

lemma w_ex_wf: "heap_wf (heap w_ex)"
  by (simp add: w_ex_def heap_wf_def)

lemma frames_r_ex: "frames_in r_ex 40 = 10" "frames_out r_ex 10 = 5"
  by (simp_all add: frames_in_def frames_out_def go_f2i_def)

lemma c_u64_small: "c_u64 10 = 10" "c_u64 5 = 5"
  by (simp_all add: c_u64_def)

lemma e_ex_process_40:
  "sx_process (ref_api 2) e_ex (Some (replicate 40 0, 10)) 5 =
     (None, e_ex\<lparr>rf_fed := 10, rf_sent := 3\<rparr>, 10, 3, replicate 12 0)"
  by (simp add: ref_api_def ref_process_def e_ex_def)

lemma flush_r_ex:
  "flush (ref_api 2) r_ex (0, e_ex) w_ex =
     Ret (None, r_ex, w_ex\<lparr>heap := (heap w_ex)\<lparr>next_addr := 2\<rparr>\<rparr>)"
  by (simp add: flush_def ref_api_def ref_process_def e_ex_def c_u64_def go_bytes_def c_int_def
        go_int_of_u64_def dest_write_Some w_malloc_def c_malloc_def c_alloc_def w_free_all_def Let_def)
     (simp add: w_ex_def sink_write_def r_ex_def fun_upd_idem_iff)

lemma Close_r_ex:
  "Close (ref_api 2) r_ex w_ex =
     Ret (None, r_ex\<lparr>resampler := None\<rparr>, w_ex\<lparr>heap := \<lparr>blocks = Map.empty, next_addr = 2, bad_frees = []\<rparr>\<rparr>)"
  by (simp add: Close_def flush_r_ex soxr_delete_w_def w_free_all_def)
     (simp add: w_ex_def)

lemma Reset_r_ex:
  "Reset (ref_api 2) r_ex (Some 1) w_ex =
     Ret (None, r_ex\<lparr>resampler := Some (0, ref_clear e_ex), destination := Some 1\<rparr>,
          w_ex\<lparr>heap := (heap w_ex)\<lparr>next_addr := 2\<rparr>\<rparr>)"
  by (simp add: Reset_def flush_r_ex) (simp add: ref_api_def)

lemma ref_create_ex:
  "ref_create 2 16000 8000 (c_uint 2) (soxr_io_spec I16 I16) (soxr_quality_spec (nat HighQ) 0)
     (soxr_runtime_spec (c_uint 4)) = (None, Some e_ex)"
  by (simp add: ref_create_def soxr_io_spec_def soxr_datasize_def I16_def c_uint_def e_ex_def)

section \<open>Witnesses\<close>

theorem Write_success_witness:
  "\<exists>w'. Write (ref_api 2) r_ex (replicate 40 0) w_ex =
      Ret ((40, None), r_ex\<lparr>resampler := Some (0, e_ex\<lparr>rf_fed := 10, rf_sent := 3\<rparr>)\<rparr>, w') \<and>
      sink_data (sinks w' 0) = replicate 12 0 \<and>
      blocks (heap w') = [0 \<mapsto> CEngine] \<and> bad_frees (heap w') = []"
  using Write_success [of r_ex 0 e_ex "replicate 40 0" "ref_api 2"
      "e_ex\<lparr>rf_fed := 10, rf_sent := 3\<rparr>" 10 3 "replicate 12 0" 0 w_ex]
  by (simp add: frames_r_ex c_u64_small e_ex_process_40 w_ex_wf)
     (simp add: w_ex_def sink_accepts_def)

theorem Write_empty_witness: "Write (ref_api 2) r_ex [] w_ex = Ret ((0, None), r_ex, w_ex)"
  using Write_empty [of r_ex "ref_api 2" w_ex] by simp

theorem Close_then_misuse_witness:
  "\<exists>err r' w'. Close (ref_api 2) r_ex w_ex = Ret (err, r', w') \<and>
     Close (ref_api 2) r' w' = Ret (Some ErrNilResampler, r', w') \<and>
     Write (ref_api 2) r' [0, 0, 0, 0] w' = Ret ((0, Some ErrNilResampler), r', w') \<and>
     Reset (ref_api 2) r' (Some 1) w' = Ret (Some ErrNilResampler, r', w')"
  using Close_then_misuse [OF Close_r_ex, of "[0, 0, 0, 0]" "Some 1"] Close_r_ex by blast

theorem Close_releases_engine_witness:
  "\<exists>err r' w'. Close (ref_api 2) r_ex w_ex = Ret (err, r', w') \<and>
     resampler r' = None \<and> blocks (heap w') = (blocks (heap w_ex))(0 := None) \<and>
     set (bad_frees (heap w')) \<subseteq> set (bad_frees (heap w_ex)) \<union> range CStatic"
proof -
  have live: "blocks (heap w_ex) 0 = Some CEngine" by (simp add: w_ex_def)
  show ?thesis
    using Close_releases_engine [OF w_ex_wf r_ex_fields(1) live Close_r_ex] Close_r_ex by blast
qed

theorem Reset_isolates_destinations_witness:
  "\<exists>err r' w'. Reset (ref_api 2) r_ex (Some 1) w_ex = Ret (err, r', w') \<and>
     sinks w' 1 = sinks w_ex 1 \<and> (\<forall>k. k \<noteq> 0 \<longrightarrow> sinks w' k = sinks w_ex k) \<and>
     destination r' = Some 1 \<and> map_option fst (resampler r') = Some 0 \<and>
     blocks (heap w') = blocks (heap w_ex)"
proof -
  have "(0::nat) \<noteq> 1" by simp
  then show ?thesis
    using Reset_isolates_destinations [OF w_ex_wf r_ex_fields(1) r_ex_fields(5) _ Reset_r_ex]
      Reset_r_ex by blast
qed

theorem New_rejects_rates_witness:
  "New (ref_api 2) 4 (Some 0) 16000 0 2 I16 I16 HighQ w_ex = ((None, Some ErrRates), w_ex)"
  using New_rejects_rates [of "Some 0" 16000 0 "ref_api 2" 4 2 I16 I16 HighQ w_ex] by simp

theorem New_success_witness:
  "New (ref_api 2) 4 (Some 0) 16000 8000 2 I16 I16 HighQ w_ex =
     ((Some (r_ex\<lparr>resampler := Some (1, e_ex)\<rparr>), None),
      w_ex\<lparr>heap := snd (c_alloc CEngine (heap w_ex))\<rparr>)"
proof -
  have s: "sizeOf I16 = Inr 2" by (simp add: sizeOf_def format_defs)
  have c: "sx_create (ref_api 2) 16000 8000 (c_uint 2) (soxr_io_spec I16 I16)
      (soxr_quality_spec (nat HighQ) 0) (soxr_runtime_spec (c_uint 4)) = (None, Some e_ex)"
    by (simp add: ref_api_def ref_create_ex)
  have n: "next_addr (heap w_ex) = 1" by (simp add: w_ex_def)
  show ?thesis
    using New_success [of "Some 0" 16000 8000 2 HighQ I16 2 I16 2 "ref_api 2" 4 e_ex w_ex] s c n
    by (simp add: HighQ_def r_ex_def)
qed

theorem Write_soxr_error_frees_static_witness:
  "\<exists>w'. Write api_fail r_ex (replicate 40 0) w_ex =
      Ret ((0, Some (ErrSoxr ''internal error'')), r_ex\<lparr>resampler := Some (0, e_ex)\<rparr>, w') \<and>
      sinks w' = sinks w_ex \<and> blocks (heap w') = blocks (heap w_ex) \<and>
      bad_frees (heap w') = [CStatic ''internal error'']"
proof -
  have sx: "sx_process api_fail e_ex (Some (replicate 40 0, c_u64 (frames_in r_ex (length (replicate 40 (0::byte))))))
      (c_u64 (frames_out r_ex (frames_in r_ex (length (replicate 40 (0::byte)))))) =
      (Some ''internal error'', e_ex, 0, 0, [])"
    by (simp add: api_fail_def)
  have f: "soxr_failed (Some ''internal error'')" by (simp add: soxr_failed_def go_string_def)
  have "bad_frees (heap w_ex) = []" by (simp add: w_ex_def)
  then show ?thesis
    using Write_soxr_error_frees_static [OF r_ex_fields(1) _ _ _ _ sx f w_ex_wf]
    by (simp add: frames_r_ex)
qed

theorem Write_incomplete_iff_witness:
  "\<not> (\<exists>r' w'. Write (ref_api 2) r_ex (replicate 42 0) w_ex = Ret ((0, Some ErrIncomplete), r', w'))"
  using Write_incomplete_iff [of r_ex "ref_api 2" "replicate 42 0" w_ex] by simp

theorem New_accepts_negative_channels_witness:
  "unat (c_uint (-1)) = 4294967295 \<and>
   (\<exists>r w'. New (ref_api 2) 4 (Some 0) 16000 8000 (-1) I16 I16 HighQ w_ex = ((Some r, None), w') \<and>
            channels r = -1 \<and> resampler r \<noteq> None)"
proof -
  have s: "sizeOf I16 = Inr 2" by (simp add: sizeOf_def format_defs)
  let ?e = "\<lparr>rf_ratio = 1 / 2, rf_frame = unat (c_uint (-1)) * 2, rf_latency = 2, rf_fed = 0,
             rf_sent = 0\<rparr>"
  have c: "sx_create (ref_api 2) 16000 8000 (c_uint (-1)) (soxr_io_spec I16 I16)
      (soxr_quality_spec (nat HighQ) 0) (soxr_runtime_spec (c_uint 4)) = (None, Some ?e)"
    by (simp add: ref_api_def ref_create_def soxr_io_spec_def soxr_datasize_def I16_def c_uint_def)
  show ?thesis
    using New_accepts_negative_channels [of "Some 0" 16000 8000 "-1" HighQ I16 2 I16 2 "ref_api 2"
        4 ?e w_ex] s c
    by (simp add: HighQ_def)
qed

theorem flush_int_overflow_panics_witness:
  "flush api_flood (r_ex\<lparr>channels := 4096, outFrameSize := 8\<rparr>) (0, e_ex) w_ex =
     Panic ''gobytes: length out of range''"
proof -
  have "sx_process api_flood e_ex None (c_u64 (4096 * 16)) = (None, e_ex, 0, 65536, [])"
    by (simp add: api_flood_def c_u64_def)
  moreover have "int 65536 * channels (r_ex\<lparr>channels := 4096, outFrameSize := 8\<rparr>) *
      outFrameSize (r_ex\<lparr>channels := 4096, outFrameSize := 8\<rparr>) = 2 ^ 31"
    by simp
  ultimately show ?thesis by (rule flush_int_overflow_panics)
qed

section \<open>The lifecycle\<close>

lemma New_ex:
  "New (ref_api 2) 4 (Some 0) 16000 8000 2 I16 I16 HighQ w_ex =
     ((Some (r_ex\<lparr>resampler := Some (1, e_ex)\<rparr>), None),
      w_ex\<lparr>heap := snd (c_alloc CEngine (heap w_ex))\<rparr>)"
proof -
  have s: "sizeOf I16 = Inr 2" by (simp add: sizeOf_def format_defs)
  have c: "sx_create (ref_api 2) 16000 8000 (c_uint 2) (soxr_io_spec I16 I16)
      (soxr_quality_spec (c_u64 HighQ) 0) (soxr_runtime_spec (c_uint 4)) = (None, Some e_ex)"
    by (simp add: ref_api_def c_u64_def HighQ_def ref_create_ex [unfolded HighQ_def, simplified])
  show ?thesis
    using s c by (simp add: New_def soxr_create_w_def r_ex_def w_ex_def w_free_all_def HighQ_def)
qed

theorem reachable_inv_witness:
  "rs_inv (r_ex\<lparr>resampler := Some (1, e_ex)\<rparr>) (w_ex\<lparr>heap := snd (c_alloc CEngine (heap w_ex))\<rparr>)"
  using reachable_inv [OF rs_reach.new [OF w_ex_wf New_ex]] by simp



lemma Reset_nil_r_ex:
  "Reset (ref_api 2) r_ex None w_ex =
     Ret (None, r_ex\<lparr>resampler := Some (0, ref_clear e_ex), destination := None\<rparr>,
          w_ex\<lparr>heap := (heap w_ex)\<lparr>next_addr := 2\<rparr>\<rparr>)"
  by (simp add: Reset_def flush_r_ex) (simp add: ref_api_def)

theorem Reset_nil_then_Close_panics_witness:
  "Close (ref_api 2) (r_ex\<lparr>resampler := Some (0, ref_clear e_ex), destination := None\<rparr>)
     (w_ex\<lparr>heap := (heap w_ex)\<lparr>next_addr := 2\<rparr>\<rparr>) =
   Panic ''invalid memory address or nil pointer dereference''"
proof -
  have sx: "sx_process (ref_api 2) (ref_clear e_ex) None (c_u64 (4096 * 16)) =
      (None, ref_clear e_ex, 0, 0, [])"
    by (simp add: ref_api_def ref_process_def ref_clear_def e_ex_def)
  show ?thesis
    using Reset_nil_then_Close_panics [OF w_ex_wf r_ex_fields(1) Reset_nil_r_ex _ sx] by simp
qed

section \<open>Writes after a reset\<close>

lemma Write_after_reset_ex:
  "Write (ref_api 2) (r_ex\<lparr>resampler := Some (0, ref_clear e_ex), destination := Some 1\<rparr>) (replicate 40 0)
     (w_ex\<lparr>heap := (heap w_ex)\<lparr>next_addr := 2\<rparr>\<rparr>) =
   Ret ((40, None), r_ex\<lparr>resampler := Some (0, e_ex\<lparr>rf_fed := 10, rf_sent := 3\<rparr>), destination := Some 1\<rparr>,
        w_ex\<lparr>heap := (heap w_ex)\<lparr>next_addr := 4\<rparr>,
             sinks := (sinks w_ex)(1 := \<lparr>sink_data = replicate 12 0, sink_room = None, sink_closed = False\<rparr>)\<rparr>)"
  by (simp add: Write_def Let_def frames_in_div frames_out_def go_f2i_def c_u64_def ref_api_def ref_process_def
      ref_clear_def e_ex_def w_cbytes_def w_malloc_def c_cbytes_def c_malloc_def c_alloc_def go_bytes_def go_conv
      dest_write_def sink_write_def w_free_all_def w_ex_def r_ex_def)

theorem writes_after_reset_isolated_witness:
  "run_calls (ref_api 2) (map CWrite [replicate 40 0])
     (r_ex\<lparr>resampler := Some (0, ref_clear e_ex), destination := Some 1\<rparr>) (w_ex\<lparr>heap := (heap w_ex)\<lparr>next_addr := 2\<rparr>\<rparr>) =
   Ret (r_ex\<lparr>resampler := Some (0, e_ex\<lparr>rf_fed := 10, rf_sent := 3\<rparr>), destination := Some 1\<rparr>,
        w_ex\<lparr>heap := (heap w_ex)\<lparr>next_addr := 4\<rparr>,
             sinks := (sinks w_ex)(1 := \<lparr>sink_data = replicate 12 0, sink_room = None, sink_closed = False\<rparr>)\<rparr>) \<and>
   sinks (w_ex\<lparr>heap := (heap w_ex)\<lparr>next_addr := 4\<rparr>,
             sinks := (sinks w_ex)(1 := \<lparr>sink_data = replicate 12 0, sink_room = None, sink_closed = False\<rparr>)\<rparr>) 0 =
   sinks (w_ex\<lparr>heap := (heap w_ex)\<lparr>next_addr := 2\<rparr>\<rparr>) 0"
proof -
  have c: "run_calls (ref_api 2) (map CWrite [replicate 40 0])
     (r_ex\<lparr>resampler := Some (0, ref_clear e_ex), destination := Some 1\<rparr>) (w_ex\<lparr>heap := (heap w_ex)\<lparr>next_addr := 2\<rparr>\<rparr>) =
   Ret (r_ex\<lparr>resampler := Some (0, e_ex\<lparr>rf_fed := 10, rf_sent := 3\<rparr>), destination := Some 1\<rparr>,
        w_ex\<lparr>heap := (heap w_ex)\<lparr>next_addr := 4\<rparr>,
             sinks := (sinks w_ex)(1 := \<lparr>sink_data = replicate 12 0, sink_room = None, sink_closed = False\<rparr>)\<rparr>)"
    using Write_after_reset_ex by (simp add: run_call_def)
  show ?thesis
    using c writes_after_reset_isolated [OF Reset_r_ex c, of 0] by simp
qed

section \<open>The driver\<close>

lemma strToFormat_i16: "strToFormat ''i16'' = Inr I16"
  by (simp add: strToFormat_def go_to_lower_def go_lower_char_def)

lemma New_main_any:
  "New (ref_api 2) 4 (Some 0) 16000 8000 2 I16 I16 HighQ (main_world fs) =
     ((Some r_ex, None), (main_world fs)\<lparr>heap := \<lparr>blocks = [0 \<mapsto> CEngine], next_addr = 1, bad_frees = []\<rparr>\<rparr>)"
proof -
  have s: "sizeOf I16 = Inr 2" by (simp add: sizeOf_def format_defs)
  have c: "sx_create (ref_api 2) 16000 8000 (c_uint 2) (soxr_io_spec I16 I16)
      (soxr_quality_spec (c_u64 HighQ) 0) (soxr_runtime_spec (c_uint 4)) = (None, Some e_ex)"
    by (simp add: ref_api_def c_u64_def HighQ_def ref_create_ex [unfolded HighQ_def, simplified])
  show ?thesis
    using s c by (simp add: New_def soxr_create_w_def r_ex_def main_world_def w_free_all_def HighQ_def c_alloc_def)
qed

lemma input_pcm_raw: "input_pcm ''in.raw'' ''out.raw'' d = d"
  by (simp add: input_pcm_def filepath_Ext_def go_to_lower_def go_lower_char_def)

lemma Write_main_ex:
  "Write (ref_api 2) r_ex (replicate 8 0) ((main_world fs_full)\<lparr>heap := \<lparr>blocks = [0 \<mapsto> CEngine], next_addr = 1, bad_frees = []\<rparr>\<rparr>) =
     Ret ((8, None), r_ex\<lparr>resampler := Some (0, e_ex\<lparr>rf_fed := 2\<rparr>)\<rparr>,
          (main_world fs_full)\<lparr>heap := \<lparr>blocks = [0 \<mapsto> CEngine], next_addr = 3, bad_frees = []\<rparr>\<rparr>)"
  by (simp add: Write_def Let_def frames_in_def frames_out_def go_f2i_def c_u64_def ref_api_def
      ref_process_def e_ex_def w_cbytes_def w_malloc_def c_cbytes_def c_malloc_def c_alloc_def
      go_bytes_def c_int_def go_int_of_u64_def dest_write_def sink_write_def w_free_all_def main_world_def fs_full_def fun_upd_idem_iff)

lemma io_copy_main_ex:
  "io_copy (ref_api 2) r_ex (replicate 8 0) w_m1 =
     Ret ((8, None), r_ex\<lparr>resampler := Some (0, e_ex\<lparr>rf_fed := 2\<rparr>)\<rparr>, w_m2)"
proof -
  have "take copyBufSize (replicate 8 (0::byte)) = replicate 8 0" "drop copyBufSize (replicate 8 (0::byte)) = []"
    by (simp_all add: copyBufSize_def)
  then show ?thesis
    using io_copy_accept [of "replicate 8 0" "ref_api 2" r_ex w_m1] Write_main_ex by simp
qed

lemma Close_main_ex:
  "Close (ref_api 2) (r_ex\<lparr>resampler := Some (0, e_ex\<lparr>rf_fed := 2\<rparr>)\<rparr>) w_m2 =
     Ret (Some (ErrWrite ''no space left on device''), r_ex\<lparr>resampler := None\<rparr>,
          (main_world fs_full)\<lparr>heap := \<lparr>blocks = Map.empty, next_addr = 4, bad_frees = []\<rparr>\<rparr>)"
  by (simp add: Close_def flush_def Let_def c_u64_def ref_api_def ref_process_def e_ex_def
      w_malloc_def c_malloc_def c_alloc_def go_bytes_def c_int_def go_int_of_u64_def dest_write_def
      sink_write_def w_free_all_def soxr_delete_w_def main_world_def fs_full_def fun_upd_idem_iff r_ex_def)

theorem main_ignores_close_error_witness:
  "Close (ref_api 2) (r_ex\<lparr>resampler := Some (0, e_ex\<lparr>rf_fed := 2\<rparr>)\<rparr>) w_m2 =
     Ret (Some (ErrWrite ''no space left on device''), r_ex\<lparr>resampler := None\<rparr>,
          (main_world fs_full)\<lparr>heap := \<lparr>blocks = Map.empty, next_addr = 4, bad_frees = []\<rparr>\<rparr>) \<and>
   main (ref_api 2) 4 fl_ex fs_full = Ret (Exit0, write_file ''out.raw'' [] (write_file ''out.raw'' [] fs_full))"
proof -
  have a: "flag_args fl_ex = ''in.raw'' # ''out.raw'' # []" by (simp add: fl_ex_def default_flags_def)
  have f: "strToFormat (flag_if fl_ex) = Inr I16" "strToFormat (flag_iof fl_ex) = Inr I16"
    by (simp_all add: fl_ex_def default_flags_def strToFormat_i16)
  have v: "1 \<le> flag_ch fl_ex" "0 < flag_ir fl_ex" "0 < flag_or fl_ex"
    by (simp_all add: fl_ex_def default_flags_def)
  have d: "fs_files fs_full ''in.raw'' = Some (replicate 8 0)" "''out.raw'' \<notin> set (fs_readonly fs_full)"
    by (simp_all add: fs_full_def)
  have N: "New (ref_api 2) 4 (Some 0) (of_int (flag_ir fl_ex)) (of_int (flag_or fl_ex)) (flag_ch fl_ex)
      I16 I16 HighQ (main_world fs_full) = ((Some r_ex, None), w_m1)"
    using New_main_any by (simp add: fl_ex_def default_flags_def)
  have C: "io_copy (ref_api 2) r_ex (input_pcm ''in.raw'' ''out.raw'' (replicate 8 0)) w_m1 =
      Ret ((8, None), r_ex\<lparr>resampler := Some (0, e_ex\<lparr>rf_fed := 2\<rparr>)\<rparr>, w_m2)"
    using io_copy_main_ex by (simp add: input_pcm_raw)
  have s: "sink_data (sinks ((main_world fs_full)\<lparr>heap := \<lparr>blocks = Map.empty, next_addr = 4, bad_frees = []\<rparr>\<rparr>) 0) = []"
    by (simp add: main_world_def)
  show ?thesis
    using main_ignores_close_error [OF f v a d N C Close_main_ex] s Close_main_ex by simp
qed

theorem io_copy_run_calls_witness:
  "run_calls (ref_api 2) (map CWrite (chunks copyBufSize (replicate 8 0))) r_ex w_m1 =
     Ret (r_ex\<lparr>resampler := Some (0, e_ex\<lparr>rf_fed := 2\<rparr>)\<rparr>, w_m2) \<and>
   chunks copyBufSize (replicate 8 (0::byte)) = [replicate 8 0]"
proof -
  have "chunks copyBufSize (replicate 8 (0::byte)) = [replicate 8 0]"
    by (simp add: chunks_step copyBufSize_def)
  then show ?thesis using io_copy_run_calls [OF io_copy_main_ex] by simp
qed


theorem main_copy_error_removes_output_witness:
  "main (ref_api 2) 4 fl_ex fs_short =
     Ret (Exit1 ''incomplete input frame data'', remove_file ''out.raw'' (write_file ''out.raw'' [] fs_short)) \<and>
   fs_files (remove_file ''out.raw'' (write_file ''out.raw'' [] fs_short)) ''out.raw'' = None"
proof -
  let ?w1 = "(main_world fs_short)\<lparr>heap := \<lparr>blocks = [0 \<mapsto> CEngine], next_addr = 1, bad_frees = []\<rparr>\<rparr>"
  have a: "flag_args fl_ex = ''in.raw'' # ''out.raw'' # []" by (simp add: fl_ex_def default_flags_def)
  have f: "strToFormat (flag_if fl_ex) = Inr I16" "strToFormat (flag_iof fl_ex) = Inr I16"
    by (simp_all add: fl_ex_def default_flags_def strToFormat_i16)
  have v: "1 \<le> flag_ch fl_ex" "0 < flag_ir fl_ex" "0 < flag_or fl_ex"
    by (simp_all add: fl_ex_def default_flags_def)
  have d: "fs_files fs_short ''in.raw'' = Some [0, 0, 0]" "''out.raw'' \<notin> set (fs_readonly fs_short)"
    by (simp_all add: fs_short_def)
  have N: "New (ref_api 2) 4 (Some 0) (of_int (flag_ir fl_ex)) (of_int (flag_or fl_ex)) (flag_ch fl_ex)
      I16 I16 HighQ (main_world fs_short) = ((Some r_ex, None), ?w1)"
    using New_main_any by (simp add: fl_ex_def default_flags_def)
  have W: "Write (ref_api 2) r_ex (take copyBufSize [0, 0, 0]) ?w1 = Ret ((0, Some ErrIncomplete), r_ex, ?w1)"
    by (simp add: Write_def frames_in_div copyBufSize_def)
  have C: "io_copy (ref_api 2) r_ex (input_pcm ''in.raw'' ''out.raw'' [0, 0, 0]) ?w1 =
      Ret ((0, Some (CopyWrite ErrIncomplete)), r_ex, ?w1)"
    using io_copy_reject [OF _ W] by (simp add: input_pcm_raw)
  have Cl: "Close (ref_api 2) r_ex ?w1 =
      Ret (None, r_ex\<lparr>resampler := None\<rparr>,
           (main_world fs_short)\<lparr>heap := \<lparr>blocks = Map.empty, next_addr = 2, bad_frees = []\<rparr>\<rparr>)"
    by (simp add: Close_def flush_def Let_def c_u64_def ref_api_def ref_process_def e_ex_def
      w_malloc_def c_malloc_def c_alloc_def go_bytes_def c_int_def go_int_of_u64_def dest_write_def
      sink_write_def w_free_all_def soxr_delete_w_def main_world_def fs_short_def fun_upd_idem_iff r_ex_def)
  show ?thesis
    using main_copy_error_removes_output [OF f v a d N C Cl] by simp
qed

lemma r_tri_fields [simp]:
  "resampler r_tri = Some (0, e_ex)" "inFrameSize r_tri = 2" "outFrameSize r_tri = 2"
  "channels r_tri = 3" "destination r_tri = Some 0" "inRate r_tri = 16000" "outRate r_tri = 16000"
  by (simp_all add: r_tri_def)

lemma Write_tri_big:
  "Write api_flood r_tri (replicate 32768 0) w_ex =
     Ret ((32768, None), r_tri, w_ex\<lparr>heap := (heap w_ex)\<lparr>next_addr := 3\<rparr>\<rparr>)"
  by (simp add: Write_def Let_def frames_in_div frames_out_def go_f2i_def c_u64_def api_flood_def
      w_cbytes_def w_malloc_def c_cbytes_def c_malloc_def c_alloc_def go_bytes_def
      dest_write_def sink_write_def w_free_all_def w_ex_def fun_upd_idem_iff r_tri_def r_ex_def go_conv)

lemma Write_tri_small:
  "Write api_flood r_tri (replicate 6 0) (w_ex\<lparr>heap := (heap w_ex)\<lparr>next_addr := 3\<rparr>\<rparr>) =
     Ret ((6, None), r_tri, w_ex\<lparr>heap := (heap w_ex)\<lparr>next_addr := 5\<rparr>\<rparr>)"
  by (simp add: Write_def Let_def frames_in_div frames_out_def go_f2i_def c_u64_def api_flood_def
      w_cbytes_def w_malloc_def c_cbytes_def c_malloc_def c_alloc_def go_bytes_def
      dest_write_def sink_write_def w_free_all_def w_ex_def fun_upd_idem_iff r_tri_def r_ex_def go_conv)

lemma io_copy_tri:
  "io_copy api_flood r_tri (replicate 32774 0) w_ex =
     Ret ((32774, None), r_tri, w_ex\<lparr>heap := (heap w_ex)\<lparr>next_addr := 5\<rparr>\<rparr>)"
proof -
  have t: "take copyBufSize (replicate 32774 (0::byte)) = replicate 32768 0"
    "drop copyBufSize (replicate 32774 (0::byte)) = replicate 6 0"
    "take copyBufSize (replicate 6 (0::byte)) = replicate 6 0"
    "drop copyBufSize (replicate 6 (0::byte)) = []"
    by (simp_all add: copyBufSize_def)
  have c2: "io_copy api_flood r_tri (replicate 6 0) (w_ex\<lparr>heap := (heap w_ex)\<lparr>next_addr := 3\<rparr>\<rparr>) =
     Ret ((6, None), r_tri, w_ex\<lparr>heap := (heap w_ex)\<lparr>next_addr := 5\<rparr>\<rparr>)"
    using io_copy_accept [of "replicate 6 0" api_flood r_tri] Write_tri_small t(3,4) by simp
  show ?thesis
    using io_copy_accept [of "replicate 32774 0" api_flood r_tri w_ex] Write_tri_big c2 t(1,2) by simp
qed


section \<open>The error paths and the bound of Write\<close>


theorem Write_dest_error_witness:
  "\<exists>w' m. Write (ref_api 2) r_ex (replicate 40 0) w_room2 =
      Ret ((0, Some (ErrWrite m)), r_ex\<lparr>resampler := Some (0, e_ex\<lparr>rf_fed := 10, rf_sent := 3\<rparr>)\<rparr>, w') \<and>
      sink_data (sinks w' 0) = replicate 2 0 \<and> blocks (heap w') = [0 \<mapsto> CEngine]"
proof -
  have wf: "heap_wf (heap w_room2)" by (simp add: w_room2_def w_ex_def heap_wf_def)
  have s: "sinks w_room2 0 = \<lparr>sink_data = [], sink_room = Some 2, sink_closed = False\<rparr>"
    "blocks (heap w_room2) = [0 \<mapsto> CEngine]"
    by (simp_all add: w_room2_def w_ex_def)
  show ?thesis
    using Write_dest_error [of r_ex 0 e_ex "replicate 40 0" "ref_api 2"
      "e_ex\<lparr>rf_fed := 10, rf_sent := 3\<rparr>" 10 3 "replicate 12 0" 0 w_room2]
    by (simp add: frames_r_ex c_u64_small e_ex_process_40 wf s sink_accepts_def sink_write_def) force
qed

lemma frames_64000: "frames_in r_ex 64000 = 16000" "frames_out r_ex 16000 = 8000" "c_u64 16000 = 16000"
  "c_u64 8000 = 8000"
  by (simp_all add: frames_in_div frames_out_def go_f2i_def c_u64_def)

lemma e_ex_process_64000:
  "sx_process (ref_api 2) e_ex (Some (replicate 64000 0, 16000)) 8000 =
     (None, e_ex\<lparr>rf_fed := 16000, rf_sent := 7998\<rparr>, 16000, 7998, replicate 31992 0)"
  by (simp add: ref_api_def ref_process_def e_ex_def)

lemma Write_64000:
  "Write (ref_api 2) r_ex (replicate 64000 0) w_ex =
     Ret ((64000, None), r_ex\<lparr>resampler := Some (0, e_ex\<lparr>rf_fed := 16000, rf_sent := 7998\<rparr>)\<rparr>,
          w_ex\<lparr>heap := (heap w_ex)\<lparr>next_addr := 3\<rparr>,
               sinks := (sinks w_ex)(0 := \<lparr>sink_data = replicate 31992 0, sink_room = None, sink_closed = False\<rparr>)\<rparr>)"
  by (simp add: Write_def Let_def frames_64000 e_ex_process_64000 w_cbytes_def w_malloc_def c_cbytes_def
      c_malloc_def c_alloc_def go_bytes_def go_conv dest_write_def sink_write_def w_free_all_def w_ex_def)

theorem Write_output_bound_witness:
  "length (sink_data (sinks (w_ex\<lparr>heap := (heap w_ex)\<lparr>next_addr := 3\<rparr>,
       sinks := (sinks w_ex)(0 := \<lparr>sink_data = replicate 31992 0, sink_room = None, sink_closed = False\<rparr>)\<rparr>) 0))
     \<le> length (sink_data (sinks w_ex 0)) + c_u64 (frames_out r_ex (frames_in r_ex 64000)) * nat (2 * 2) \<and>
   c_u64 (frames_out r_ex (frames_in r_ex 64000)) * nat (2 * 2) = 32000"
proof -
  have sx: "sx_process (ref_api 2) e_ex (Some (replicate 64000 0, c_u64 (frames_in r_ex (length (replicate 64000 (0::byte))))))
      (c_u64 (frames_out r_ex (frames_in r_ex (length (replicate 64000 (0::byte)))))) =
      (None, e_ex\<lparr>rf_fed := 16000, rf_sent := 7998\<rparr>, 16000, 7998, replicate 31992 0)"
    by (simp add: frames_64000 e_ex_process_64000)
  show ?thesis
    using Write_output_bound [OF r_ex_fields(1) _ _ sx _ _ Write_64000, of 0]
    by (simp add: frames_64000)
qed

section \<open>The abstract stream\<close>

theorem call_misuse_iff_witness:
  "call_err (ref_api 2) CClose r_ex w_ex =
     Ret (None, r_ex\<lparr>resampler := None\<rparr>, w_ex\<lparr>heap := \<lparr>blocks = Map.empty, next_addr = 2, bad_frees = []\<rparr>\<rparr>) \<and>
   (None = Some ErrNilResampler \<longleftrightarrow> rs_abs r_ex = Closed) \<and>
   rs_abs (r_ex\<lparr>resampler := None\<rparr>) = fst (spec_call CClose (rs_abs r_ex))"
proof -
  have c: "call_err (ref_api 2) CClose r_ex w_ex =
     Ret (None, r_ex\<lparr>resampler := None\<rparr>, w_ex\<lparr>heap := \<lparr>blocks = Map.empty, next_addr = 2, bad_frees = []\<rparr>\<rparr>)"
    by (simp add: call_err_def Close_r_ex)
  show ?thesis using c call_misuse_iff [OF c] by simp
qed


theorem reach_close_live_witness:
  "\<exists>err' w'. Close (ref_api 2) (r_ex\<lparr>resampler := Some (1, e_ex)\<rparr>)
        (w_ex\<lparr>heap := snd (c_alloc CEngine (heap w_ex))\<rparr>) =
      Ret (err', r_ex\<lparr>resampler := None\<rparr>, w') \<and>
    rs_reach (ref_api 2) (r_ex\<lparr>resampler := None\<rparr>, w') \<and> rs_abs (r_ex\<lparr>resampler := None\<rparr>) = Closed"
proof -
  have sx: "sx_process (ref_api 2) e_ex None (c_u64 (4096 * 16)) = (None, e_ex, 0, 0, [])"
    by (simp add: ref_api_def ref_process_def e_ex_def)
  show ?thesis
    using reach_close_live [OF rs_reach.new [OF w_ex_wf New_ex], of 1 e_ex 0 None e_ex 0 0 "[]"] sx
    by simp
qed

section \<open>Round trips\<close>

theorem frames_in_roundtrip_witness:
  "frames_in r_ex (10 * nat (2 * 2)) = 10 \<and> frames_in r_ex 42 * (2 * 2) \<le> 42 \<and>
   42 < (frames_in r_ex 42 + 1) * (2 * 2)"
  using frames_in_roundtrip [of r_ex 10 42] by simp

section \<open>New: error paths\<close>

theorem New_config_error_no_alloc_witness:
  "\<exists>e. New (ref_api 2) 4 (Some 0) 16000 8000 2 7 I16 HighQ w_ex = ((None, Some e), w_ex) \<and>
     e \<in> {ErrWriterNil, ErrRates, ErrChannels, ErrQuality, ErrFormat}"
  using New_config_error_no_alloc [of "Some 0" 16000 8000 2 HighQ 7 I16 "ref_api 2" 4 w_ex]
  by (simp add: sizeOf_def format_defs)

theorem New_soxr_error_witness:
  "New api_nocreate 4 (Some 0) 16000 8000 2 I16 I16 HighQ w_ex =
     ((None, Some (ErrSoxr ''out of memory'')),
      w_ex\<lparr>heap := (heap w_ex)\<lparr>bad_frees := bad_frees (heap w_ex) @ [CStatic ''out of memory'']\<rparr>\<rparr>)"
proof -
  have s: "sizeOf I16 = Inr 2" by (simp add: sizeOf_def format_defs)
  show ?thesis
    using New_soxr_error [of "Some 0" 16000 8000 2 HighQ I16 2 I16 2 api_nocreate 4 "''out of memory''" w_ex] s
    by (simp add: api_nocreate_def HighQ_def)
qed

section \<open>Whole frames, copy rounds and conservation from New to Close\<close>

lemma Write_ex40:
  "Write (ref_api 2) r_ex (replicate 40 0) w_ex =
   Ret ((40, None), r_ex\<lparr>resampler := Some (0, e_ex\<lparr>rf_fed := 10, rf_sent := 3\<rparr>)\<rparr>,
        w_ex\<lparr>heap := (heap w_ex)\<lparr>next_addr := 3\<rparr>,
             sinks := (sinks w_ex)(0 := \<lparr>sink_data = replicate 12 0, sink_room = None, sink_closed = False\<rparr>)\<rparr>)"
  by (simp add: Write_def Let_def frames_in_div frames_out_def go_f2i_def c_u64_def ref_api_def ref_process_def
      e_ex_def w_cbytes_def w_malloc_def c_cbytes_def c_malloc_def c_alloc_def go_bytes_def go_conv
      dest_write_def sink_write_def w_free_all_def w_ex_def r_ex_def)

lemma Close_ex40:
  "Close (ref_api 2) (r_ex\<lparr>resampler := Some (0, e_ex\<lparr>rf_fed := 10, rf_sent := 3\<rparr>)\<rparr>)
     (w_ex\<lparr>heap := (heap w_ex)\<lparr>next_addr := 3\<rparr>,
           sinks := (sinks w_ex)(0 := \<lparr>sink_data = replicate 12 0, sink_room = None, sink_closed = False\<rparr>)\<rparr>) =
   Ret (None, r_ex\<lparr>resampler := None\<rparr>,
        w_ex\<lparr>heap := \<lparr>blocks = Map.empty, next_addr = 4, bad_frees = []\<rparr>,
             sinks := (sinks w_ex)(0 := \<lparr>sink_data = replicate 20 0, sink_room = None, sink_closed = False\<rparr>)\<rparr>)"
  by (simp add: Close_def flush_def Let_def c_u64_def ref_api_def ref_process_def e_ex_def
      w_malloc_def c_malloc_def c_alloc_def go_bytes_def go_conv dest_write_def
      sink_write_def w_free_all_def soxr_delete_w_def w_ex_def r_ex_def replicate_add [symmetric])



lemma Write_new40:
  "Write (ref_api 2) (r_ex\<lparr>resampler := Some (1, e_ex)\<rparr>) (replicate 40 0)
     (w_ex\<lparr>heap := snd (c_alloc CEngine (heap w_ex))\<rparr>) =
   Ret ((40, None), r_ex\<lparr>resampler := Some (1, e_ex\<lparr>rf_fed := 10, rf_sent := 3\<rparr>)\<rparr>,
        w_ex\<lparr>heap := \<lparr>blocks = [0 \<mapsto> CEngine, 1 \<mapsto> CEngine], next_addr = 4, bad_frees = []\<rparr>,
             sinks := (sinks w_ex)(0 := \<lparr>sink_data = replicate 12 0, sink_room = None, sink_closed = False\<rparr>)\<rparr>)"
  by (simp add: Write_def Let_def frames_in_div frames_out_def go_f2i_def c_u64_def ref_api_def ref_process_def
      e_ex_def w_cbytes_def w_malloc_def c_cbytes_def c_malloc_def c_alloc_def go_bytes_def go_conv
      dest_write_def sink_write_def w_free_all_def w_ex_def r_ex_def)

lemma Close_new40:
  "Close (ref_api 2) (r_ex\<lparr>resampler := Some (1, e_ex\<lparr>rf_fed := 10, rf_sent := 3\<rparr>)\<rparr>)
     (w_ex\<lparr>heap := \<lparr>blocks = [0 \<mapsto> CEngine, 1 \<mapsto> CEngine], next_addr = 4, bad_frees = []\<rparr>,
           sinks := (sinks w_ex)(0 := \<lparr>sink_data = replicate 12 0, sink_room = None, sink_closed = False\<rparr>)\<rparr>) =
   Ret (None, r_ex\<lparr>resampler := None\<rparr>,
        w_ex\<lparr>heap := \<lparr>blocks = [0 \<mapsto> CEngine], next_addr = 5, bad_frees = []\<rparr>,
             sinks := (sinks w_ex)(0 := \<lparr>sink_data = replicate 20 0, sink_room = None, sink_closed = False\<rparr>)\<rparr>)"
  by (simp add: Close_def flush_def Let_def c_u64_def ref_api_def ref_process_def e_ex_def
      w_malloc_def c_malloc_def c_alloc_def go_bytes_def go_conv dest_write_def
      sink_write_def w_free_all_def soxr_delete_w_def w_ex_def r_ex_def replicate_add [symmetric])

theorem New_Write_Close_conserves_witness:
  "sink_data (sinks (w_ex\<lparr>heap := \<lparr>blocks = [0 \<mapsto> CEngine], next_addr = 5, bad_frees = []\<rparr>,
             sinks := (sinks w_ex)(0 := \<lparr>sink_data = replicate 20 0, sink_room = None, sink_closed = False\<rparr>)\<rparr>) 0) =
   sink_data (sinks w_ex 0) @ replicate (nat (frames_out r_ex (frames_in r_ex 40)) * nat (2 * 2)) 0"
  using New_Write_Close_conserves [OF New_ex _ _ _ _ _ _ Write_new40 Close_new40]
  by (simp add: frames_r_ex r_ex_def frames_in_def frames_out_def go_f2i_def w_ex_def)

lemma Reset_new1:
  "Reset (ref_api 2) (r_ex\<lparr>resampler := Some (1, e_ex)\<rparr>) (Some 1)
     (w_ex\<lparr>heap := snd (c_alloc CEngine (heap w_ex))\<rparr>) =
   Ret (None, r_ex\<lparr>resampler := Some (1, e_ex), destination := Some 1\<rparr>,
        w_ex\<lparr>heap := \<lparr>blocks = [0 \<mapsto> CEngine, 1 \<mapsto> CEngine], next_addr = 3, bad_frees = []\<rparr>\<rparr>)"
  by (simp add: Reset_def flush_def Let_def c_u64_def ref_api_def ref_process_def ref_clear_def e_ex_def
      w_malloc_def c_malloc_def c_alloc_def go_bytes_def go_conv dest_write_def
      sink_write_def w_free_all_def w_ex_def r_ex_def fun_upd_idem_iff)

lemma Write_reset40:
  "Write (ref_api 2) (r_ex\<lparr>resampler := Some (1, e_ex), destination := Some 1\<rparr>) (replicate 40 0)
     (w_ex\<lparr>heap := \<lparr>blocks = [0 \<mapsto> CEngine, 1 \<mapsto> CEngine], next_addr = 3, bad_frees = []\<rparr>\<rparr>) =
   Ret ((40, None), r_ex\<lparr>resampler := Some (1, e_ex\<lparr>rf_fed := 10, rf_sent := 3\<rparr>), destination := Some 1\<rparr>,
        w_ex\<lparr>heap := \<lparr>blocks = [0 \<mapsto> CEngine, 1 \<mapsto> CEngine], next_addr = 5, bad_frees = []\<rparr>,
             sinks := (sinks w_ex)(1 := \<lparr>sink_data = replicate 12 0, sink_room = None, sink_closed = False\<rparr>)\<rparr>)"
  by (simp add: Write_def Let_def frames_in_div frames_out_def go_f2i_def c_u64_def ref_api_def ref_process_def
      e_ex_def w_cbytes_def w_malloc_def c_cbytes_def c_malloc_def c_alloc_def go_bytes_def go_conv
      dest_write_def sink_write_def w_free_all_def w_ex_def r_ex_def)

lemma Close_reset40:
  "Close (ref_api 2) (r_ex\<lparr>resampler := Some (1, e_ex\<lparr>rf_fed := 10, rf_sent := 3\<rparr>), destination := Some 1\<rparr>)
     (w_ex\<lparr>heap := \<lparr>blocks = [0 \<mapsto> CEngine, 1 \<mapsto> CEngine], next_addr = 5, bad_frees = []\<rparr>,
           sinks := (sinks w_ex)(1 := \<lparr>sink_data = replicate 12 0, sink_room = None, sink_closed = False\<rparr>)\<rparr>) =
   Ret (None, r_ex\<lparr>resampler := None, destination := Some 1\<rparr>,
        w_ex\<lparr>heap := \<lparr>blocks = [0 \<mapsto> CEngine], next_addr = 6, bad_frees = []\<rparr>,
             sinks := (sinks w_ex)(1 := \<lparr>sink_data = replicate 20 0, sink_room = None, sink_closed = False\<rparr>)\<rparr>)"
  by (simp add: Close_def flush_def Let_def c_u64_def ref_api_def ref_process_def e_ex_def
      w_malloc_def c_malloc_def c_alloc_def go_bytes_def go_conv dest_write_def
      sink_write_def w_free_all_def soxr_delete_w_def w_ex_def r_ex_def replicate_add [symmetric])


section \<open>A stream of two writes\<close>

lemma run_two_writes_ex:
  "run_calls (ref_api 2) (map CWrite [replicate 40 0, replicate 40 0] @ [CClose])
     (r_ex\<lparr>resampler := Some (1, e_ex)\<rparr>) (w_ex\<lparr>heap := snd (c_alloc CEngine (heap w_ex))\<rparr>) =
   Ret (r_ex\<lparr>resampler := None\<rparr>,
        w_ex\<lparr>heap := \<lparr>blocks = [0 \<mapsto> CEngine], next_addr = 7, bad_frees = []\<rparr>,
             sinks := (sinks w_ex)(0 := \<lparr>sink_data = replicate 40 0, sink_room = None, sink_closed = False\<rparr>)\<rparr>)"
  by (simp add: run_call_def Write_def Close_def flush_def Let_def frames_in_div frames_out_def go_f2i_def
      c_u64_def ref_api_def ref_process_def e_ex_def w_cbytes_def w_malloc_def c_cbytes_def c_malloc_def
      c_alloc_def go_bytes_def go_conv dest_write_def sink_write_def w_free_all_def soxr_delete_w_def
      w_ex_def r_ex_def replicate_add [symmetric])

theorem engine_conserves_frames_witness:
  "\<exists>out. sink_data (sinks (w_ex\<lparr>heap := \<lparr>blocks = [0 \<mapsto> CEngine], next_addr = 7, bad_frees = []\<rparr>,
             sinks := (sinks w_ex)(0 := \<lparr>sink_data = replicate 40 0, sink_room = None, sink_closed = False\<rparr>)\<rparr>) 0) =
     sink_data (sinks w_ex 0) @ out \<and>
     length out = nat (frames_out r_ex (\<Sum>p\<leftarrow>[replicate 40 0, replicate 40 (0::byte)]. frames_in r_ex (length p))) * nat (2 * 2)"
  using engine_conserves_frames [OF ref_api_refines New_ex _ _ _ _ _ _ _ run_two_writes_ex]
  by (simp add: frames_r_ex r_ex_def frames_in_def frames_out_def go_f2i_def w_ex_def)

section \<open>The command line\<close>


lemma flag_octal_rate:
  "parse_args (default_flags []) [''-ir'', ''016000'', ''in.raw'', ''out.raw''] =
     ParseOk ((default_flags [''in.raw'', ''out.raw''])\<lparr>flag_ir := 7168\<rparr>)"
  by code_simp

lemma flag_octal_reject:
  "run_process (ref_api 2) 4 [''resample'', ''-ir'', ''08000'', ''in.raw'', ''out.raw''] fs = Ret (2, fs)"
  by (simp add: run_process_def default_flags_def set_flag_def flag_names_def parse_int0_def parse_uint0_def
      strconv_digit_def strconv_lower_dec is_dec_def)

lemma flags_after_files_ignored:
  "run_process (ref_api 2) 4 [''resample'', ''in.raw'', ''out.raw'', ''-or'', ''8000''] fs = Ret (1, fs)"
  by (simp add: run_process_def default_flags_def program_def main_def strToFormat_def go_to_lower_def
      go_lower_char_def exit_code_def)

end
